(* ===== verification/Prelude.thy ===== *)
theory Prelude
  imports Complex_Main "HOL-Library.Sublist"
begin

text \<open>
  Shared vocabulary of the development: the JavaScript values the TypeScript
  sources compute with (numbers with NaN, truthiness of strings and optional
  fields, \<open>Date\<close> comparisons), the result record \<open>{isValid, errors}\<close> that every
  validator of \<open>src/lib/validations\<close> returns, the character classes used by the
  regular expressions, and the generic lemmas on lists and options that the
  component theories share.  The collection \<open>validation_simps\<close> gathers the
  equations that evaluate a validator on a concrete record.
\<close>

named_theorems validation_simps "equations that evaluate the validators"

section \<open>JavaScript values\<close>

subsection \<open>Numbers\<close>

text \<open>
  A TypeScript \<open>number\<close> is an IEEE double.  The checks of the sources only test
  truthiness (\<open>!x\<close>) and the comparison \<open>x <= 0\<close>, for which a double behaves as
  the real it denotes, except NaN: \<open>!NaN\<close> is true and \<open>NaN <= 0\<close> is false.
  (\<open>\<plusminus>Infinity\<close> behave in these two tests as any real of the same sign, and
  \<open>-0\<close> as \<open>0\<close>.)  NaN is what \<open>Number.parseInt\<close> returns on a form field that
  holds no digits.
\<close>

datatype js_number = JNum real | JNaN

fun js_truthy_num :: "js_number \<Rightarrow> bool" where
  "js_truthy_num (JNum x) = (x \<noteq> 0)"
| "js_truthy_num JNaN = False"

text \<open>\<open>x <= c\<close> for a number \<open>x\<close> and a numeric literal \<open>c\<close>: false on NaN.\<close>

fun js_le :: "js_number \<Rightarrow> real \<Rightarrow> bool" where
  "js_le (JNum x) c = (x \<le> c)"
| "js_le JNaN c = False"

subsection \<open>Strings and optional fields\<close>

text \<open>
  A string is truthy iff it is non-empty.  An optional field (\<open>email?: string\<close>)
  is \<open>None\<close> when absent (\<open>undefined\<close>), and \<open>data.email && \<dots>\<close> takes the branch
  only for a present non-empty string.  Strings are \<open>char list\<close>s of UTF-16 code
  units; \<open>char\<close> covers the Latin-1 range U+0000..U+00FF, which holds every
  character the sources' messages and tests use.
\<close>

definition js_truthy_str :: "string \<Rightarrow> bool" where
  "js_truthy_str s \<longleftrightarrow> s \<noteq> []"

fun js_truthy_opt :: "string option \<Rightarrow> bool" where
  "js_truthy_opt None = False"
| "js_truthy_opt (Some s) = js_truthy_str s"

subsection \<open>Dates\<close>

text \<open>
  \<open>new Date(s)\<close> holds a time value in milliseconds since the epoch, or NaN for
  an unparsable string; \<open>new Date()\<close> holds the current instant.  Which strings
  parse to which instants is left to the engine by ECMAScript outside the ISO
  format, so the validators take the parser as a parameter of type
  \<open>date_parser\<close>, \<open>None\<close> standing for NaN.  Relational operators compare the
  time values, and every comparison with NaN is false.
\<close>

type_synonym time = int

type_synonym date_parser = "string \<Rightarrow> time option"

fun date_gt :: "time option \<Rightarrow> time \<Rightarrow> bool" where
  "date_gt (Some t) now = (now < t)"
| "date_gt None now = False"

fun date_le :: "time option \<Rightarrow> time \<Rightarrow> bool" where
  "date_le (Some t) now = (t \<le> now)"
| "date_le None now = False"

subsection \<open>Characters\<close>

text \<open>\<open>\d\<close> is the ASCII digit class; \<open>\s\<close> is white space and line terminators,
  which in the Latin-1 range are TAB, LF, VT, FF, CR, SPACE and NBSP.\<close>

definition js_digit :: "char \<Rightarrow> bool" where
  "js_digit c \<longleftrightarrow> (48::nat) \<le> of_char c \<and> of_char c \<le> (57::nat)"

definition js_space :: "char \<Rightarrow> bool" where
  "js_space c \<longleftrightarrow> of_char c \<in> {9, 10, 11, 12, 13, 32, 160 :: nat}"

subsection \<open>Enumerations shared by the entities\<close>

text \<open>\<open>status: "active" | "inactive"\<close> of \<open>Supplier\<close> and \<open>Product\<close>
  (\<open>src/lib/types.ts\<close>).\<close>

datatype status = Active | Inactive

section \<open>Validation results\<close>

text \<open>
  Every validator builds \<open>const errors: string[] = []\<close>, pushes one message per
  violated rule, and returns \<open>{ isValid: errors.length === 0, errors }\<close>.  The
  pushes are modelled by concatenating the lists \<open>err_if cond msg\<close>, one per
  \<open>if (cond) errors.push(msg)\<close> of the source, in the source's order.
\<close>

record validation =
  isValid :: bool
  errors :: "string list"

definition mk_validation :: "string list \<Rightarrow> validation" where
  "mk_validation es = \<lparr>isValid = (length es = 0), errors = es\<rparr>"

definition err_if :: "bool \<Rightarrow> string \<Rightarrow> string list" where
  "err_if c m = (if c then [m] else [])"

section \<open>Event-driven components\<close>

text \<open>
  A React component is a state and a handler per event; \<open>step s e\<close> is the
  state after the handler of \<open>e\<close> has run.  The states a component reaches
  from its initial state by any sequence of events are \<open>reachable_from\<close>;
  \<open>run\<close> replays a concrete sequence.  A Supabase call answers with
  \<open>{ error }\<close>: \<open>None\<close> for success, \<open>Some msg\<close> for an error.
\<close>

inductive reachable_from :: "('s \<Rightarrow> 'e \<Rightarrow> 's) \<Rightarrow> 's \<Rightarrow> 's \<Rightarrow> bool"
  for step :: "'s \<Rightarrow> 'e \<Rightarrow> 's" and s0 :: 's where
  start: "reachable_from step s0 s0"
| step: "reachable_from step s0 s \<Longrightarrow> reachable_from step s0 (step s e)"

definition run :: "('s \<Rightarrow> 'e \<Rightarrow> 's) \<Rightarrow> 's \<Rightarrow> 'e list \<Rightarrow> 's" where
  "run step s es = fold (\<lambda>e s. step s e) es s"

type_synonym db_error = "string option"

section \<open>Shared lemmas\<close>

lemma isValid_mk_validation [simp, validation_simps]:
  "isValid (mk_validation es) \<longleftrightarrow> es = []"
  by (simp add: mk_validation_def)

lemma errors_mk_validation [simp, validation_simps]:
  "errors (mk_validation es) = es"
  by (simp add: mk_validation_def)

lemma err_if_simps [simp, validation_simps]:
  "err_if True m = [m]"
  "err_if False m = []"
  by (simp_all add: err_if_def)

lemma err_if_eq_Nil [simp]: "err_if c m = [] \<longleftrightarrow> \<not> c"
  by (simp add: err_if_def)

lemma set_err_if [simp]: "set (err_if c m) = (if c then {m} else {})"
  by (simp add: err_if_def)

lemma length_err_if [simp]: "length (err_if c m) = (if c then 1 else 0)"
  by (simp add: err_if_def)

lemma count_err_if [simp]: "count_list (err_if c m) x = (if c \<and> x = m then 1 else 0)"
  by (simp add: err_if_def)

lemma subseq_middle: "subseq ys (xs @ ys @ zs)"
  by (metis list_emb_append2 list_emb_prefix subseq_order.order_refl)

lemma subseq_err_if:
  "(a \<Longrightarrow> b) \<Longrightarrow> subseq xs ys \<Longrightarrow> subseq (err_if a m @ xs) (err_if b m @ ys)"
  by (cases a; cases b) (auto simp: err_if_def intro: list_emb_append2)

lemma js_truthy_str_iff [simp, validation_simps]: "js_truthy_str s \<longleftrightarrow> s \<noteq> []"
  by (simp add: js_truthy_str_def)

lemma js_truthy_opt_iff: "js_truthy_opt x \<longleftrightarrow> (\<exists>s. x = Some s \<and> s \<noteq> [])"
  by (cases x) simp_all

text \<open>A list of messages built by mapping a per-element check: how many
  messages name a given element, and how long it is.\<close>

lemma length_concat_map_err_if:
  "length (concat (map (\<lambda>x. err_if (P x) (f x)) xs)) = length (filter P xs)"
  by (induction xs) simp_all

lemma set_concat_map_err_if:
  "set (concat (map (\<lambda>x. err_if (P x) (f x)) xs)) = f ` {x \<in> set xs. P x}"
  by (induction xs) auto

lemma concat_map_err_if_Nil:
  "concat (map (\<lambda>x. err_if (P x) (f x)) xs) = [] \<longleftrightarrow> (\<forall>x\<in>set xs. \<not> P x)"
  by (induction xs) auto

lemma run_Nil [simp]: "run step s [] = s"
  by (simp add: run_def)

lemma run_Cons [simp]: "run step s (e # es) = run step (step s e) es"
  by (simp add: run_def)

lemma reachable_from_run_gen:
  "reachable_from step s0 s \<Longrightarrow> reachable_from step s0 (run step s es)"
  by (induction es arbitrary: s) (auto intro: reachable_from.step)

lemma reachable_from_run: "reachable_from step s0 (run step s0 es)"
  by (rule reachable_from_run_gen) (rule reachable_from.start)

text \<open>An invariant that holds initially and is kept by every event holds in
  every reachable state (rule induction).\<close>

lemma reachable_from_invariant:
  assumes "reachable_from step s0 s"
    and "P s0"
    and "\<And>s e. P s \<Longrightarrow> P (step s e)"
  shows "P s"
  using assms(1) by (induction rule: reachable_from.induct) (auto intro: assms(2,3))

end
