(* ===== verification/Regex.thy ===== *)
theory Regex
  imports Prelude
begin

text \<open>
  The three regular-expression literals of \<open>src/lib/validations/suppliers.validation.ts\<close>
  (\<open>/^\d{4}$/\<close>, \<open>/^[^\s@]+@[^\s@]+\.[^\s@]+$/\<close>, \<open>/^\d{9}-\d{1}$/\<close>) are
  anchored at both ends and carry no flags, so \<open>re.test(s)\<close> holds iff the
  whole of \<open>s\<close> is in the language of the pattern between the anchors.  This
  theory gives the patterns an abstract syntax (\<open>rexp\<close> over the character
  classes the literals use), their language (\<open>lang\<close>), and an executable
  matcher by Brzozowski derivatives (\<open>matcher\<close>), proved to decide membership
  in \<open>lang\<close>.  The JavaScript quantifiers \<open>r+\<close> and \<open>r{n}\<close> are derived forms.
\<close>

section \<open>Syntax and language\<close>

datatype char_class = Digit | NotSpaceAt | Lit char

fun class_match :: "char_class \<Rightarrow> char \<Rightarrow> bool" where
  "class_match Digit c = js_digit c"
| "class_match NotSpaceAt c = (\<not> js_space c \<and> c \<noteq> CHR ''@'')"
| "class_match (Lit d) c = (c = d)"

datatype rexp = RZero | REps | RAtom char_class | RAlt rexp rexp | RCat rexp rexp | RStar rexp

definition lang_conc :: "string set \<Rightarrow> string set \<Rightarrow> string set" where
  "lang_conc A B = {u @ v |u v. u \<in> A \<and> v \<in> B}"

inductive_set lang_star :: "string set \<Rightarrow> string set" for A :: "string set" where
  star_Nil: "[] \<in> lang_star A"
| star_app: "u \<in> A \<Longrightarrow> v \<in> lang_star A \<Longrightarrow> u @ v \<in> lang_star A"

primrec lang :: "rexp \<Rightarrow> string set" where
  "lang RZero = {}"
| "lang REps = {[]}"
| "lang (RAtom k) = {[c] |c. class_match k c}"
| "lang (RAlt r s) = lang r \<union> lang s"
| "lang (RCat r s) = lang_conc (lang r) (lang s)"
| "lang (RStar r) = lang_star (lang r)"

section \<open>The derivative matcher\<close>

primrec nullable :: "rexp \<Rightarrow> bool" where
  "nullable RZero = False"
| "nullable REps = True"
| "nullable (RAtom k) = False"
| "nullable (RAlt r s) = (nullable r \<or> nullable s)"
| "nullable (RCat r s) = (nullable r \<and> nullable s)"
| "nullable (RStar r) = True"

primrec deriv :: "char \<Rightarrow> rexp \<Rightarrow> rexp" where
  "deriv c RZero = RZero"
| "deriv c REps = RZero"
| "deriv c (RAtom k) = (if class_match k c then REps else RZero)"
| "deriv c (RAlt r s) = RAlt (deriv c r) (deriv c s)"
| "deriv c (RCat r s) =
     (if nullable r then RAlt (RCat (deriv c r) s) (deriv c s) else RCat (deriv c r) s)"
| "deriv c (RStar r) = RCat (deriv c r) (RStar r)"

text \<open>\<open>/^r$/.test(s)\<close>: the derivative by each character of \<open>s\<close> in turn, then
  whether the empty string is left in the language.\<close>

definition matcher :: "rexp \<Rightarrow> string \<Rightarrow> bool" where
  "matcher r s = nullable (fold deriv s r)"

text \<open>The derivative of a language, the specification of \<open>deriv\<close>.\<close>

definition Deriv :: "char \<Rightarrow> string set \<Rightarrow> string set" where
  "Deriv c A = {w. c # w \<in> A}"

section \<open>JavaScript quantifiers and sequences\<close>

definition rx_plus :: "rexp \<Rightarrow> rexp" where
  "rx_plus r = RCat r (RStar r)"

primrec rx_rep :: "nat \<Rightarrow> rexp \<Rightarrow> rexp" where
  "rx_rep 0 r = REps"
| "rx_rep (Suc n) r = RCat r (rx_rep n r)"

definition rx_seq :: "rexp list \<Rightarrow> rexp" where
  "rx_seq rs = foldr RCat rs REps"

section \<open>Language lemmas\<close>

named_theorems regex_simps "membership in the language of a pattern"

lemma in_lang_conc [simp, regex_simps]:
  "s \<in> lang_conc A B \<longleftrightarrow> (\<exists>u v. s = u @ v \<and> u \<in> A \<and> v \<in> B)"
  by (auto simp: lang_conc_def)

lemma Nil_in_lang_conc: "[] \<in> lang_conc A B \<longleftrightarrow> [] \<in> A \<and> [] \<in> B"
  by simp

lemma nullable_iff: "nullable r \<longleftrightarrow> [] \<in> lang r"
  by (induction r) (auto intro: lang_star.star_Nil)

lemma Deriv_conc:
  "Deriv c (lang_conc A B) = lang_conc (Deriv c A) B \<union> (if [] \<in> A then Deriv c B else {})"
  by (auto simp: Deriv_def Cons_eq_append_conv) (metis append_Cons)+

lemma Cons_in_star_imp:
  assumes "x \<in> lang_star A" and "x = c # w"
  shows "\<exists>u v. w = u @ v \<and> c # u \<in> A \<and> v \<in> lang_star A"
  using assms
proof (induction arbitrary: w rule: lang_star.induct)
  case star_Nil
  then show ?case by simp
next
  case (star_app u v)
  show ?case
  proof (cases u)
    case Nil
    with star_app show ?thesis by simp
  next
    case (Cons d u')
    with star_app show ?thesis by auto
  qed
qed

lemma Deriv_star: "Deriv c (lang_star A) = lang_conc (Deriv c A) (lang_star A)"
proof (intro set_eqI iffI)
  fix w assume "w \<in> Deriv c (lang_star A)"
  then show "w \<in> lang_conc (Deriv c A) (lang_star A)"
    by (auto simp: Deriv_def dest: Cons_in_star_imp)
next
  fix w assume "w \<in> lang_conc (Deriv c A) (lang_star A)"
  then obtain u v where "w = u @ v" "c # u \<in> A" "v \<in> lang_star A"
    by (auto simp: Deriv_def)
  then show "w \<in> Deriv c (lang_star A)"
    by (auto simp: Deriv_def dest: lang_star.star_app)
qed

lemma lang_deriv: "lang (deriv c r) = Deriv c (lang r)"
proof (induction r)
  case (RAtom k)
  then show ?case by (auto simp: Deriv_def)
next
  case (RCat r s)
  then show ?case by (simp add: Deriv_conc nullable_iff)
next
  case (RStar r)
  then show ?case by (simp add: Deriv_star)
qed (auto simp: Deriv_def)

text \<open>The matcher decides the language: the executable \<open>matcher\<close> is the
  reference semantics \<open>lang\<close>.\<close>

theorem matcher_correct: "matcher r s \<longleftrightarrow> s \<in> lang r"
proof (induction s arbitrary: r)
  case Nil
  then show ?case by (simp add: matcher_def nullable_iff)
next
  case (Cons c s)
  have "matcher r (c # s) = matcher (deriv c r) s"
    by (simp add: matcher_def)
  also have "\<dots> \<longleftrightarrow> s \<in> lang (deriv c r)"
    by (rule Cons.IH)
  also have "\<dots> \<longleftrightarrow> c # s \<in> lang r"
    by (simp add: lang_deriv Deriv_def)
  finally show ?case .
qed

subsection \<open>The derived forms\<close>

lemma in_star_atom_iff:
  "s \<in> lang_star (lang (RAtom k)) \<longleftrightarrow> (\<forall>c\<in>set s. class_match k c)"
proof
  assume "s \<in> lang_star (lang (RAtom k))"
  then show "\<forall>c\<in>set s. class_match k c"
    by (induction rule: lang_star.induct) auto
next
  assume "\<forall>c\<in>set s. class_match k c"
  then show "s \<in> lang_star (lang (RAtom k))"
  proof (induction s)
    case Nil
    show ?case by (rule lang_star.star_Nil)
  next
    case (Cons c s)
    then have "[c] @ s \<in> lang_star (lang (RAtom k))"
      by (intro lang_star.star_app) auto
    then show ?case by simp
  qed
qed

lemma in_lang_atom [simp, regex_simps]:
  "s \<in> lang (RAtom k) \<longleftrightarrow> (\<exists>c. s = [c] \<and> class_match k c)"
  by auto

lemma Nil_notin_conc_atom: "[] \<notin> lang_conc (lang (RAtom k)) B"
  by simp

lemma Cons_in_conc_atom:
  "c # v \<in> lang_conc (lang (RAtom k)) B \<longleftrightarrow> class_match k c \<and> v \<in> B"
proof
  assume "c # v \<in> lang_conc (lang (RAtom k)) B"
  then show "class_match k c \<and> v \<in> B" by auto
next
  assume a: "class_match k c \<and> v \<in> B"
  show "c # v \<in> lang_conc (lang (RAtom k)) B"
    unfolding lang_conc_def using a
    by (intro CollectI exI[of _ "[c]"] exI[of _ v]) simp
qed

lemma in_conc_lit:
  "s \<in> lang_conc (lang (RAtom (Lit c))) B \<longleftrightarrow> (\<exists>v. s = c # v \<and> v \<in> B)"
  by (cases s) (auto simp: Cons_in_conc_atom)

lemma in_lang_plus_atom [simp, regex_simps]:
  "s \<in> lang (rx_plus (RAtom k)) \<longleftrightarrow> s \<noteq> [] \<and> (\<forall>c\<in>set s. class_match k c)"
proof (cases s)
  case Nil
  then show ?thesis by (simp only: rx_plus_def lang.simps(5) Nil_notin_conc_atom) simp
next
  case (Cons c v)
  then show ?thesis
    by (simp only: rx_plus_def lang.simps(5,6) Cons_in_conc_atom in_star_atom_iff) simp
qed

lemma in_lang_rep_atom [simp, regex_simps]:
  "s \<in> lang (rx_rep n (RAtom k)) \<longleftrightarrow> length s = n \<and> (\<forall>c\<in>set s. class_match k c)"
proof (induction n arbitrary: s)
  case 0
  then show ?case by auto
next
  case (Suc n)
  show ?case
  proof (cases s)
    case Nil
    then show ?thesis by (simp only: rx_rep.simps lang.simps(5) Nil_notin_conc_atom) simp
  next
    case (Cons c v)
    then show ?thesis
      by (simp only: rx_rep.simps lang.simps(5) Cons_in_conc_atom Suc.IH) auto
  qed
qed

lemma lang_rx_seq_Nil [simp, regex_simps]: "lang (rx_seq []) = {[]}"
  by (simp add: rx_seq_def)

lemma lang_rx_seq_Cons [simp, regex_simps]:
  "lang (rx_seq (r # rs)) = lang_conc (lang r) (lang (rx_seq rs))"
  by (simp add: rx_seq_def)

end
