(* ===== verification/SupplierValidation.thy ===== *)
theory SupplierValidation
  imports Regex
begin

text \<open>
  \<open>src/lib/validations/suppliers.validation.ts\<close>: the input records
  \<open>CreateSupplierData\<close> and \<open>UpdateSupplierData\<close>, the class
  \<open>SupplierValidation\<close> with \<open>validateCreate\<close>, \<open>validateUpdate\<close> and the private
  helpers \<open>isValidEmail\<close> and \<open>isValidNIT\<close>, and the inline economic-activity
  check \<open>/^\d{4}$/.test(code)\<close>.  The three regular expressions are \<open>rexp\<close>
  values of theory \<open>Regex\<close>; each is proved equal to a plain description of
  the strings it accepts (\<open>email_shape\<close>, \<open>activity_code_ok\<close>, \<open>nit_ok\<close>), and
  the validators are characterised by those descriptions.
\<close>

section \<open>Input records\<close>

datatype id_type = CC | NIT | CE | PP

text \<open>\<open>UpdateSupplierData extends Partial<CreateSupplierData>\<close> adds \<open>status\<close>;
  every field is optional.  It is declared first so that the unqualified field
  names below denote the fields of \<open>CreateSupplierData\<close>.\<close>

record UpdateSupplierData =
  id_type :: "id_type option"
  id_number :: "string option"
  name :: "string option"
  address :: "string option"
  phone :: "string option"
  email :: "string option"
  contact_person :: "string option"
  economic_activity :: "string list option"
  status :: "status option"

text \<open>\<open>id_type\<close> is typed as the union \<open>"CC" | "NIT" | "CE" | "PP"\<close>, but the
  form that fills it starts with \<open>""\<close> and the validator tests \<open>!data.id_type\<close>:
  \<open>None\<close> is the empty or missing document type.\<close>

record CreateSupplierData =
  id_type :: "id_type option"
  id_number :: string
  name :: string
  address :: "string option"
  phone :: "string option"
  email :: "string option"
  contact_person :: "string option"
  economic_activity :: "string list option"

section \<open>Messages\<close>

text \<open>The messages, character for character; the accented letters are the
  Latin-1 code units U+00FA (u acute), U+00E1 (a acute) and U+00F3 (o acute).\<close>

definition msg_id_type_required :: string where
  "msg_id_type_required = ''Tipo de documento es requerido''"

definition msg_id_number_required :: string where
  "msg_id_number_required = ''N'' @ [CHR 0xFA] @ ''mero de documento es requerido''"

definition msg_name_required :: string where
  "msg_name_required = ''Nombre del proveedor es requerido''"

definition msg_invalid_email :: string where
  "msg_invalid_email = ''Formato de email inv'' @ [CHR 0xE1] @ ''lido''"

definition msg_activity_prefix :: string where
  "msg_activity_prefix =
     ''C'' @ [CHR 0xF3] @ ''digo de actividad econ'' @ [CHR 0xF3] @ ''mica inv'' @ [CHR 0xE1] @ ''lido: ''"

definition msg_invalid_activity :: "string \<Rightarrow> string" where
  "msg_invalid_activity code = msg_activity_prefix @ code"

definition msg_invalid_nit :: string where
  "msg_invalid_nit = ''Formato de NIT inv'' @ [CHR 0xE1] @ ''lido''"

section \<open>Patterns and helpers\<close>

text \<open>\<open>/^\d{4}$/\<close>\<close>

definition activity_code_rx :: rexp where
  "activity_code_rx = rx_rep 4 (RAtom Digit)"

text \<open>\<open>/^[^\s@]+@[^\s@]+\.[^\s@]+$/\<close>\<close>

definition email_rx :: rexp where
  "email_rx = rx_seq [rx_plus (RAtom NotSpaceAt), RAtom (Lit CHR ''@''),
                      rx_plus (RAtom NotSpaceAt), RAtom (Lit CHR ''.''),
                      rx_plus (RAtom NotSpaceAt)]"

text \<open>\<open>/^\d{9}-\d{1}$/\<close>\<close>

definition nit_rx :: rexp where
  "nit_rx = rx_seq [rx_rep 9 (RAtom Digit), RAtom (Lit CHR ''-''), rx_rep 1 (RAtom Digit)]"

definition isValidEmail :: "string \<Rightarrow> bool" where
  "isValidEmail e = matcher email_rx e"

definition isValidNIT :: "string \<Rightarrow> bool" where
  "isValidNIT nit = matcher nit_rx nit"

text \<open>\<open>if (data.email && !this.isValidEmail(data.email)) errors.push(\<dots>)\<close>,
  the same lines in both validators.\<close>

fun check_email :: "string option \<Rightarrow> string list" where
  "check_email None = []"
| "check_email (Some e) = err_if (js_truthy_str e \<and> \<not> isValidEmail e) msg_invalid_email"

text \<open>\<open>for (const code of data.economic_activity) if (!/^\d{4}$/.test(code))
  errors.push(`\<dots>${code}`)\<close>: one message per failing code, in order.\<close>

fun activity_errors :: "string list \<Rightarrow> string list" where
  "activity_errors [] = []"
| "activity_errors (code # cs) =
     err_if (\<not> matcher activity_code_rx code) (msg_invalid_activity code) @ activity_errors cs"

text \<open>\<open>if (data.economic_activity) { for \<dots> }\<close>: an array, even an empty one,
  is truthy, so only an absent field skips the loop.\<close>

fun check_activities :: "string list option \<Rightarrow> string list" where
  "check_activities None = []"
| "check_activities (Some cs) = activity_errors cs"

section \<open>The validators\<close>

definition supplier_validateCreate :: "CreateSupplierData \<Rightarrow> validation" where
  "supplier_validateCreate d = mk_validation
     (err_if (id_type d = None) msg_id_type_required
      @ err_if (\<not> js_truthy_str (id_number d)) msg_id_number_required
      @ err_if (\<not> js_truthy_str (name d)) msg_name_required
      @ check_email (email d)
      @ check_activities (economic_activity d)
      @ err_if (id_type d = Some NIT \<and> \<not> isValidNIT (id_number d)) msg_invalid_nit)"

definition supplier_validateUpdate :: "UpdateSupplierData \<Rightarrow> validation" where
  "supplier_validateUpdate u = mk_validation
     (check_email (UpdateSupplierData.email u)
      @ check_activities (UpdateSupplierData.economic_activity u))"

section \<open>What the patterns accept\<close>

definition activity_code_ok :: "string \<Rightarrow> bool" where
  "activity_code_ok c \<longleftrightarrow> length c = 4 \<and> list_all js_digit c"

definition nit_ok :: "string \<Rightarrow> bool" where
  "nit_ok s \<longleftrightarrow> length s = 11 \<and> list_all js_digit (take 9 s) \<and> s ! 9 = CHR ''-'' \<and> js_digit (s ! 10)"

definition email_part :: "string \<Rightarrow> bool" where
  "email_part p \<longleftrightarrow> p \<noteq> [] \<and> (\<forall>c\<in>set p. \<not> js_space c \<and> c \<noteq> CHR ''@'')"

definition email_shape :: "string \<Rightarrow> bool" where
  "email_shape e \<longleftrightarrow>
     (\<exists>l d t. e = l @ ''@'' @ d @ ''.'' @ t \<and> email_part l \<and> email_part d \<and> email_part t)"

text \<open>The specification of the two optional checks shared by both validators.\<close>

definition email_field_ok :: "string option \<Rightarrow> bool" where
  "email_field_ok x = (case x of None \<Rightarrow> True | Some e \<Rightarrow> e = [] \<or> email_shape e)"

definition activities_ok :: "string list option \<Rightarrow> bool" where
  "activities_ok x = (case x of None \<Rightarrow> True | Some cs \<Rightarrow> list_all activity_code_ok cs)"

text \<open>A \<open>CreateSupplierData\<close> value is an \<open>UpdateSupplierData\<close>
  (\<open>UpdateSupplierData extends Partial<CreateSupplierData>\<close>): every field
  present, no \<open>status\<close>.\<close>

definition supplier_update_of :: "CreateSupplierData \<Rightarrow> UpdateSupplierData" where
  "supplier_update_of d =
     \<lparr>UpdateSupplierData.id_type = id_type d, UpdateSupplierData.id_number = Some (id_number d),
      UpdateSupplierData.name = Some (name d), UpdateSupplierData.address = address d,
      UpdateSupplierData.phone = phone d, UpdateSupplierData.email = email d,
      UpdateSupplierData.contact_person = contact_person d,
      UpdateSupplierData.economic_activity = economic_activity d,
      UpdateSupplierData.status = None\<rparr>"

section \<open>Lemmas\<close>

lemma activity_code_rx_iff [simp]: "matcher activity_code_rx c \<longleftrightarrow> activity_code_ok c"
  by (simp add: matcher_correct activity_code_rx_def activity_code_ok_def list_all_iff)

lemma nit_rx_decomp:
  "matcher nit_rx s \<longleftrightarrow>
     (\<exists>a b. s = a @ [CHR ''-'', b] \<and> length a = 9 \<and> list_all js_digit a \<and> js_digit b)"
  by (auto simp: matcher_correct nit_rx_def list_all_iff length_Suc_conv)

lemma nit_rx_iff: "matcher nit_rx s \<longleftrightarrow> nit_ok s"
proof -
  have "matcher nit_rx s \<longleftrightarrow>
        (\<exists>a b. s = a @ [CHR ''-'', b] \<and> length a = 9 \<and> list_all js_digit a \<and> js_digit b)"
    by (rule nit_rx_decomp)
  also have "\<dots> \<longleftrightarrow> nit_ok s"
  proof
    assume "\<exists>a b. s = a @ [CHR ''-'', b] \<and> length a = 9 \<and> list_all js_digit a \<and> js_digit b"
    then show "nit_ok s" by (auto simp: nit_ok_def nth_append)
  next
    assume n: "nit_ok s"
    have l: "length (drop 9 s) = 2" using n by (simp add: nit_ok_def)
    have d: "drop 9 s = [s ! 9, s ! 10]"
    proof (rule nth_equalityI)
      show "length (drop 9 s) = length [s ! 9, s ! 10]" using l by simp
    next
      fix i assume "i < length (drop 9 s)"
      then have "i = 0 \<or> i = 1" using l by auto
      then show "drop 9 s ! i = [s ! 9, s ! 10] ! i" using n by (auto simp: nit_ok_def)
    qed
    have "s = take 9 s @ drop 9 s" by simp
    with d have e: "s = take 9 s @ [CHR ''-'', s ! 10]" using n by (simp add: nit_ok_def)
    show "\<exists>a b. s = a @ [CHR ''-'', b] \<and> length a = 9 \<and> list_all js_digit a \<and> js_digit b"
    proof (intro exI conjI)
      show "s = take 9 s @ [CHR ''-'', s ! 10]" by (rule e)
      show "length (take 9 s) = 9" using n by (simp add: nit_ok_def)
      show "list_all js_digit (take 9 s)" using n by (simp add: nit_ok_def)
      show "js_digit (s ! 10)" using n by (simp add: nit_ok_def)
    qed
  qed
  finally show ?thesis .
qed

lemma email_rx_iff: "matcher email_rx e \<longleftrightarrow> email_shape e"
proof -
  have "matcher email_rx e \<longleftrightarrow>
     (\<exists>l r1. e = l @ r1 \<and> email_part l \<and> (\<exists>r2. r1 = CHR ''@'' # r2 \<and>
        (\<exists>d r3. r2 = d @ r3 \<and> email_part d \<and> (\<exists>t. r3 = CHR ''.'' # t \<and> email_part t))))"
    by (simp add: matcher_correct email_rx_def email_part_def in_conc_lit del: in_lang_conc)
       (simp add: in_lang_conc)
  also have "\<dots> \<longleftrightarrow> email_shape e"
    unfolding email_shape_def by auto blast
  finally show ?thesis .
qed

lemmas supplier_pattern_iffs [simp] =
  isValidEmail_def[THEN trans, OF email_rx_iff] isValidNIT_def[THEN trans, OF nit_rx_iff]

lemma activity_errors_eq:
  "activity_errors cs = map msg_invalid_activity (filter (\<lambda>c. \<not> activity_code_ok c) cs)"
  by (induction cs) simp_all

lemma check_email_Nil_iff [simp]: "check_email x = [] \<longleftrightarrow> email_field_ok x"
  by (cases x) (auto simp: email_field_ok_def)

lemma check_activities_Nil_iff [simp]: "check_activities x = [] \<longleftrightarrow> activities_ok x"
  by (cases x) (auto simp: activities_ok_def activity_errors_eq filter_empty_conv list_all_iff)

lemmas supplier_messages =
  msg_id_type_required_def msg_id_number_required_def msg_name_required_def
  msg_invalid_email_def msg_activity_prefix_def msg_invalid_nit_def

lemma check_email_msgs: "set (check_email x) \<subseteq> {msg_invalid_email}"
  by (cases x) auto

lemma no_activity_prefix:
  "\<not> prefix msg_activity_prefix msg_id_type_required"
  "\<not> prefix msg_activity_prefix msg_id_number_required"
  "\<not> prefix msg_activity_prefix msg_name_required"
  "\<not> prefix msg_activity_prefix msg_invalid_email"
  "\<not> prefix msg_activity_prefix msg_invalid_nit"
  by (simp_all add: supplier_messages)

lemma filter_activity_prefix_check_email:
  "filter (prefix msg_activity_prefix) (check_email x) = []"
  by (cases x) (simp_all add: err_if_def no_activity_prefix)

lemma filter_activity_prefix_err_if:
  "\<not> prefix msg_activity_prefix m \<Longrightarrow> filter (prefix msg_activity_prefix) (err_if c m) = []"
  by (simp add: err_if_def)

lemma prefix_msg_invalid_activity: "prefix msg_activity_prefix (msg_invalid_activity c)"
  by (rule prefixI) (simp add: msg_invalid_activity_def)

lemma filter_activity_prefix_map:
  "filter (prefix msg_activity_prefix) (map msg_invalid_activity cs) = map msg_invalid_activity cs"
  by (simp add: filter_id_conv prefix_msg_invalid_activity)

text \<open>C1 (supplier create): \<open>validateCreate\<close> accepts a candidate exactly when
  the document type, document number and name are present, a present non-empty
  email has the shape \<open>local@domain.tld\<close>, every listed activity code is four
  digits, and a NIT document number is nine digits, a hyphen and one digit.\<close>

theorem supplier_validateCreate_valid_iff:
  "isValid (supplier_validateCreate d) \<longleftrightarrow>
     id_type d \<noteq> None \<and> id_number d \<noteq> [] \<and> name d \<noteq> [] \<and>
     email_field_ok (email d) \<and> activities_ok (economic_activity d) \<and>
     (id_type d = Some NIT \<longrightarrow> nit_ok (id_number d))"
  by (auto simp: supplier_validateCreate_def)

theorem supplier_validateCreate_valid_iff_witness:
  "nit_ok ''900123456-1'' \<and>
   isValid (supplier_validateCreate
     \<lparr>id_type = Some NIT, id_number = ''900123456-1'', name = ''Drogueria Central'',
      address = None, phone = None, email = None, contact_person = None,
      economic_activity = Some [''4645'']\<rparr>)"
  using supplier_validateCreate_valid_iff
    [of "\<lparr>id_type = Some NIT, id_number = ''900123456-1'', name = ''Drogueria Central'',
          address = None, phone = None, email = None, contact_person = None,
          economic_activity = Some [''4645'']\<rparr>"]
  by (simp add: nit_ok_def js_digit_def email_field_ok_def activities_ok_def activity_code_ok_def)

text \<open>C11 (economic-activity errors): for a candidate listing activity codes, the
  errors that name an activity code are exactly one message per non-conforming
  code, in list order, each naming that code; so their number is the number of
  non-conforming entries.\<close>

theorem supplier_activity_errors_exact:
  assumes "economic_activity d = Some cs"
  shows "filter (prefix msg_activity_prefix) (errors (supplier_validateCreate d)) =
         map msg_invalid_activity (filter (\<lambda>c. \<not> activity_code_ok c) cs)"
  using assms
  by (simp add: supplier_validateCreate_def filter_activity_prefix_check_email
      filter_activity_prefix_err_if no_activity_prefix filter_activity_prefix_map activity_errors_eq)

theorem supplier_activity_errors_exact_witness:
  "filter (prefix msg_activity_prefix) (errors (supplier_validateCreate
     \<lparr>id_type = Some CC, id_number = ''1020304050'', name = ''Ana'',
      address = None, phone = None, email = None, contact_person = None,
      economic_activity = Some [''4645'', ''12a'', ''0000'', ''99999'']\<rparr>)) =
   [msg_invalid_activity ''12a'', msg_invalid_activity ''99999'']"
  using supplier_activity_errors_exact
    [of "\<lparr>id_type = Some CC, id_number = ''1020304050'', name = ''Ana'',
          address = None, phone = None, email = None, contact_person = None,
          economic_activity = Some [''4645'', ''12a'', ''0000'', ''99999'']\<rparr>"
        "[''4645'', ''12a'', ''0000'', ''99999'']"]
  by (simp add: activity_code_ok_def js_digit_def)

text \<open>Missing name: a create candidate with an empty name is rejected and
  its errors contain the missing-name message.\<close>

theorem supplier_missing_name_rejected:
  assumes "name d = []"
  shows "\<not> isValid (supplier_validateCreate d) \<and>
         msg_name_required \<in> set (errors (supplier_validateCreate d))"
  using assms by (simp add: supplier_validateCreate_def)

theorem supplier_missing_name_rejected_witness:
  "\<not> isValid (supplier_validateCreate
     \<lparr>id_type = Some CC, id_number = ''1020304050'', name = [],
      address = None, phone = None, email = None, contact_person = None,
      economic_activity = None\<rparr>) \<and>
   msg_name_required \<in> set (errors (supplier_validateCreate
     \<lparr>id_type = Some CC, id_number = ''1020304050'', name = [],
      address = None, phone = None, email = None, contact_person = None,
      economic_activity = None\<rparr>))"
  by (rule supplier_missing_name_rejected) simp

text \<open>C21 (NIT format): \<open>isValidNIT\<close> accepts exactly the strings made of nine
  digits, a hyphen and one digit.\<close>

theorem isValidNIT_accepts:
  "isValidNIT s \<longleftrightarrow>
     (\<exists>a b. s = a @ [CHR ''-'', b] \<and> length a = 9 \<and> list_all js_digit a \<and> js_digit b)"
  unfolding isValidNIT_def by (rule nit_rx_decomp)

theorem isValidNIT_accepts_witness:
  "isValidNIT ''900123456-1'' \<and> \<not> isValidNIT ''900123456''"
proof
  show "isValidNIT ''900123456-1''"
    by (rule isValidNIT_accepts[THEN iffD2], rule exI[of _ "''900123456''"],
        rule exI[of _ "CHR ''1''"]) (simp add: js_digit_def)
  show "\<not> isValidNIT ''900123456''"
    using isValidNIT_accepts[of "''900123456''"] by (auto dest: arg_cong[where f = length])
qed

text \<open>C22 (email format): \<open>isValidEmail\<close> accepts exactly the strings
  \<open>l@d.t\<close> whose three parts are non-empty and free of white space and \<open>@\<close>
  (the domain part may itself contain dots).\<close>

theorem isValidEmail_accepts:
  "isValidEmail e \<longleftrightarrow>
     (\<exists>l d t. e = l @ ''@'' @ d @ ''.'' @ t \<and> email_part l \<and> email_part d \<and> email_part t)"
  by (simp add: isValidEmail_def email_rx_iff email_shape_def)

theorem isValidEmail_accepts_witness: "isValidEmail ''ventas@drogueria.com.co''"
  by (rule isValidEmail_accepts[THEN iffD2], rule exI[of _ "''ventas''"],
      rule exI[of _ "''drogueria.com''"], rule exI[of _ "''co''"])
     (simp add: email_part_def js_space_def)

text \<open>C25 (supplier update): \<open>validateUpdate\<close> accepts a partial payload
  exactly when a present non-empty email has the email shape and every listed
  activity code is four digits; it checks no required field and no NIT format,
  so a payload setting the type to NIT with a malformed number passes.\<close>

theorem supplier_validateUpdate_valid_iff:
  "isValid (supplier_validateUpdate u) \<longleftrightarrow>
     email_field_ok (UpdateSupplierData.email u) \<and>
     activities_ok (UpdateSupplierData.economic_activity u)"
  by (simp add: supplier_validateUpdate_def)

theorem supplier_validateUpdate_valid_iff_witness:
  "isValid (supplier_validateUpdate
     \<lparr>UpdateSupplierData.id_type = Some NIT, UpdateSupplierData.id_number = Some ''123'',
      UpdateSupplierData.name = None, UpdateSupplierData.address = None,
      UpdateSupplierData.phone = None, UpdateSupplierData.email = None,
      UpdateSupplierData.contact_person = None, UpdateSupplierData.economic_activity = None,
      UpdateSupplierData.status = None\<rparr>) \<and>
   \<not> isValid (supplier_validateCreate
     \<lparr>id_type = Some NIT, id_number = ''123'', name = ''Ana'',
      address = None, phone = None, email = None, contact_person = None,
      economic_activity = None\<rparr>)"
  using supplier_validateUpdate_valid_iff
    [of "\<lparr>UpdateSupplierData.id_type = Some NIT, UpdateSupplierData.id_number = Some ''123'',
          UpdateSupplierData.name = None, UpdateSupplierData.address = None,
          UpdateSupplierData.phone = None, UpdateSupplierData.email = None,
          UpdateSupplierData.contact_person = None, UpdateSupplierData.economic_activity = None,
          UpdateSupplierData.status = None\<rparr>"]
  by (simp add: email_field_ok_def activities_ok_def supplier_validateCreate_def nit_ok_def)

text \<open>Update is weaker than create: on the same data, \<open>validateUpdate\<close>
  reports a subsequence of what \<open>validateCreate\<close> reports.\<close>

theorem supplier_update_errors_subseq_create:
  "subseq (errors (supplier_validateUpdate (supplier_update_of d)))
          (errors (supplier_validateCreate d))"
  unfolding supplier_validateUpdate_def supplier_validateCreate_def supplier_update_of_def
    errors_mk_validation UpdateSupplierData.simps append.assoc
  by (rule list_emb_append2, rule list_emb_append2, rule list_emb_append2,
      subst append.assoc[symmetric], rule list_emb_prefix, rule subseq_order.order_refl)

theorem supplier_update_errors_subseq_create_witness:
  "subseq (errors (supplier_validateUpdate (supplier_update_of
     \<lparr>id_type = Some CC, id_number = [], name = ''Ana'',
      address = None, phone = None, email = Some ''ana'', contact_person = None,
      economic_activity = None\<rparr>)))
   (errors (supplier_validateCreate
     \<lparr>id_type = Some CC, id_number = [], name = ''Ana'',
      address = None, phone = None, email = Some ''ana'', contact_person = None,
      economic_activity = None\<rparr>))"
  by (rule supplier_update_errors_subseq_create)

end
