(* ===== verification/ProductValidation.thy ===== *)
theory ProductValidation
  imports Prelude
begin

text \<open>
  \<open>src/lib/validations/products.validation.ts\<close>: the input records
  \<open>CreateProductData\<close> and \<open>UpdateProductData\<close> and the class
  \<open>ProductValidation\<close> with \<open>validateCreate\<close> and \<open>validateUpdate\<close>.  Both
  validators are characterised by the length rules of the spec, the number of
  messages is bounded by the number of fields, and the update validator is
  shown to report a subsequence of what the create validator reports.
\<close>

section \<open>Input records\<close>

record UpdateProductData =
  code :: "string option"
  name :: "string option"
  description :: "string option"
  laboratory :: "string option"
  status :: "status option"

record CreateProductData =
  code :: string
  name :: string
  description :: "string option"
  laboratory :: "string option"

section \<open>Messages\<close>

text \<open>U+00F3 is the o acute of the Spanish word for code.\<close>

definition msg_code_required :: string where
  "msg_code_required = ''C'' @ [CHR 0xF3] @ ''digo del producto es requerido''"

definition msg_product_name_required :: string where
  "msg_product_name_required = ''Nombre del producto es requerido''"

definition msg_code_length :: string where
  "msg_code_length = ''El c'' @ [CHR 0xF3] @ ''digo debe tener al menos 3 caracteres''"

definition msg_name_length :: string where
  "msg_name_length = ''El nombre debe tener al menos 2 caracteres''"

section \<open>The validators\<close>

text \<open>\<open>data.code && data.code.length < 3\<close> on a field that may be absent.\<close>

fun present_shorter :: "string option \<Rightarrow> nat \<Rightarrow> bool" where
  "present_shorter None n = False"
| "present_shorter (Some s) n = (js_truthy_str s \<and> length s < n)"

definition product_validateCreate :: "CreateProductData \<Rightarrow> validation" where
  "product_validateCreate d = mk_validation
     (err_if (\<not> js_truthy_str (code d)) msg_code_required
      @ err_if (\<not> js_truthy_str (name d)) msg_product_name_required
      @ err_if (js_truthy_str (code d) \<and> length (code d) < 3) msg_code_length
      @ err_if (js_truthy_str (name d) \<and> length (name d) < 2) msg_name_length)"

definition product_validateUpdate :: "UpdateProductData \<Rightarrow> validation" where
  "product_validateUpdate u = mk_validation
     (err_if (present_shorter (UpdateProductData.code u) 3) msg_code_length
      @ err_if (present_shorter (UpdateProductData.name u) 2) msg_name_length)"

text \<open>A \<open>CreateProductData\<close> value read as an \<open>UpdateProductData\<close>
  (\<open>UpdateProductData extends Partial<CreateProductData>\<close>).\<close>

definition product_update_of :: "CreateProductData \<Rightarrow> UpdateProductData" where
  "product_update_of d =
     \<lparr>UpdateProductData.code = Some (code d), UpdateProductData.name = Some (name d),
      UpdateProductData.description = description d,
      UpdateProductData.laboratory = laboratory d, UpdateProductData.status = None\<rparr>"

text \<open>The rule of the spec for an optional field: absent, or empty (which
  \<open>&&\<close> skips), or at least \<open>n\<close> characters long.\<close>

definition field_len_ok :: "string option \<Rightarrow> nat \<Rightarrow> bool" where
  "field_len_ok x n = (case x of None \<Rightarrow> True | Some s \<Rightarrow> s = [] \<or> n \<le> length s)"

section \<open>Lemmas\<close>

lemma present_shorter_iff [simp]: "present_shorter x n \<longleftrightarrow> \<not> field_len_ok x n"
  by (cases x) (auto simp: field_len_ok_def)

lemmas product_messages =
  msg_code_required_def msg_product_name_required_def msg_code_length_def msg_name_length_def


text \<open>C2 (product create): \<open>ProductValidation.validateCreate\<close> accepts a
  candidate exactly when its code has at least three characters and its name at
  least two (an empty field fails both the required and the length rule).\<close>

theorem product_validateCreate_valid_iff:
  "isValid (product_validateCreate d) \<longleftrightarrow> 3 \<le> length (code d) \<and> 2 \<le> length (name d)"
  by (auto simp: product_validateCreate_def)

theorem product_validateCreate_valid_iff_witness:
  "isValid (product_validateCreate
     \<lparr>code = ''MED001'', name = ''Acetaminofen'', description = None, laboratory = None\<rparr>)"
  using product_validateCreate_valid_iff
    [of "\<lparr>code = ''MED001'', name = ''Acetaminofen'', description = None, laboratory = None\<rparr>"]
  by simp

text \<open>C29 (one message per field): \<open>validateCreate\<close> reports at most one
  message about the code and at most one about the name, so at most two
  messages, all distinct.\<close>

theorem product_validateCreate_errors_bound:
  "length (errors (product_validateCreate d)) \<le> 2 \<and> distinct (errors (product_validateCreate d))"
  by (cases "code d = []"; cases "name d = []") (auto simp: product_validateCreate_def product_messages)

theorem product_validateCreate_errors_bound_witness:
  "errors (product_validateCreate
     \<lparr>code = [], name = ''A'', description = None, laboratory = None\<rparr>) =
     [msg_code_required, msg_name_length] \<and>
   length (errors (product_validateCreate
     \<lparr>code = [], name = ''A'', description = None, laboratory = None\<rparr>)) \<le> 2"
  using product_validateCreate_errors_bound
    [of "\<lparr>code = [], name = ''A'', description = None, laboratory = None\<rparr>"]
  by (simp add: product_validateCreate_def)

text \<open>The spec's end-to-end product scenario: code \<open>ME\<close> is rejected with
  the code-length message only, name \<open>A\<close> with the name-length message only,
  and \<open>{code: "MED001", name: "Acetaminof\<dots>n"}\<close> is accepted with no errors.\<close>

theorem product_scenario:
  "errors (product_validateCreate
      \<lparr>code = ''ME'', name = ''Acetaminof'' @ [CHR 0xE9] @ ''n'', description = None,
       laboratory = None\<rparr>) = [msg_code_length] \<and>
   errors (product_validateCreate
      \<lparr>code = ''MED001'', name = ''A'', description = None, laboratory = None\<rparr>) =
      [msg_name_length] \<and>
   errors (product_validateCreate
      \<lparr>code = ''MED001'', name = ''Acetaminof'' @ [CHR 0xE9] @ ''n'', description = None,
       laboratory = None\<rparr>) = []"
  by (simp add: product_validateCreate_def)

text \<open>C26 (product update): \<open>ProductValidation.validateUpdate\<close> accepts a
  partial payload exactly when a present non-empty code has at least three
  characters and a present non-empty name at least two; an empty string skips
  the check, so a payload clearing the code to \<open>""\<close> is accepted.\<close>

theorem product_validateUpdate_valid_iff:
  "isValid (product_validateUpdate u) \<longleftrightarrow>
     field_len_ok (UpdateProductData.code u) 3 \<and> field_len_ok (UpdateProductData.name u) 2"
  by (simp add: product_validateUpdate_def)

theorem product_validateUpdate_valid_iff_witness:
  "isValid (product_validateUpdate
     \<lparr>UpdateProductData.code = Some [], UpdateProductData.name = None,
      UpdateProductData.description = None, UpdateProductData.laboratory = None,
      UpdateProductData.status = None\<rparr>)"
  using product_validateUpdate_valid_iff
    [of "\<lparr>UpdateProductData.code = Some [], UpdateProductData.name = None,
          UpdateProductData.description = None, UpdateProductData.laboratory = None,
          UpdateProductData.status = None\<rparr>"]
  by (simp add: field_len_ok_def)

text \<open>Product update is weaker than create: on the same data,
  \<open>validateUpdate\<close> reports a subsequence of what \<open>validateCreate\<close>
  reports.\<close>

theorem product_update_errors_subseq_create:
  "subseq (errors (product_validateUpdate (product_update_of d)))
          (errors (product_validateCreate d))"
  unfolding product_validateUpdate_def product_validateCreate_def product_update_of_def
    present_shorter.simps errors_mk_validation UpdateProductData.simps append.assoc
  by (rule list_emb_append2, rule list_emb_append2, rule subseq_order.order_refl)

theorem product_update_errors_subseq_create_witness:
  "subseq (errors (product_validateUpdate (product_update_of
     \<lparr>code = ''ME'', name = [], description = None, laboratory = None\<rparr>)))
   (errors (product_validateCreate
     \<lparr>code = ''ME'', name = [], description = None, laboratory = None\<rparr>))"
  by (rule product_update_errors_subseq_create)

end
