(* ===== verification/ReceptionValidation.thy ===== *)
theory ReceptionValidation
  imports Prelude
begin

text \<open>
  \<open>src/lib/validations/receptions.validation.ts\<close>: the input records
  \<open>CreateReceptionData\<close> and \<open>UpdateReceptionData\<close> and the class
  \<open>ReceptionValidation\<close>.  The quantity is a JavaScript number (NaN included);
  the dates are strings handed to \<open>new Date\<close>, whose parser is a parameter
  (theory \<open>Prelude\<close>).  \<open>validateCreate\<close> evaluates \<open>new Date()\<close> twice, once
  per date rule, so it takes two clock readings \<open>now_r\<close> (the reception-date
  rule) and \<open>now_e\<close> (the expiration rule); \<open>validateUpdate\<close> takes one.
\<close>

section \<open>Input records\<close>

datatype presentation_state = Bueno | Regular | Malo

record UpdateReceptionData =
  reception_date :: "string option"
  product_id :: "string option"
  supplier_id :: "string option"
  invoice_number :: "string option"
  quantity :: "js_number option"
  batch_number :: "string option"
  invima_registration :: "string option"
  expiration_date :: "string option"
  presentation_state :: "presentation_state option"
  notes_str :: "string option"

text \<open>The field \<open>notes\<close> is \<open>notes_str\<close> here (\<open>notes\<close> is an Isar keyword).
  \<open>presentation_state\<close> is \<open>None\<close> for the empty selection \<open>""\<close> that the
  form starts with, which \<open>!data.presentation_state\<close> rejects.\<close>

record CreateReceptionData =
  reception_date :: string
  product_id :: string
  supplier_id :: string
  invoice_number :: string
  quantity :: js_number
  batch_number :: "string option"
  invima_registration :: "string option"
  expiration_date :: "string option"
  presentation_state :: "presentation_state option"
  notes_str :: "string option"

section \<open>Messages\<close>

text \<open>U+00F3 is o acute, U+00FA u acute.\<close>

definition msg_reception_date_required :: string where
  "msg_reception_date_required = ''Fecha de recepci'' @ [CHR 0xF3] @ ''n es requerida''"

definition msg_product_required :: string where
  "msg_product_required = ''Producto es requerido''"

definition msg_supplier_required :: string where
  "msg_supplier_required = ''Proveedor es requerido''"

definition msg_invoice_required :: string where
  "msg_invoice_required = ''N'' @ [CHR 0xFA] @ ''mero de factura es requerido''"

definition msg_quantity :: string where
  "msg_quantity = ''Cantidad debe ser mayor a 0''"

definition msg_state_required :: string where
  "msg_state_required = ''Estado de presentaci'' @ [CHR 0xF3] @ ''n es requerido''"

definition msg_reception_future :: string where
  "msg_reception_future = ''La fecha de recepci'' @ [CHR 0xF3] @ ''n no puede ser futura''"

definition msg_expiration_future :: string where
  "msg_expiration_future = ''La fecha de vencimiento debe ser futura''"

section \<open>The validators\<close>

text \<open>\<open>data.expiration_date && new Date(data.expiration_date) <= new Date()\<close>\<close>

fun expiration_fails :: "date_parser \<Rightarrow> time \<Rightarrow> string option \<Rightarrow> bool" where
  "expiration_fails parse now None = False"
| "expiration_fails parse now (Some e) = (js_truthy_str e \<and> date_le (parse e) now)"

text \<open>\<open>!data.quantity || data.quantity <= 0\<close>\<close>

definition quantity_invalid :: "js_number \<Rightarrow> bool" where
  "quantity_invalid q \<longleftrightarrow> \<not> js_truthy_num q \<or> js_le q 0"

definition reception_validateCreate ::
  "date_parser \<Rightarrow> time \<Rightarrow> time \<Rightarrow> CreateReceptionData \<Rightarrow> validation" where
  "reception_validateCreate parse now_r now_e d = mk_validation
     (err_if (\<not> js_truthy_str (reception_date d)) msg_reception_date_required
      @ err_if (\<not> js_truthy_str (product_id d)) msg_product_required
      @ err_if (\<not> js_truthy_str (supplier_id d)) msg_supplier_required
      @ err_if (\<not> js_truthy_str (invoice_number d)) msg_invoice_required
      @ err_if (quantity_invalid (quantity d)) msg_quantity
      @ err_if (presentation_state d = None) msg_state_required
      @ err_if (js_truthy_str (reception_date d) \<and> date_gt (parse (reception_date d)) now_r)
          msg_reception_future
      @ err_if (expiration_fails parse now_e (expiration_date d)) msg_expiration_future)"

text \<open>\<open>data.quantity !== undefined && data.quantity <= 0\<close>\<close>

fun quantity_fails :: "js_number option \<Rightarrow> bool" where
  "quantity_fails None = False"
| "quantity_fails (Some q) = js_le q 0"

definition reception_validateUpdate ::
  "date_parser \<Rightarrow> time \<Rightarrow> UpdateReceptionData \<Rightarrow> validation" where
  "reception_validateUpdate parse now u = mk_validation
     (err_if (quantity_fails (UpdateReceptionData.quantity u)) msg_quantity
      @ err_if (expiration_fails parse now (UpdateReceptionData.expiration_date u))
          msg_expiration_future)"

definition reception_update_of :: "CreateReceptionData \<Rightarrow> UpdateReceptionData" where
  "reception_update_of d =
     \<lparr>UpdateReceptionData.reception_date = Some (reception_date d),
      UpdateReceptionData.product_id = Some (product_id d),
      UpdateReceptionData.supplier_id = Some (supplier_id d),
      UpdateReceptionData.invoice_number = Some (invoice_number d),
      UpdateReceptionData.quantity = Some (quantity d),
      UpdateReceptionData.batch_number = batch_number d,
      UpdateReceptionData.invima_registration = invima_registration d,
      UpdateReceptionData.expiration_date = expiration_date d,
      UpdateReceptionData.presentation_state = presentation_state d,
      UpdateReceptionData.notes_str = notes_str d\<rparr>"

section \<open>The rules of the spec\<close>

text \<open>\<open>quantity\<close> is a number greater than 0 (NaN is not).\<close>

definition quantity_ok :: "js_number \<Rightarrow> bool" where
  "quantity_ok q \<longleftrightarrow> (\<exists>x. q = JNum x \<and> 0 < x)"

text \<open>The reception instant is not after the clock reading; a string that does
  not parse gives NaN, and no comparison with NaN fails.\<close>

definition not_future :: "date_parser \<Rightarrow> time \<Rightarrow> string \<Rightarrow> bool" where
  "not_future parse now s = (case parse s of None \<Rightarrow> True | Some t \<Rightarrow> t \<le> now)"

definition expiration_ok :: "date_parser \<Rightarrow> time \<Rightarrow> string option \<Rightarrow> bool" where
  "expiration_ok parse now x =
     (case x of None \<Rightarrow> True
      | Some e \<Rightarrow> e = [] \<or> (case parse e of None \<Rightarrow> True | Some t \<Rightarrow> now < t))"

section \<open>Lemmas\<close>

lemma quantity_invalid_iff [simp]: "quantity_invalid q \<longleftrightarrow> \<not> quantity_ok q"
  by (cases q) (auto simp: quantity_invalid_def quantity_ok_def)

lemma quantity_ok_simps [simp]:
  "quantity_ok (JNum x) \<longleftrightarrow> 0 < x"
  "\<not> quantity_ok JNaN"
  by (simp_all add: quantity_ok_def)

lemma quantity_fails_imp_invalid: "quantity_fails (Some q) \<Longrightarrow> quantity_invalid q"
  by (cases q) simp_all

lemma expiration_ok_None [simp]: "expiration_ok parse now None"
  by (simp add: expiration_ok_def)

lemma date_gt_iff [simp]: "date_gt (parse s) now \<longleftrightarrow> \<not> not_future parse now s"
  by (cases "parse s") (auto simp: not_future_def)

lemma expiration_fails_iff [simp]: "expiration_fails parse now x \<longleftrightarrow> \<not> expiration_ok parse now x"
proof (cases x)
  case (Some e)
  then show ?thesis by (cases "parse e") (auto simp: expiration_ok_def)
qed (simp add: expiration_ok_def)

lemmas reception_messages =
  msg_reception_date_required_def msg_product_required_def msg_supplier_required_def
  msg_invoice_required_def msg_quantity_def msg_state_required_def msg_reception_future_def
  msg_expiration_future_def


text \<open>C3 (reception create): \<open>ReceptionValidation.validateCreate\<close> accepts a
  candidate exactly when the reception date, product, supplier and invoice
  number are non-empty, the quantity is a number greater than 0, a
  presentation state is chosen, the reception instant is not after the first
  clock reading, and a present non-empty expiration date is after the second
  clock reading (a date string that does not parse passes both date rules).\<close>

theorem reception_validateCreate_valid_iff:
  "isValid (reception_validateCreate parse now_r now_e d) \<longleftrightarrow>
     reception_date d \<noteq> [] \<and> product_id d \<noteq> [] \<and> supplier_id d \<noteq> [] \<and>
     invoice_number d \<noteq> [] \<and> quantity_ok (quantity d) \<and> presentation_state d \<noteq> None \<and>
     not_future parse now_r (reception_date d) \<and> expiration_ok parse now_e (expiration_date d)"
  by (auto simp: reception_validateCreate_def)

theorem reception_validateCreate_valid_iff_witness:
  "isValid (reception_validateCreate
     (\<lambda>s. if s = ''2024-05-01T10:00'' then Some 1714557600000
          else if s = ''2026-01-01'' then Some 1767225600000 else None)
     1730000000000 1730000000000
     \<lparr>reception_date = ''2024-05-01T10:00'', product_id = ''p1'', supplier_id = ''s1'',
      invoice_number = ''F-100'', quantity = JNum 24, batch_number = None,
      invima_registration = None, expiration_date = Some ''2026-01-01'',
      presentation_state = Some Bueno, notes_str = None\<rparr>)"
  using reception_validateCreate_valid_iff
    [of "\<lambda>s. if s = ''2024-05-01T10:00'' then Some 1714557600000
             else if s = ''2026-01-01'' then Some 1767225600000 else None"
        1730000000000 1730000000000
        "\<lparr>reception_date = ''2024-05-01T10:00'', product_id = ''p1'', supplier_id = ''s1'',
          invoice_number = ''F-100'', quantity = JNum 24, batch_number = None,
          invima_registration = None, expiration_date = Some ''2026-01-01'',
          presentation_state = Some Bueno, notes_str = None\<rparr>"]
  by (simp add: quantity_ok_def not_future_def expiration_ok_def)

text \<open>C23 (quantity rule): \<open>validateCreate\<close> reports the quantity message
  exactly when the quantity is not a number greater than 0: 0, -5 and NaN are
  rejected, 1 passes.\<close>

theorem reception_quantity_error_iff:
  "msg_quantity \<in> set (errors (reception_validateCreate parse now_r now_e d)) \<longleftrightarrow>
     \<not> quantity_ok (quantity d)"
  by (simp add: reception_validateCreate_def reception_messages)

theorem reception_quantity_error_iff_witness:
  "msg_quantity \<in> set (errors (reception_validateCreate (\<lambda>s. None) 0 0
     \<lparr>reception_date = ''r'', product_id = ''p'', supplier_id = ''s'', invoice_number = ''f'',
      quantity = JNum 0, batch_number = None, invima_registration = None, expiration_date = None,
      presentation_state = Some Bueno, notes_str = None\<rparr>)) \<and>
   msg_quantity \<in> set (errors (reception_validateCreate (\<lambda>s. None) 0 0
     \<lparr>reception_date = ''r'', product_id = ''p'', supplier_id = ''s'', invoice_number = ''f'',
      quantity = JNum (-5), batch_number = None, invima_registration = None, expiration_date = None,
      presentation_state = Some Bueno, notes_str = None\<rparr>)) \<and>
   msg_quantity \<notin> set (errors (reception_validateCreate (\<lambda>s. None) 0 0
     \<lparr>reception_date = ''r'', product_id = ''p'', supplier_id = ''s'', invoice_number = ''f'',
      quantity = JNum 1, batch_number = None, invima_registration = None, expiration_date = None,
      presentation_state = Some Bueno, notes_str = None\<rparr>))"
  using reception_quantity_error_iff[where parse = "\<lambda>s. None" and now_r = 0 and now_e = 0]
  by (simp add: quantity_ok_def)

text \<open>C24 (strict expiration rule): for a present expiration date that parses to
  instant \<open>t\<close>, \<open>validateCreate\<close> reports the expiration message exactly when
  \<open>t\<close> is not after the clock reading: an expiration date equal to now is
  rejected, one a day later passes.\<close>

theorem reception_expiration_error_iff:
  assumes "expiration_date d = Some e" and "e \<noteq> []" and "parse e = Some t"
  shows "msg_expiration_future \<in> set (errors (reception_validateCreate parse now_r now_e d))
         \<longleftrightarrow> t \<le> now_e"
  using assms by (simp add: reception_validateCreate_def reception_messages expiration_ok_def)

theorem reception_expiration_error_iff_witness:
  "msg_expiration_future \<in> set (errors (reception_validateCreate (\<lambda>s. Some 1730000000000)
      1730000000000 1730000000000
     \<lparr>reception_date = ''r'', product_id = ''p'', supplier_id = ''s'', invoice_number = ''f'',
      quantity = JNum 1, batch_number = None, invima_registration = None,
      expiration_date = Some ''e'', presentation_state = Some Bueno, notes_str = None\<rparr>)) \<and>
   msg_expiration_future \<notin> set (errors (reception_validateCreate
      (\<lambda>s. Some (1730000000000 + 86400000)) 1730000000000 1730000000000
     \<lparr>reception_date = ''r'', product_id = ''p'', supplier_id = ''s'', invoice_number = ''f'',
      quantity = JNum 1, batch_number = None, invima_registration = None,
      expiration_date = Some ''e'', presentation_state = Some Bueno, notes_str = None\<rparr>))"
proof
  show "msg_expiration_future \<in> set (errors (reception_validateCreate (\<lambda>s. Some 1730000000000)
      1730000000000 1730000000000
     \<lparr>reception_date = ''r'', product_id = ''p'', supplier_id = ''s'', invoice_number = ''f'',
      quantity = JNum 1, batch_number = None, invima_registration = None,
      expiration_date = Some ''e'', presentation_state = Some Bueno, notes_str = None\<rparr>))"
    by (subst reception_expiration_error_iff[where e = "''e''" and t = 1730000000000]) simp_all
  show "msg_expiration_future \<notin> set (errors (reception_validateCreate
      (\<lambda>s. Some (1730000000000 + 86400000)) 1730000000000 1730000000000
     \<lparr>reception_date = ''r'', product_id = ''p'', supplier_id = ''s'', invoice_number = ''f'',
      quantity = JNum 1, batch_number = None, invima_registration = None,
      expiration_date = Some ''e'', presentation_state = Some Bueno, notes_str = None\<rparr>))"
    by (subst reception_expiration_error_iff[where e = "''e''" and t = "1730000000000 + 86400000"])
       simp_all
qed

text \<open>Validity window: with a frozen clock, the instants at which a
  candidate is valid form an interval: valid at \<open>ta\<close> and at \<open>tc\<close> implies
  valid at every \<open>tb\<close> in between.\<close>

theorem reception_valid_window:
  assumes "isValid (reception_validateCreate parse ta ta d)"
    and "isValid (reception_validateCreate parse tc tc d)"
    and "ta \<le> tb" and "tb \<le> tc"
  shows "isValid (reception_validateCreate parse tb tb d)"
  using assms
  by (auto simp: reception_validateCreate_def not_future_def expiration_ok_def split: option.splits)

theorem reception_valid_window_witness:
  "isValid (reception_validateCreate
     (\<lambda>s. if s = ''e'' then Some 1000 else Some 100) 500 500
     \<lparr>reception_date = ''r'', product_id = ''p'', supplier_id = ''s'', invoice_number = ''f'',
      quantity = JNum 1, batch_number = None, invima_registration = None,
      expiration_date = Some ''e'', presentation_state = Some Bueno, notes_str = None\<rparr>)"
  by (rule reception_valid_window[where ta = 100 and tc = 999])
     (simp_all add: reception_validateCreate_def not_future_def expiration_ok_def
       quantity_ok_def)

text \<open>Time dependence: validating the same candidate at two instants that
  straddle its reception date gives two outcomes: rejected as future before,
  accepted from the reception instant on.\<close>

theorem reception_outcome_depends_on_clock:
  "\<not> isValid (reception_validateCreate (\<lambda>s. Some 1714557600000) 1714557599999 1714557599999
     \<lparr>reception_date = ''2024-05-01T10:00'', product_id = ''p'', supplier_id = ''s'',
      invoice_number = ''f'', quantity = JNum 1, batch_number = None, invima_registration = None,
      expiration_date = None, presentation_state = Some Regular, notes_str = None\<rparr>) \<and>
   isValid (reception_validateCreate (\<lambda>s. Some 1714557600000) 1714557600000 1714557600000
     \<lparr>reception_date = ''2024-05-01T10:00'', product_id = ''p'', supplier_id = ''s'',
      invoice_number = ''f'', quantity = JNum 1, batch_number = None, invima_registration = None,
      expiration_date = None, presentation_state = Some Regular, notes_str = None\<rparr>)"
  by (simp add: reception_validateCreate_def)

text \<open>C27 (reception update): \<open>ReceptionValidation.validateUpdate\<close> accepts a
  partial payload exactly when a present quantity is not \<open><= 0\<close> and a present
  non-empty expiration date is in the future; a NaN quantity passes, since
  \<open>NaN <= 0\<close> is false.\<close>

theorem reception_validateUpdate_valid_iff:
  "isValid (reception_validateUpdate parse now u) \<longleftrightarrow>
     (case UpdateReceptionData.quantity u of None \<Rightarrow> True | Some q \<Rightarrow> \<not> js_le q 0) \<and>
     expiration_ok parse now (UpdateReceptionData.expiration_date u)"
  by (cases "UpdateReceptionData.quantity u") (simp_all add: reception_validateUpdate_def)

theorem reception_validateUpdate_valid_iff_witness:
  "isValid (reception_validateUpdate (\<lambda>s. None) 0
     \<lparr>UpdateReceptionData.reception_date = None, UpdateReceptionData.product_id = None,
      UpdateReceptionData.supplier_id = None, UpdateReceptionData.invoice_number = None,
      UpdateReceptionData.quantity = Some JNaN, UpdateReceptionData.batch_number = None,
      UpdateReceptionData.invima_registration = None,
      UpdateReceptionData.expiration_date = None,
      UpdateReceptionData.presentation_state = None, UpdateReceptionData.notes_str = None\<rparr>)"
  using reception_validateUpdate_valid_iff[where parse = "\<lambda>s. None" and now = 0 and
    u = "\<lparr>UpdateReceptionData.reception_date = None, UpdateReceptionData.product_id = None,
      UpdateReceptionData.supplier_id = None, UpdateReceptionData.invoice_number = None,
      UpdateReceptionData.quantity = Some JNaN, UpdateReceptionData.batch_number = None,
      UpdateReceptionData.invima_registration = None,
      UpdateReceptionData.expiration_date = None,
      UpdateReceptionData.presentation_state = None, UpdateReceptionData.notes_str = None\<rparr>"]
  by (simp add: expiration_ok_def)

text \<open>C28 (unparsable dates): when the reception date and a present expiration
  date do not parse (\<open>new Date\<close> gives NaN), \<open>validateCreate\<close> reports neither
  date message.\<close>

theorem reception_unparsable_dates_pass:
  assumes "parse (reception_date d) = None" and "expiration_date d = Some e" and "parse e = None"
  shows "msg_reception_future \<notin> set (errors (reception_validateCreate parse now_r now_e d)) \<and>
         msg_expiration_future \<notin> set (errors (reception_validateCreate parse now_r now_e d))"
  using assms
  by (simp add: reception_validateCreate_def reception_messages not_future_def expiration_ok_def)

theorem reception_unparsable_dates_pass_witness:
  "msg_reception_future \<notin> set (errors (reception_validateCreate (\<lambda>s. None) 0 0
     \<lparr>reception_date = ''ayer'', product_id = ''p'', supplier_id = ''s'', invoice_number = ''f'',
      quantity = JNum 1, batch_number = None, invima_registration = None,
      expiration_date = Some ''pronto'', presentation_state = Some Malo, notes_str = None\<rparr>)) \<and>
   msg_expiration_future \<notin> set (errors (reception_validateCreate (\<lambda>s. None) 0 0
     \<lparr>reception_date = ''ayer'', product_id = ''p'', supplier_id = ''s'', invoice_number = ''f'',
      quantity = JNum 1, batch_number = None, invima_registration = None,
      expiration_date = Some ''pronto'', presentation_state = Some Malo, notes_str = None\<rparr>))"
  by (rule reception_unparsable_dates_pass[where e = "''pronto''"]) simp_all

text \<open>Reception update is weaker than create: on the same data and the
  same expiration clock reading, \<open>validateUpdate\<close> reports a subsequence of what
  \<open>validateCreate\<close> reports.\<close>

theorem reception_update_errors_subseq_create:
  "subseq (errors (reception_validateUpdate parse now_e (reception_update_of d)))
          (errors (reception_validateCreate parse now_r now_e d))"
  unfolding reception_validateUpdate_def reception_validateCreate_def reception_update_of_def
    errors_mk_validation UpdateReceptionData.simps append.assoc
  by (rule list_emb_append2, rule list_emb_append2, rule list_emb_append2, rule list_emb_append2,
      rule subseq_err_if[OF quantity_fails_imp_invalid], assumption,
      rule list_emb_append2, rule list_emb_append2, rule subseq_order.order_refl)

theorem reception_update_errors_subseq_create_witness:
  "subseq (errors (reception_validateUpdate (\<lambda>s. None) 0 (reception_update_of
     \<lparr>reception_date = [], product_id = ''p'', supplier_id = ''s'', invoice_number = ''f'',
      quantity = JNum 0, batch_number = None, invima_registration = None,
      expiration_date = None, presentation_state = None, notes_str = None\<rparr>)))
   (errors (reception_validateCreate (\<lambda>s. None) 0 0
     \<lparr>reception_date = [], product_id = ''p'', supplier_id = ''s'', invoice_number = ''f'',
      quantity = JNum 0, batch_number = None, invima_registration = None,
      expiration_date = None, presentation_state = None, notes_str = None\<rparr>))"
  by (rule reception_update_errors_subseq_create)

end
