(* ===== verification/Entities.thy ===== *)
theory Entities
  imports SupplierValidation ProductValidation ReceptionValidation
begin

text \<open>
  \<open>src/lib/types.ts\<close>: the three stored entities as records.  The store
  assigns \<open>id\<close>, \<open>created_at\<close> and \<open>updated_at\<close>; the two timestamps are
  PostgreSQL \<open>timestamptz\<close> values that the client receives as ISO strings,
  and are modelled by the instant they denote (\<open>time\<close>), which is what the
  store orders them by.  A reception carries the joined \<open>product\<close> and
  \<open>supplier\<close> when a query selects them.
\<close>

record Supplier =
  id :: string
  id_type :: id_type
  id_number :: string
  name :: string
  address :: "string option"
  phone :: "string option"
  email :: "string option"
  contact_person :: "string option"
  economic_activity :: "string list option"
  status :: status
  created_at :: time
  updated_at :: time

record Product =
  id :: string
  code :: string
  name :: string
  description :: "string option"
  laboratory :: "string option"
  status :: status
  created_at :: time
  updated_at :: time

record ProductReception =
  id :: string
  reception_date :: string
  product_id :: string
  supplier_id :: string
  invoice_number :: string
  quantity :: js_number
  batch_number :: "string option"
  invima_registration :: "string option"
  expiration_date :: "string option"
  presentation_state :: presentation_state
  notes_str :: "string option"
  created_at :: time
  updated_at :: time
  product :: "Product option"
  supplier :: "Supplier option"

end
