(* ===== verification/SupplierDialog.thy ===== *)
theory SupplierDialog
  imports Entities
begin

text \<open>
  \<open>src/components/suppliers/add-supplier-dialog.tsx\<close> and
  \<open>edit-supplier-dialog.tsx\<close>: the two forms through which the pages create and
  change suppliers.  Each is a state (\<open>open\<close>, \<open>loading\<close>, \<open>formData\<close>,
  \<open>newActivityCode\<close>) and a step per user event: typing into a field, choosing
  the document type or status, typing an activity code (the input keeps digits
  only, at most four), the add and remove buttons of the activity list, and the
  submission, which sends \<open>formData\<close> to Supabase directly.  Neither dialog
  calls \<open>SupplierValidation\<close>; the browser's constraint validation
  (\<open>supplier_form_valid\<close>) is the only check before a submit.  Submission is
  one step: the handler awaits the store's answer, which is the step's
  argument.
\<close>

section \<open>Form state\<close>

record SupplierFormData =
  form_id_type :: "id_type option"
  form_id_number :: string
  form_name :: string
  form_address :: string
  form_phone :: string
  form_email :: string
  form_contact_person :: string
  form_economic_activity :: "string list"
  form_status :: "status option"

record SupplierDialog =
  dlg_open :: bool
  loading :: bool
  formData :: SupplierFormData
  newActivityCode :: string

text \<open>The initial \<open>formData\<close> of the add dialog (\<open>id_type: ""\<close>, empty strings,
  no activity codes; no status field).\<close>

definition empty_supplier_form :: SupplierFormData where
  "empty_supplier_form =
     \<lparr>form_id_type = None, form_id_number = [], form_name = [], form_address = [],
      form_phone = [], form_email = [], form_contact_person = [], form_economic_activity = [],
      form_status = None\<rparr>"

definition add_supplier_init :: SupplierDialog where
  "add_supplier_init =
     \<lparr>dlg_open = False, loading = False, formData = empty_supplier_form, newActivityCode = []\<rparr>"

section \<open>Handlers\<close>

text \<open>\<open>e.target.value.replace(/\D/g, "").slice(0, 4)\<close>\<close>

definition sanitize_activity_input :: "string \<Rightarrow> string" where
  "sanitize_activity_input raw = take 4 (filter js_digit raw)"

text \<open>\<open>addEconomicActivity\<close>: a four-digit code not yet listed is appended; a
  four-digit code clears the input whether or not it was new.\<close>

definition addEconomicActivity :: "SupplierDialog \<Rightarrow> SupplierDialog" where
  "addEconomicActivity s =
     (let c = newActivityCode s; acts = form_economic_activity (formData s) in
      if length c = 4 \<and> matcher activity_code_rx c then
        (if c \<notin> set acts
         then s\<lparr>formData := (formData s)\<lparr>form_economic_activity := acts @ [c]\<rparr>\<rparr>
         else s)\<lparr>newActivityCode := []\<rparr>
      else s)"

definition removeEconomicActivity :: "string \<Rightarrow> SupplierDialog \<Rightarrow> SupplierDialog" where
  "removeEconomicActivity codeToRemove s =
     s\<lparr>formData := (formData s)\<lparr>form_economic_activity :=
        filter (\<lambda>code. code \<noteq> codeToRemove) (form_economic_activity (formData s))\<rparr>\<rparr>"

section \<open>Constraint validation of the form\<close>

text \<open>The browser checks the form before \<open>onSubmit\<close> runs (there is no
  \<open>noValidate\<close>): the document type \<open>Select\<close>, the number and the name are
  \<open>required\<close>, and the e-mail input (\<open>type="email"\<close>) must be empty or a
  valid e-mail address of the HTML standard: a local part of letters, digits
  and \<open>.!#$%&'*+/=?^_`{|}~-\<close>, an \<open>@\<close>, and dot-separated labels of one to
  63 letters, digits or hyphens that neither start nor end with a hyphen.
  The value of an e-mail input has its line breaks removed and its leading
  and trailing white space trimmed.\<close>

definition ascii_alnum :: "char \<Rightarrow> bool" where
  "ascii_alnum c \<longleftrightarrow>
     (let n = (of_char c :: nat) in (48 \<le> n \<and> n \<le> 57) \<or> (65 \<le> n \<and> n \<le> 90) \<or> (97 \<le> n \<and> n \<le> 122))"

definition html_email_local_char :: "char \<Rightarrow> bool" where
  "html_email_local_char c \<longleftrightarrow>
     ascii_alnum c \<or> c \<in> set ''.!#$%&*+/=?^_{|}~-'' \<or> c = CHR 0x27 \<or> c = CHR 0x60"

definition html_email_label :: "string \<Rightarrow> bool" where
  "html_email_label l \<longleftrightarrow>
     l \<noteq> [] \<and> length l \<le> 63 \<and> list_all (\<lambda>c. ascii_alnum c \<or> c = CHR ''-'') l \<and>
     hd l \<noteq> CHR ''-'' \<and> last l \<noteq> CHR ''-''"

fun split_on :: "char \<Rightarrow> string \<Rightarrow> string list" where
  "split_on d [] = [[]]"
| "split_on d (c # cs) = (if c = d then [] # split_on d cs else (c # hd (split_on d cs)) # tl (split_on d cs))"

definition html_email_ok :: "string \<Rightarrow> bool" where
  "html_email_ok s \<longleftrightarrow>
     (let lp = takeWhile (\<lambda>c. c \<noteq> CHR ''@'') s; r = dropWhile (\<lambda>c. c \<noteq> CHR ''@'') s in
      lp \<noteq> [] \<and> list_all html_email_local_char lp \<and> r \<noteq> [] \<and>
      list_all html_email_label (split_on CHR ''.'' (tl r)))"

definition ascii_ws :: "char \<Rightarrow> bool" where
  "ascii_ws c \<longleftrightarrow> c \<in> {CHR 0x09, CHR 0x0A, CHR 0x0C, CHR 0x0D, CHR 0x20}"

definition email_input_value :: "string \<Rightarrow> string" where
  "email_input_value v =
     rev (dropWhile ascii_ws (rev (dropWhile ascii_ws (filter (\<lambda>c. c \<noteq> CHR 0x0A \<and> c \<noteq> CHR 0x0D) v))))"

definition supplier_form_valid :: "SupplierFormData \<Rightarrow> bool" where
  "supplier_form_valid f \<longleftrightarrow>
     form_id_type f \<noteq> None \<and> form_id_number f \<noteq> [] \<and> form_name f \<noteq> [] \<and>
     (form_email f = [] \<or> html_email_ok (form_email f))"

section \<open>Field edits and submission\<close>

datatype supplier_field = IdNumber | Name | Address | Phone | Email | ContactPerson

fun set_supplier_field :: "supplier_field \<Rightarrow> string \<Rightarrow> SupplierFormData \<Rightarrow> SupplierFormData" where
  "set_supplier_field IdNumber v f = f\<lparr>form_id_number := v\<rparr>"
| "set_supplier_field Name v f = f\<lparr>form_name := v\<rparr>"
| "set_supplier_field Address v f = f\<lparr>form_address := v\<rparr>"
| "set_supplier_field Phone v f = f\<lparr>form_phone := v\<rparr>"
| "set_supplier_field Email v f = f\<lparr>form_email := email_input_value v\<rparr>"
| "set_supplier_field ContactPerson v f = f\<lparr>form_contact_person := v\<rparr>"

text \<open>What the add dialog inserts: \<open>{ ...formData, economic_activity }\<close>; the
  optional fields are sent as the (possibly empty) strings of the form.\<close>

definition supplier_insert_payload :: "SupplierFormData \<Rightarrow> CreateSupplierData" where
  "supplier_insert_payload f =
     \<lparr>CreateSupplierData.id_type = form_id_type f, CreateSupplierData.id_number = form_id_number f,
      CreateSupplierData.name = form_name f, CreateSupplierData.address = Some (form_address f),
      CreateSupplierData.phone = Some (form_phone f), CreateSupplierData.email = Some (form_email f),
      CreateSupplierData.contact_person = Some (form_contact_person f),
      CreateSupplierData.economic_activity = Some (form_economic_activity f)\<rparr>"

text \<open>\<open>handleSubmit\<close> of the add dialog: insert, then on success close the
  dialog and reset the form; on error log it; in both cases clear
  \<open>loading\<close>.\<close>

fun add_supplier_handleSubmit :: "db_error \<Rightarrow> SupplierDialog \<Rightarrow> SupplierDialog" where
  "add_supplier_handleSubmit None s =
     s\<lparr>dlg_open := False, formData := empty_supplier_form, newActivityCode := [], loading := False\<rparr>"
| "add_supplier_handleSubmit (Some err) s = s\<lparr>loading := False\<rparr>"

text \<open>\<open>handleSubmit\<close> of the edit dialog: update the row, close on success;
  the form is not reset.\<close>

fun edit_supplier_handleSubmit :: "db_error \<Rightarrow> SupplierDialog \<Rightarrow> SupplierDialog" where
  "edit_supplier_handleSubmit None s = s\<lparr>dlg_open := False, loading := False\<rparr>"
| "edit_supplier_handleSubmit (Some err) s = s\<lparr>loading := False\<rparr>"

datatype supplier_dialog_event =
    SetOpen bool
  | SelectIdType id_type
  | EditField supplier_field string
  | SelectStatus status
  | TypeActivityCode string
  | ClickAdd
  | ClickRemove string
  | Submit db_error

text \<open>The events both dialogs handle alike (their JSX handlers are the same).\<close>

fun supplier_form_event :: "SupplierDialog \<Rightarrow> supplier_dialog_event \<Rightarrow> SupplierDialog" where
  "supplier_form_event s (SetOpen b) = s\<lparr>dlg_open := b\<rparr>"
| "supplier_form_event s (SelectIdType t) = s\<lparr>formData := (formData s)\<lparr>form_id_type := Some t\<rparr>\<rparr>"
| "supplier_form_event s (EditField fld v) = s\<lparr>formData := set_supplier_field fld v (formData s)\<rparr>"
| "supplier_form_event s (SelectStatus st) = s"
| "supplier_form_event s (TypeActivityCode raw) = s\<lparr>newActivityCode := sanitize_activity_input raw\<rparr>"
| "supplier_form_event s ClickAdd = addEconomicActivity s"
| "supplier_form_event s (ClickRemove c) = removeEconomicActivity c s"
| "supplier_form_event s (Submit r) = s"

text \<open>The add dialog has no status selector; the edit dialog has one.\<close>

fun add_supplier_step :: "SupplierDialog \<Rightarrow> supplier_dialog_event \<Rightarrow> SupplierDialog" where
  "add_supplier_step s (Submit r) =
     (if supplier_form_valid (formData s) then add_supplier_handleSubmit r s else s)"
| "add_supplier_step s e = supplier_form_event s e"

fun edit_supplier_step :: "SupplierDialog \<Rightarrow> supplier_dialog_event \<Rightarrow> SupplierDialog" where
  "edit_supplier_step s (Submit r) =
     (if supplier_form_valid (formData s) then edit_supplier_handleSubmit r s else s)"
| "edit_supplier_step s (SelectStatus st) = s\<lparr>formData := (formData s)\<lparr>form_status := Some st\<rparr>\<rparr>"
| "edit_supplier_step s e = supplier_form_event s e"

section \<open>The edit dialog's initial state\<close>

text \<open>
  \<open>supplier.economic_activity\<close> as the store returns it: an array, a string
  (a JSON text), or anything else.  \<open>JSON.parse\<close> is a parameter: it yields an
  array of strings, another JSON value, or throws.
\<close>

datatype raw_activity = RawArray "string list" | RawString string | RawOther

datatype json_parse_result = JsonArray "string list" | JsonNotArray | JsonSyntaxError

fun parseEconomicActivity :: "(string \<Rightarrow> json_parse_result) \<Rightarrow> raw_activity \<Rightarrow> string list" where
  "parseEconomicActivity json_parse (RawArray xs) = xs"
| "parseEconomicActivity json_parse (RawString a) =
     (case json_parse a of
        JsonArray xs \<Rightarrow> xs
      | JsonNotArray \<Rightarrow> [a]
      | JsonSyntaxError \<Rightarrow> (if js_truthy_str a then [a] else []))"
| "parseEconomicActivity json_parse RawOther = []"

definition edit_supplier_init ::
  "(string \<Rightarrow> json_parse_result) \<Rightarrow> raw_activity \<Rightarrow> Supplier \<Rightarrow> SupplierDialog" where
  "edit_supplier_init json_parse raw sp =
     \<lparr>dlg_open = False, loading = False,
      formData = \<lparr>form_id_type = Some (Supplier.id_type sp),
                  form_id_number = Supplier.id_number sp, form_name = Supplier.name sp,
                  form_address = (case Supplier.address sp of None \<Rightarrow> [] | Some a \<Rightarrow> a),
                  form_phone = (case Supplier.phone sp of None \<Rightarrow> [] | Some a \<Rightarrow> a),
                  form_email = (case Supplier.email sp of None \<Rightarrow> [] | Some a \<Rightarrow> a),
                  form_contact_person = (case Supplier.contact_person sp of None \<Rightarrow> [] | Some a \<Rightarrow> a),
                  form_economic_activity = parseEconomicActivity json_parse raw,
                  form_status = Some (Supplier.status sp)\<rparr>,
      newActivityCode = []\<rparr>"

section \<open>Invariants\<close>

text \<open>The activity list holds distinct four-digit codes, and the pending input
  holds at most four digits.\<close>

definition activity_state_ok :: "SupplierDialog \<Rightarrow> bool" where
  "activity_state_ok s \<longleftrightarrow>
     distinct (form_economic_activity (formData s)) \<and>
     list_all activity_code_ok (form_economic_activity (formData s)) \<and>
     list_all js_digit (newActivityCode s) \<and> length (newActivityCode s) \<le> 4"

lemma sanitize_activity_input_ok:
  "list_all js_digit (sanitize_activity_input raw) \<and> length (sanitize_activity_input raw) \<le> 4"
  by (auto simp: sanitize_activity_input_def list_all_iff dest: in_set_takeD)

lemma addEconomicActivity_acts:
  "form_economic_activity (formData (addEconomicActivity s)) =
     (if activity_code_ok (newActivityCode s) \<and> newActivityCode s \<notin> set (form_economic_activity (formData s))
      then form_economic_activity (formData s) @ [newActivityCode s]
      else form_economic_activity (formData s))"
  by (auto simp: addEconomicActivity_def Let_def activity_code_ok_def)

lemma addEconomicActivity_ok: "activity_state_ok s \<Longrightarrow> activity_state_ok (addEconomicActivity s)"
  by (auto simp: activity_state_ok_def addEconomicActivity_def Let_def activity_code_ok_def)

lemma removeEconomicActivity_ok: "activity_state_ok s \<Longrightarrow> activity_state_ok (removeEconomicActivity c s)"
  by (auto simp: activity_state_ok_def removeEconomicActivity_def list_all_iff)

lemma set_supplier_field_acts [simp]:
  "form_economic_activity (set_supplier_field fld v f) = form_economic_activity f"
  by (cases fld) simp_all

lemma supplier_form_event_ok:
  assumes "activity_state_ok s"
  shows "activity_state_ok (supplier_form_event s e)"
proof (cases e)
  case ClickAdd
  with assms show ?thesis by (simp add: addEconomicActivity_ok)
next
  case (ClickRemove c)
  with assms show ?thesis by (simp add: removeEconomicActivity_ok)
next
  case (TypeActivityCode raw)
  with assms show ?thesis
    using sanitize_activity_input_ok[of raw] by (simp add: activity_state_ok_def)
qed (use assms in \<open>auto simp: activity_state_ok_def\<close>)

lemma add_supplier_init_ok: "activity_state_ok add_supplier_init"
  by (simp add: activity_state_ok_def add_supplier_init_def empty_supplier_form_def)

lemma add_supplier_step_ok:
  assumes "activity_state_ok s"
  shows "activity_state_ok (add_supplier_step s e)"
proof (cases "\<exists>r. e = Submit r")
  case True
  then obtain r where "e = Submit r" by blast
  with assms show ?thesis
    by (cases r) (auto simp: activity_state_ok_def empty_supplier_form_def)
next
  case False
  then have "add_supplier_step s e = supplier_form_event s e"
    by (cases e) simp_all
  with supplier_form_event_ok[OF assms, of e] show ?thesis
    by (simp only:)
qed


lemma supplier_form_event_acts:
  "set (form_economic_activity (formData (supplier_form_event s e))) \<subseteq>
     set (form_economic_activity (formData s)) \<union> {c. activity_code_ok c} \<and>
   (distinct (form_economic_activity (formData s)) \<longrightarrow>
      distinct (form_economic_activity (formData (supplier_form_event s e))))"
  by (cases e) (auto simp: addEconomicActivity_acts removeEconomicActivity_def)

lemma formData_edit_supplier_handleSubmit [simp]:
  "formData (edit_supplier_handleSubmit r s) = formData s"
  by (cases r) simp_all

lemma edit_supplier_step_acts:
  "set (form_economic_activity (formData (edit_supplier_step s e))) \<subseteq>
     set (form_economic_activity (formData s)) \<union> {c. activity_code_ok c} \<and>
   (distinct (form_economic_activity (formData s)) \<longrightarrow>
      distinct (form_economic_activity (formData (edit_supplier_step s e))))"
proof (cases "(\<exists>r. e = Submit r) \<or> (\<exists>st. e = SelectStatus st)")
  case True
  then show ?thesis
    by (cases e) auto
next
  case False
  then have eq: "edit_supplier_step s e = supplier_form_event s e"
    by (cases e) auto
  show ?thesis
    unfolding eq by (rule supplier_form_event_acts)
qed

text \<open>C8 (add-dialog activity invariant): in every state the add-supplier
  dialog reaches from its initial state, the activity list holds distinct
  four-digit codes and the pending code input holds at most four digits.\<close>

theorem add_supplier_dialog_invariant:
  assumes "reachable_from add_supplier_step add_supplier_init s"
  shows "activity_state_ok s"
  using assms add_supplier_init_ok add_supplier_step_ok
  by (rule reachable_from_invariant)

theorem add_supplier_dialog_invariant_witness:
  "activity_state_ok (run add_supplier_step add_supplier_init
     [SetOpen True, TypeActivityCode ''46-45x'', ClickAdd, TypeActivityCode ''4645'', ClickAdd,
      TypeActivityCode ''123''])"
  by (rule add_supplier_dialog_invariant) (rule reachable_from_run)

text \<open>C30 (edit-dialog activity list): from any initial state of the edit
  dialog, editing never adds a code that is not four digits, and keeps a list
  of distinct codes distinct; codes already stored (even malformed ones) stay
  until removed.\<close>

theorem edit_supplier_dialog_acts:
  assumes "reachable_from edit_supplier_step s0 s"
  shows "set (form_economic_activity (formData s)) \<subseteq>
           set (form_economic_activity (formData s0)) \<union> {c. activity_code_ok c} \<and>
         (distinct (form_economic_activity (formData s0)) \<longrightarrow>
            distinct (form_economic_activity (formData s)))"
  using assms
proof (induction rule: reachable_from.induct)
  case start
  then show ?case by simp
next
  case (step s e)
  then show ?case using edit_supplier_step_acts[of s e] by blast
qed

theorem edit_supplier_dialog_acts_witness:
  "set (form_economic_activity (formData (run edit_supplier_step
       (edit_supplier_init (\<lambda>t. JsonSyntaxError) (RawString ''4645,12'')
          \<lparr>Supplier.id = ''s1'', id_type = NIT, id_number = ''900123456-1'', name = ''Ana'',
           address = None, phone = None, email = None, contact_person = None,
           economic_activity = None, status = Active, created_at = 0, updated_at = 0\<rparr>)
       [TypeActivityCode ''0101'', ClickAdd, SelectStatus Inactive]))) \<subseteq>
     {''4645,12''} \<union> {c. activity_code_ok c} \<and>
   distinct (form_economic_activity (formData (run edit_supplier_step
       (edit_supplier_init (\<lambda>t. JsonSyntaxError) (RawString ''4645,12'')
          \<lparr>Supplier.id = ''s1'', id_type = NIT, id_number = ''900123456-1'', name = ''Ana'',
           address = None, phone = None, email = None, contact_person = None,
           economic_activity = None, status = Active, created_at = 0, updated_at = 0\<rparr>)
       [TypeActivityCode ''0101'', ClickAdd, SelectStatus Inactive])))"
proof -
  let ?init = "edit_supplier_init (\<lambda>t. JsonSyntaxError) (RawString ''4645,12'')
          \<lparr>Supplier.id = ''s1'', id_type = NIT, id_number = ''900123456-1'', name = ''Ana'',
           address = None, phone = None, email = None, contact_person = None,
           economic_activity = None, status = Active, created_at = 0, updated_at = 0\<rparr>"
  let ?s = "run edit_supplier_step ?init [TypeActivityCode ''0101'', ClickAdd, SelectStatus Inactive]"
  have acts0: "form_economic_activity (formData ?init) = [''4645,12'']"
    by (simp add: edit_supplier_init_def js_truthy_str_def)
  have h: "set (form_economic_activity (formData ?s)) \<subseteq>
          set (form_economic_activity (formData ?init)) \<union> {c. activity_code_ok c} \<and>
        (distinct (form_economic_activity (formData ?init)) \<longrightarrow>
           distinct (form_economic_activity (formData ?s)))"
    by (rule edit_supplier_dialog_acts) (rule reachable_from_run)
  show ?thesis
    using h by (simp only: acts0 list.set distinct_singleton simp_thms)
qed

text \<open>Add then remove: adding a new four-digit code and then removing it
  gives back the activity list as it was.\<close>

theorem add_remove_activity_roundtrip:
  assumes "activity_code_ok (newActivityCode s)"
    and "newActivityCode s \<notin> set (form_economic_activity (formData s))"
  shows "form_economic_activity (formData
           (removeEconomicActivity (newActivityCode s) (addEconomicActivity s))) =
         form_economic_activity (formData s)"
  using assms
  by (simp add: addEconomicActivity_acts removeEconomicActivity_def filter_id_conv)
     (metis)

theorem add_remove_activity_roundtrip_witness:
  "form_economic_activity (formData (removeEconomicActivity ''4645'' (addEconomicActivity
     (add_supplier_init\<lparr>newActivityCode := ''4645''\<rparr>)))) = []"
  using add_remove_activity_roundtrip[of "add_supplier_init\<lparr>newActivityCode := ''4645''\<rparr>"]
  by (simp add: add_supplier_init_def empty_supplier_form_def activity_code_ok_def js_digit_def)

lemma set_split_on: "c \<in> set s \<Longrightarrow> c \<noteq> d \<Longrightarrow> \<exists>w\<in>set (split_on d s). c \<in> set w"
proof (induct s)
  case Nil then show ?case by simp
next
  case (Cons a s)
  have ne: "split_on d s \<noteq> []" by (cases s) simp_all
  show ?case
  proof (cases "c = a")
    case True
    then show ?thesis using Cons.prems by (auto intro: bexI[of _ "a # hd (split_on d s)"])
  next
    case False
    then obtain w where w: "w \<in> set (split_on d s)" "c \<in> set w" using Cons by auto
    show ?thesis
    proof (cases "a = d")
      case True then show ?thesis using w by auto
    next
      case False
      then show ?thesis using w ne by (cases "split_on d s") auto
    qed
  qed
qed

lemma html_email_ok_chars:
  assumes "html_email_ok e" and "c \<in> set e"
  shows "c = CHR ''@'' \<or> c = CHR ''.'' \<or> html_email_local_char c \<or> ascii_alnum c \<or> c = CHR ''-''"
proof -
  let ?lp = "takeWhile (\<lambda>c. c \<noteq> CHR ''@'') e" and ?r = "dropWhile (\<lambda>c. c \<noteq> CHR ''@'') e"
  have ok: "list_all html_email_local_char ?lp" "?r \<noteq> []"
    "list_all html_email_label (split_on CHR ''.'' (tl ?r))"
    using assms(1) by (simp_all add: html_email_ok_def Let_def)
  have "c \<in> set ?lp \<or> c \<in> set ?r" using assms(2) takeWhile_dropWhile_id[of _ e] by (metis Un_iff set_append)
  then show ?thesis
  proof
    assume "c \<in> set ?lp" then show ?thesis using ok(1) by (auto simp: list_all_iff)
  next
    assume r: "c \<in> set ?r"
    have "hd ?r = CHR ''@''" using ok(2) hd_dropWhile by blast
    then have "c = CHR ''@'' \<or> c \<in> set (tl ?r)" using r ok(2) by (cases ?r) auto
    then show ?thesis
    proof
      assume "c \<in> set (tl ?r)"
      moreover have "c \<noteq> CHR ''.'' \<Longrightarrow> \<exists>w\<in>set (split_on CHR ''.'' (tl ?r)). c \<in> set w"
        using calculation by (rule set_split_on)
      ultimately show ?thesis using ok(3) by (auto simp: list_all_iff html_email_label_def)
    qed simp
  qed
qed

lemma html_email_ok_no_ws: "html_email_ok e \<Longrightarrow> c \<in> set e \<Longrightarrow> \<not> ascii_ws c"
  by (drule (1) html_email_ok_chars)
     (auto simp: ascii_ws_def html_email_local_char_def ascii_alnum_def)

lemma email_input_value_id:
  assumes "\<And>c. c \<in> set e \<Longrightarrow> \<not> ascii_ws c"
  shows "email_input_value e = e"
proof -
  have f: "filter (\<lambda>c. c \<noteq> CHR 0x0A \<and> c \<noteq> CHR 0x0D) e = e"
    using assms by (auto simp: filter_id_conv ascii_ws_def)
  have d: "dropWhile ascii_ws xs = xs" if "\<And>c. c \<in> set xs \<Longrightarrow> \<not> ascii_ws c" for xs
    using that by (cases xs) auto
  have "dropWhile ascii_ws (rev e) = rev e" using assms by (intro d) simp
  then show ?thesis using assms by (simp add: email_input_value_def f d)
qed

text \<open>C4 (the add dialog skips the validator): for every non-empty document
  number \<open>n\<close> that is not a well-formed NIT and every non-empty name, the
  add-supplier dialog reaches a form with document type NIT, number \<open>n\<close>
  and that name which the browser's constraint validation lets through.
  \<open>validateCreate\<close> rejects its payload with the NIT message alone, yet the
  submit is sent, and a successful insert closes the dialog and resets it.\<close>

theorem add_supplier_dialog_submits_invalid_nit:
  assumes "n \<noteq> []" and "\<not> isValidNIT n" and "nm \<noteq> []"
  shows "let s = run add_supplier_step add_supplier_init
                   [SetOpen True, SelectIdType NIT, EditField IdNumber n, EditField Name nm] in
         supplier_form_valid (formData s) \<and>
         errors (supplier_validateCreate (supplier_insert_payload (formData s))) = [msg_invalid_nit] \<and>
         add_supplier_step s (Submit None) = add_supplier_init"
  using assms
  by (simp add: add_supplier_init_def empty_supplier_form_def supplier_insert_payload_def
      supplier_validateCreate_def supplier_form_valid_def)

theorem add_supplier_dialog_submits_invalid_nit_witness:
  "let s = run add_supplier_step add_supplier_init
             [SetOpen True, SelectIdType NIT, EditField IdNumber ''123'', EditField Name ''Drogueria Central''] in
   supplier_form_valid (formData s) \<and>
   errors (supplier_validateCreate (supplier_insert_payload (formData s))) = [msg_invalid_nit] \<and>
   add_supplier_step s (Submit None) = add_supplier_init"
  by (rule add_supplier_dialog_submits_invalid_nit) (simp_all add: isValidNIT_def nit_rx_iff nit_ok_def)

text \<open>C19 (the browser's e-mail check is weaker than the validator's): for
  every address that the \<open>type="email"\<close> input accepts and that contains no
  dot (such as \<open>ana@localhost\<close>), the add-supplier dialog reaches a form the
  browser lets through, whose payload \<open>validateCreate\<close> rejects with the
  e-mail message: the validator's pattern asks for a dot after the \<open>@\<close>.\<close>

theorem add_supplier_dialog_submits_dotless_email:
  assumes "html_email_ok e" and "CHR ''.'' \<notin> set e" and "n \<noteq> []" and "nm \<noteq> []"
  shows "let s = run add_supplier_step add_supplier_init
                   [SetOpen True, SelectIdType CC, EditField IdNumber n, EditField Name nm, EditField Email e] in
         supplier_form_valid (formData s) \<and>
         msg_invalid_email \<in> set (errors (supplier_validateCreate (supplier_insert_payload (formData s))))"
proof -
  have v: "email_input_value e = e" using email_input_value_id html_email_ok_no_ws[OF assms(1)] by blast
  have ne: "e \<noteq> []" using assms(1) by (auto simp: html_email_ok_def Let_def)
  have "\<not> email_shape e" using assms(2) by (auto simp: email_shape_def)
  then show ?thesis using assms v ne
    by (simp add: add_supplier_init_def empty_supplier_form_def supplier_insert_payload_def
        supplier_validateCreate_def supplier_form_valid_def isValidEmail_def email_rx_iff)
qed

theorem add_supplier_dialog_submits_dotless_email_witness:
  "let s = run add_supplier_step add_supplier_init
             [SetOpen True, SelectIdType CC, EditField IdNumber ''1020'', EditField Name ''Ana'',
              EditField Email ''ana@localhost''] in
   supplier_form_valid (formData s) \<and>
   msg_invalid_email \<in> set (errors (supplier_validateCreate (supplier_insert_payload (formData s))))"
  by (rule add_supplier_dialog_submits_dotless_email)
     (simp_all add: html_email_ok_def html_email_local_char_def html_email_label_def ascii_alnum_def)

end
