(* ===== verification/Store.thy ===== *)
theory Store
  imports Entities "HOL-Library.Char_ord" "HOL-Library.List_Lexorder"
begin

text \<open>
  The services of \<open>src/lib/services\<close> (\<open>ProductsService\<close>, \<open>SuppliersService\<close>,
  \<open>ReceptionsService\<close>) over a model of the store they call.  The store is
  the record \<open>db\<close>, which holds one list of rows per table and the store's
  clock.  The Supabase query builder calls used by the services are
  definitions of this theory: \<open>.order\<close>, \<open>.eq(...).update\<close>,
  \<open>.eq(...).delete\<close>, \<open>.insert\<close>, \<open>.single()\<close> and the embedding
  \<open>product:products(*)\<close>.  They follow the PostgREST semantics and the
  schema that \<open>types.ts\<close> implies:
  \<^item> \<open>id\<close> is the primary key;
  \<^item> \<open>created_at\<close> defaults to the store's clock, which advances on every
    insert;
  \<^item> a reception's \<open>product_id\<close> and \<open>supplier_id\<close> are foreign keys, since
    the embedding of \<open>product:products(*)\<close> needs them.  Deleting a product
    or a supplier deletes the receptions that reference it
    (\<open>ON DELETE CASCADE\<close>): the delete dialogs tell the user so
    (\<open>delete-product-dialog.tsx\<close> lines 58-59), and the services do nothing
    else about the references;
  \<^item> the columns that \<open>types.ts\<close> declares non-optional reject a null.

  Every service call takes a \<open>fault\<close>: \<open>Some e\<close> when the client call fails
  with the error object \<open>e\<close> (network, permissions), and then nothing is
  written.  \<open>if (error) throw error\<close> is the \<open>Inl\<close> branch of the result.
  The invariant \<open>db_ok\<close> holds three facts: keys are unique, references are
  intact, and every creation instant is before the clock.  Every service
  preserves it.
\<close>

section \<open>Thrown values and the store\<close>

text \<open>What a failing call throws: an \<open>Error\<close> instance with its message, or
  another value (the hooks distinguish them with \<open>err instanceof Error\<close>).\<close>

datatype thrown = JsError string | NonError

type_synonym fault = "thrown option"

record db =
  db_products :: "Product list"
  db_suppliers :: "Supplier list"
  db_receptions :: "ProductReception list"
  db_clock :: time

section \<open>Query builder\<close>

definition msg_single_row :: string where
  "msg_single_row = ''JSON object requested, multiple (or no) rows returned''"

definition msg_duplicate_key :: string where
  "msg_duplicate_key = ''duplicate key value violates unique constraint''"

definition msg_foreign_key :: string where
  "msg_foreign_key = ''violates foreign key constraint''"

definition msg_not_null :: string where
  "msg_not_null = ''null value violates not-null constraint''"

text \<open>\<open>.order(k, {ascending: false})\<close>; rows with equal keys come out in
  reverse insertion order, one of the orders PostgreSQL may return.\<close>

definition order_desc :: "('r \<Rightarrow> 'k::linorder) \<Rightarrow> 'r list \<Rightarrow> 'r list" where
  "order_desc k rs = rev (sort_key k rs)"

text \<open>\<open>.eq(col, v)\<close> as a row filter, and combined with \<open>.update\<close> and
  \<open>.delete\<close>.\<close>

definition eq_select :: "('r \<Rightarrow> string) \<Rightarrow> string \<Rightarrow> 'r list \<Rightarrow> 'r list" where
  "eq_select key i rs = filter (\<lambda>r. key r = i) rs"

definition eq_update :: "('r \<Rightarrow> string) \<Rightarrow> string \<Rightarrow> ('r \<Rightarrow> 'r) \<Rightarrow> 'r list \<Rightarrow> 'r list" where
  "eq_update key i g rs = map (\<lambda>r. if key r = i then g r else r) rs"

definition eq_delete :: "('r \<Rightarrow> string) \<Rightarrow> string \<Rightarrow> 'r list \<Rightarrow> 'r list" where
  "eq_delete key i rs = filter (\<lambda>r. key r \<noteq> i) rs"

text \<open>\<open>.single()\<close>: exactly one row, else the PostgREST error.\<close>

fun single :: "'r list \<Rightarrow> thrown + 'r" where
  "single [r] = Inr r"
| "single rs = Inl (JsError msg_single_row)"

text \<open>\<open>.insert([row])\<close> on a table whose key is \<open>key\<close>.\<close>

definition insert_row :: "('r \<Rightarrow> string) \<Rightarrow> 'r \<Rightarrow> 'r list \<Rightarrow> thrown + 'r list" where
  "insert_row key r rs =
     (if key r \<in> set (map key rs) then Inl (JsError msg_duplicate_key) else Inr (rs @ [r]))"

text \<open>A partial payload: an absent field keeps the stored value
  (\<open>JSON.stringify\<close> drops \<open>undefined\<close>).\<close>

fun override :: "'a option \<Rightarrow> 'a \<Rightarrow> 'a" where
  "override None x = x"
| "override (Some y) x = y"

section \<open>ProductsService\<close>

definition products_getAll :: "fault \<Rightarrow> db \<Rightarrow> thrown + Product list" where
  "products_getAll f s =
     (case f of Some e \<Rightarrow> Inl e | None \<Rightarrow> Inr (order_desc Product.created_at (db_products s)))"

definition products_getActive :: "fault \<Rightarrow> db \<Rightarrow> thrown + Product list" where
  "products_getActive f s =
     (case f of Some e \<Rightarrow> Inl e
      | None \<Rightarrow> Inr (sort_key Product.name (filter (\<lambda>p. Product.status p = Active) (db_products s))))"

definition product_row :: "string \<Rightarrow> time \<Rightarrow> CreateProductData \<Rightarrow> Product" where
  "product_row fresh t d =
     \<lparr>Product.id = fresh, Product.code = CreateProductData.code d,
      Product.name = CreateProductData.name d,
      Product.description = CreateProductData.description d,
      Product.laboratory = CreateProductData.laboratory d,
      Product.status = Active, Product.created_at = t, Product.updated_at = t\<rparr>"

definition products_create ::
  "fault \<Rightarrow> string \<Rightarrow> CreateProductData \<Rightarrow> db \<Rightarrow> (thrown + Product) \<times> db" where
  "products_create f fresh d s =
     (case f of Some e \<Rightarrow> (Inl e, s)
      | None \<Rightarrow>
          (let p = product_row fresh (db_clock s) d in
           case insert_row Product.id p (db_products s) of
             Inl e \<Rightarrow> (Inl e, s)
           | Inr rs \<Rightarrow> (Inr p, s\<lparr>db_products := rs, db_clock := db_clock s + 1\<rparr>)))"

definition product_patch :: "UpdateProductData \<Rightarrow> time \<Rightarrow> Product \<Rightarrow> Product" where
  "product_patch u now p =
     p\<lparr>Product.code := override (UpdateProductData.code u) (Product.code p),
       Product.name := override (UpdateProductData.name u) (Product.name p),
       Product.description :=
         override (map_option Some (UpdateProductData.description u)) (Product.description p),
       Product.laboratory :=
         override (map_option Some (UpdateProductData.laboratory u)) (Product.laboratory p),
       Product.status := override (UpdateProductData.status u) (Product.status p),
       Product.updated_at := now\<rparr>"

definition products_update ::
  "fault \<Rightarrow> time \<Rightarrow> string \<Rightarrow> UpdateProductData \<Rightarrow> db \<Rightarrow> (thrown + Product) \<times> db" where
  "products_update f now i u s =
     (case f of Some e \<Rightarrow> (Inl e, s)
      | None \<Rightarrow>
          (let rs = eq_update Product.id i (product_patch u now) (db_products s) in
           (single (eq_select Product.id i rs), s\<lparr>db_products := rs\<rparr>)))"

definition products_delete :: "fault \<Rightarrow> string \<Rightarrow> db \<Rightarrow> thrown option \<times> db" where
  "products_delete f i s =
     (case f of Some e \<Rightarrow> (Some e, s)
      | None \<Rightarrow>
          (None, s\<lparr>db_products := eq_delete Product.id i (db_products s),
                    db_receptions := eq_delete ProductReception.product_id i (db_receptions s)\<rparr>))"


section \<open>SuppliersService\<close>

definition suppliers_getAll :: "fault \<Rightarrow> db \<Rightarrow> thrown + Supplier list" where
  "suppliers_getAll f s =
     (case f of Some e \<Rightarrow> Inl e | None \<Rightarrow> Inr (order_desc Supplier.created_at (db_suppliers s)))"

definition supplier_row :: "string \<Rightarrow> time \<Rightarrow> id_type \<Rightarrow> CreateSupplierData \<Rightarrow> Supplier" where
  "supplier_row fresh t ty d =
     \<lparr>Supplier.id = fresh, Supplier.id_type = ty, Supplier.id_number = CreateSupplierData.id_number d,
      Supplier.name = CreateSupplierData.name d, Supplier.address = CreateSupplierData.address d,
      Supplier.phone = CreateSupplierData.phone d, Supplier.email = CreateSupplierData.email d,
      Supplier.contact_person = CreateSupplierData.contact_person d,
      Supplier.economic_activity = CreateSupplierData.economic_activity d,
      Supplier.status = Active, Supplier.created_at = t, Supplier.updated_at = t\<rparr>"

text \<open>An absent \<open>id_type\<close> is a null in a required column.\<close>

definition suppliers_create ::
  "fault \<Rightarrow> string \<Rightarrow> CreateSupplierData \<Rightarrow> db \<Rightarrow> (thrown + Supplier) \<times> db" where
  "suppliers_create f fresh d s =
     (case f of Some e \<Rightarrow> (Inl e, s)
      | None \<Rightarrow>
          (case CreateSupplierData.id_type d of
             None \<Rightarrow> (Inl (JsError msg_not_null), s)
           | Some ty \<Rightarrow>
               (let p = supplier_row fresh (db_clock s) ty d in
                case insert_row Supplier.id p (db_suppliers s) of
                  Inl e \<Rightarrow> (Inl e, s)
                | Inr rs \<Rightarrow> (Inr p, s\<lparr>db_suppliers := rs, db_clock := db_clock s + 1\<rparr>))))"

definition supplier_patch :: "UpdateSupplierData \<Rightarrow> time \<Rightarrow> Supplier \<Rightarrow> Supplier" where
  "supplier_patch u now p =
     p\<lparr>Supplier.id_type := override (UpdateSupplierData.id_type u) (Supplier.id_type p),
       Supplier.id_number := override (UpdateSupplierData.id_number u) (Supplier.id_number p),
       Supplier.name := override (UpdateSupplierData.name u) (Supplier.name p),
       Supplier.address := override (map_option Some (UpdateSupplierData.address u)) (Supplier.address p),
       Supplier.phone := override (map_option Some (UpdateSupplierData.phone u)) (Supplier.phone p),
       Supplier.email := override (map_option Some (UpdateSupplierData.email u)) (Supplier.email p),
       Supplier.contact_person :=
         override (map_option Some (UpdateSupplierData.contact_person u)) (Supplier.contact_person p),
       Supplier.economic_activity :=
         override (map_option Some (UpdateSupplierData.economic_activity u))
           (Supplier.economic_activity p),
       Supplier.status := override (UpdateSupplierData.status u) (Supplier.status p),
       Supplier.updated_at := now\<rparr>"

definition suppliers_update ::
  "fault \<Rightarrow> time \<Rightarrow> string \<Rightarrow> UpdateSupplierData \<Rightarrow> db \<Rightarrow> (thrown + Supplier) \<times> db" where
  "suppliers_update f now i u s =
     (case f of Some e \<Rightarrow> (Inl e, s)
      | None \<Rightarrow>
          (let rs = eq_update Supplier.id i (supplier_patch u now) (db_suppliers s) in
           (single (eq_select Supplier.id i rs), s\<lparr>db_suppliers := rs\<rparr>)))"

definition suppliers_delete :: "fault \<Rightarrow> string \<Rightarrow> db \<Rightarrow> thrown option \<times> db" where
  "suppliers_delete f i s =
     (case f of Some e \<Rightarrow> (Some e, s)
      | None \<Rightarrow>
          (None, s\<lparr>db_suppliers := eq_delete Supplier.id i (db_suppliers s),
                    db_receptions := eq_delete ProductReception.supplier_id i (db_receptions s)\<rparr>))"

section \<open>ReceptionsService\<close>

text \<open>\<open>select("*, product:products(*), supplier:suppliers(*)")\<close>: each
  reception carries the rows its foreign keys name.\<close>

definition embed :: "db \<Rightarrow> ProductReception \<Rightarrow> ProductReception" where
  "embed s r =
     r\<lparr>product := find (\<lambda>p. Product.id p = ProductReception.product_id r) (db_products s),
       supplier := find (\<lambda>p. Supplier.id p = ProductReception.supplier_id r) (db_suppliers s)\<rparr>"

definition refs_ok :: "db \<Rightarrow> ProductReception \<Rightarrow> bool" where
  "refs_ok s r \<longleftrightarrow>
     ProductReception.product_id r \<in> set (map Product.id (db_products s)) \<and>
     ProductReception.supplier_id r \<in> set (map Supplier.id (db_suppliers s))"

definition receptions_getAll :: "fault \<Rightarrow> db \<Rightarrow> thrown + ProductReception list" where
  "receptions_getAll f s =
     (case f of Some e \<Rightarrow> Inl e
      | None \<Rightarrow> Inr (order_desc ProductReception.reception_date (map (embed s) (db_receptions s))))"

definition reception_row ::
  "string \<Rightarrow> time \<Rightarrow> presentation_state \<Rightarrow> CreateReceptionData \<Rightarrow> ProductReception" where
  "reception_row fresh t ps d =
     \<lparr>ProductReception.id = fresh,
      ProductReception.reception_date = CreateReceptionData.reception_date d,
      ProductReception.product_id = CreateReceptionData.product_id d,
      ProductReception.supplier_id = CreateReceptionData.supplier_id d,
      ProductReception.invoice_number = CreateReceptionData.invoice_number d,
      ProductReception.quantity = CreateReceptionData.quantity d,
      ProductReception.batch_number = CreateReceptionData.batch_number d,
      ProductReception.invima_registration = CreateReceptionData.invima_registration d,
      ProductReception.expiration_date = CreateReceptionData.expiration_date d,
      ProductReception.presentation_state = ps,
      ProductReception.notes_str = CreateReceptionData.notes_str d,
      ProductReception.created_at = t, ProductReception.updated_at = t,
      product = None, supplier = None\<rparr>"

definition receptions_create ::
  "fault \<Rightarrow> string \<Rightarrow> CreateReceptionData \<Rightarrow> db \<Rightarrow> (thrown + ProductReception) \<times> db" where
  "receptions_create f fresh d s =
     (case f of Some e \<Rightarrow> (Inl e, s)
      | None \<Rightarrow>
          (case CreateReceptionData.presentation_state d of
             None \<Rightarrow> (Inl (JsError msg_not_null), s)
           | Some ps \<Rightarrow>
               (let r = reception_row fresh (db_clock s) ps d in
                if \<not> refs_ok s r then (Inl (JsError msg_foreign_key), s)
                else case insert_row ProductReception.id r (db_receptions s) of
                  Inl e \<Rightarrow> (Inl e, s)
                | Inr rs \<Rightarrow> (Inr (embed s r), s\<lparr>db_receptions := rs, db_clock := db_clock s + 1\<rparr>))))"

definition reception_patch :: "UpdateReceptionData \<Rightarrow> time \<Rightarrow> ProductReception \<Rightarrow> ProductReception" where
  "reception_patch u now r =
     r\<lparr>ProductReception.reception_date :=
         override (UpdateReceptionData.reception_date u) (ProductReception.reception_date r),
       ProductReception.product_id :=
         override (UpdateReceptionData.product_id u) (ProductReception.product_id r),
       ProductReception.supplier_id :=
         override (UpdateReceptionData.supplier_id u) (ProductReception.supplier_id r),
       ProductReception.invoice_number :=
         override (UpdateReceptionData.invoice_number u) (ProductReception.invoice_number r),
       ProductReception.quantity := override (UpdateReceptionData.quantity u) (ProductReception.quantity r),
       ProductReception.batch_number :=
         override (map_option Some (UpdateReceptionData.batch_number u)) (ProductReception.batch_number r),
       ProductReception.invima_registration :=
         override (map_option Some (UpdateReceptionData.invima_registration u))
           (ProductReception.invima_registration r),
       ProductReception.expiration_date :=
         override (map_option Some (UpdateReceptionData.expiration_date u))
           (ProductReception.expiration_date r),
       ProductReception.presentation_state :=
         override (UpdateReceptionData.presentation_state u) (ProductReception.presentation_state r),
       ProductReception.notes_str :=
         override (map_option Some (UpdateReceptionData.notes_str u)) (ProductReception.notes_str r),
       ProductReception.updated_at := now\<rparr>"

text \<open>The updated rows must still reference existing rows, or the statement
  fails and writes nothing.\<close>

definition receptions_update ::
  "fault \<Rightarrow> time \<Rightarrow> string \<Rightarrow> UpdateReceptionData \<Rightarrow> db \<Rightarrow> (thrown + ProductReception) \<times> db" where
  "receptions_update f now i u s =
     (case f of Some e \<Rightarrow> (Inl e, s)
      | None \<Rightarrow>
          (let rs = eq_update ProductReception.id i (reception_patch u now) (db_receptions s) in
           if \<not> list_all (refs_ok s) (eq_select ProductReception.id i rs)
           then (Inl (JsError msg_foreign_key), s)
           else (map_sum Fun.id (embed s) (single (eq_select ProductReception.id i rs)),
                 s\<lparr>db_receptions := rs\<rparr>)))"

definition receptions_delete :: "fault \<Rightarrow> string \<Rightarrow> db \<Rightarrow> thrown option \<times> db" where
  "receptions_delete f i s =
     (case f of Some e \<Rightarrow> (Some e, s)
      | None \<Rightarrow> (None, s\<lparr>db_receptions := eq_delete ProductReception.id i (db_receptions s)\<rparr>))"


section \<open>The store invariant\<close>

definition db_ok :: "db \<Rightarrow> bool" where
  "db_ok s \<longleftrightarrow>
     distinct (map Product.id (db_products s)) \<and>
     distinct (map Supplier.id (db_suppliers s)) \<and>
     distinct (map ProductReception.id (db_receptions s)) \<and>
     list_all (refs_ok s) (db_receptions s) \<and>
     list_all (\<lambda>p. Product.created_at p < db_clock s) (db_products s) \<and>
     list_all (\<lambda>p. Supplier.created_at p < db_clock s) (db_suppliers s) \<and>
     list_all (\<lambda>r. ProductReception.created_at r < db_clock s) (db_receptions s)"

definition empty_db :: db where
  "empty_db = \<lparr>db_products = [], db_suppliers = [], db_receptions = [], db_clock = 0\<rparr>"

text \<open>The writes a client can issue through the services, with the fault,
  the fresh key the store generates and the client's instant as inputs.\<close>

datatype db_call =
    ProductCreate fault string CreateProductData
  | ProductUpdate fault time string UpdateProductData
  | ProductDelete fault string
  | SupplierCreate fault string CreateSupplierData
  | SupplierUpdate fault time string UpdateSupplierData
  | SupplierDelete fault string
  | ReceptionCreate fault string CreateReceptionData
  | ReceptionUpdate fault time string UpdateReceptionData
  | ReceptionDelete fault string

fun db_apply :: "db \<Rightarrow> db_call \<Rightarrow> db" where
  "db_apply s (ProductCreate f k d) = snd (products_create f k d s)"
| "db_apply s (ProductUpdate f t i u) = snd (products_update f t i u s)"
| "db_apply s (ProductDelete f i) = snd (products_delete f i s)"
| "db_apply s (SupplierCreate f k d) = snd (suppliers_create f k d s)"
| "db_apply s (SupplierUpdate f t i u) = snd (suppliers_update f t i u s)"
| "db_apply s (SupplierDelete f i) = snd (suppliers_delete f i s)"
| "db_apply s (ReceptionCreate f k d) = snd (receptions_create f k d s)"
| "db_apply s (ReceptionUpdate f t i u) = snd (receptions_update f t i u s)"
| "db_apply s (ReceptionDelete f i) = snd (receptions_delete f i s)"

section \<open>Lemmas on the query builder\<close>

named_theorems store_simps "facts that evaluate the services on the store invariant"

lemma map_key_eq_update [store_simps]:
  "(\<And>r. key (g r) = key r) \<Longrightarrow> map key (eq_update key i g rs) = map key rs"
  unfolding eq_update_def by (induct rs) auto

lemma list_all_eq_update:
  "list_all P rs \<Longrightarrow> (\<And>r. P r \<Longrightarrow> P (g r)) \<Longrightarrow> list_all P (eq_update key i g rs)"
  unfolding eq_update_def by (induct rs) auto

lemma map_eq_update_other [store_simps]:
  "(\<And>r. f (g r) = f r) \<Longrightarrow> map f (eq_update key i g rs) = map f rs"
  unfolding eq_update_def by (induct rs) auto

lemma distinct_eq_delete [store_simps]:
  "distinct (map key rs) \<Longrightarrow> distinct (map key (eq_delete key i rs))"
  unfolding eq_delete_def by (simp add: distinct_map_filter)

lemma in_keys_eq_delete [store_simps]:
  "a \<in> set (map key (eq_delete key i rs)) \<longleftrightarrow> a \<in> set (map key rs) \<and> a \<noteq> i"
  unfolding eq_delete_def by auto

lemma image_key_eq_delete [store_simps]: "key ` set (eq_delete key i rs) = key ` set rs - {i}"
  unfolding eq_delete_def by auto

lemma ball_eq_delete [store_simps]:
  "(\<forall>r\<in>set (eq_delete key i rs). P r) \<longleftrightarrow> (\<forall>r\<in>set rs. key r \<noteq> i \<longrightarrow> P r)"
  unfolding eq_delete_def by auto

lemma ball_eq_select [store_simps]:
  "(\<forall>r\<in>set (eq_select key i rs). P r) \<longleftrightarrow> (\<forall>r\<in>set rs. key r = i \<longrightarrow> P r)"
  unfolding eq_select_def by auto

lemma refs_ok_db_receptions_update [simp]: "refs_ok (s\<lparr>db_receptions := x\<rparr>) = refs_ok s"
  unfolding refs_ok_def by simp

lemma image_key_eq_update [store_simps]:
  "(\<And>r. key (g r) = key r) \<Longrightarrow> key ` set (eq_update key i g rs) = key ` set rs"
  unfolding eq_update_def by (induct rs) auto

lemma ball_eq_update [store_simps]:
  "(\<forall>r\<in>set (eq_update key i g rs). P r) \<longleftrightarrow>
   (\<forall>r\<in>set rs. if key r = i then P (g r) else P r)"
  unfolding eq_update_def by auto

lemma list_all_eq_delete [store_simps]: "list_all P rs \<Longrightarrow> list_all P (eq_delete key i rs)"
  unfolding eq_delete_def by (simp add: list_all_iff)

lemma insert_row_Inr [store_simps]:
  "insert_row key r rs = Inr rs' \<longleftrightarrow> key r \<notin> set (map key rs) \<and> rs' = rs @ [r]"
  unfolding insert_row_def by auto

lemma insert_row_Inl: "(\<exists>e. insert_row key r rs = Inl e) \<longleftrightarrow> key r \<in> set (map key rs)"
  unfolding insert_row_def by auto

lemma single_eq_Inr [store_simps]: "single rs = Inr r \<longleftrightarrow> rs = [r]"
  by (cases rs rule: single.cases) auto

lemma product_patch_fixed [simp]:
  "Product.id (product_patch u t p) = Product.id p"
  "Product.created_at (product_patch u t p) = Product.created_at p"
  unfolding product_patch_def by simp_all

lemma supplier_patch_fixed [simp]:
  "Supplier.id (supplier_patch u t p) = Supplier.id p"
  "Supplier.created_at (supplier_patch u t p) = Supplier.created_at p"
  unfolding supplier_patch_def by simp_all

lemma reception_patch_fixed [simp]:
  "ProductReception.id (reception_patch u t r) = ProductReception.id r"
  "ProductReception.created_at (reception_patch u t r) = ProductReception.created_at r"
  unfolding reception_patch_def by simp_all

lemma refs_ok_mono:
  "set (map Product.id (db_products s)) \<subseteq> set (map Product.id (db_products s')) \<Longrightarrow>
   set (map Supplier.id (db_suppliers s)) \<subseteq> set (map Supplier.id (db_suppliers s')) \<Longrightarrow>
   refs_ok s r \<Longrightarrow> refs_ok s' r"
  unfolding refs_ok_def by blast

lemma list_all_refs_ok_mono:
  "set (map Product.id (db_products s)) \<subseteq> set (map Product.id (db_products s')) \<Longrightarrow>
   set (map Supplier.id (db_suppliers s)) \<subseteq> set (map Supplier.id (db_suppliers s')) \<Longrightarrow>
   list_all (refs_ok s) rs \<Longrightarrow> list_all (refs_ok s') rs"
  unfolding list_all_iff refs_ok_def by blast

lemma list_all_mono_lt:
  "list_all (\<lambda>p. f p < (c::int)) rs \<Longrightarrow> c \<le> c' \<Longrightarrow> list_all (\<lambda>p. f p < c') rs"
  by (auto simp: list_all_iff)


lemma insort_key_append_last:
  "f x \<le> f y \<Longrightarrow> insort_key f x (zs @ [y]) = insort_key f x zs @ [y]"
  by (induct zs) auto

lemma sort_key_append_max:
  "\<forall>x\<in>set xs. f x < f y \<Longrightarrow> sort_key f (xs @ [y]) = sort_key f xs @ [y]"
  by (induct xs) (simp_all add: insort_key_append_last less_imp_le)

lemma order_desc_append_max:
  "\<forall>x\<in>set xs. f x < f y \<Longrightarrow> order_desc f (xs @ [y]) = y # order_desc f xs"
  unfolding order_desc_def by (simp add: sort_key_append_max)

lemma insort_key_map:
  "(\<And>x. f (g x) = f x) \<Longrightarrow> insort_key f (g x) (map g ys) = map g (insort_key f x ys)"
  by (induct ys) auto

lemma sort_key_map:
  "(\<And>x. f (g x) = f x) \<Longrightarrow> sort_key f (map g xs) = map g (sort_key f xs)"
  by (induct xs) (simp_all add: insort_key_map)

lemma order_desc_map:
  "(\<And>x. f (g x) = f x) \<Longrightarrow> order_desc f (map g xs) = map g (order_desc f xs)"
  unfolding order_desc_def by (simp add: sort_key_map rev_map)

lemma order_desc_filter: "filter P (order_desc f xs) = order_desc f (filter P xs)"
  unfolding order_desc_def by (simp add: rev_filter[symmetric] filter_sort)

lemma set_order_desc [simp, store_simps]: "set (order_desc f xs) = set xs"
  unfolding order_desc_def by simp

lemma order_desc_eq_update:
  assumes "eq_select key i (eq_update key i g rs) = [r]"
    and "\<And>x. key (g x) = key x" and "\<And>x. f (g x) = f x"
  shows "map (\<lambda>p. if key p = i then r else p) (order_desc f rs) = order_desc f (eq_update key i g rs)"
proof -
  have "g p = r" if "p \<in> set rs" "key p = i" for p
  proof -
    have "g p \<in> set (eq_select key i (eq_update key i g rs))"
      using that assms(2) by (auto simp: eq_select_def eq_update_def)
    then show ?thesis using assms(1) by simp
  qed
  then have "map (\<lambda>p. if key p = i then r else p) (order_desc f rs) =
             map (\<lambda>p. if key p = i then g p else p) (order_desc f rs)"
    by (auto intro: map_cong)
  also have "\<dots> = order_desc f (eq_update key i g rs)"
    unfolding eq_update_def by (rule order_desc_map[symmetric]) (simp add: assms(3))
  finally show ?thesis .
qed

lemma length_eq_select: "distinct (map key rs) \<Longrightarrow> length (eq_select key i rs) \<le> 1"
  unfolding eq_select_def by (induct rs) (auto simp: filter_empty_conv image_iff)

lemma single_Inl_length: "single xs = Inl e \<Longrightarrow> length xs \<noteq> 1"
  by (cases xs rule: single.cases) auto

lemma eq_update_no_match:
  "eq_select key i (eq_update key i g rs) = [] \<Longrightarrow> (\<And>x. key (g x) = key x) \<Longrightarrow> eq_update key i g rs = rs"
  unfolding eq_select_def eq_update_def by (induct rs) auto

lemma eq_update_single_Inl:
  assumes "distinct (map key rs)" "\<And>x. key (g x) = key x"
    and "single (eq_select key i (eq_update key i g rs)) = Inl e"
  shows "eq_update key i g rs = rs"
proof -
  have "distinct (map key (eq_update key i g rs))"
    using assms(1,2) by (simp add: map_key_eq_update)
  then have "length (eq_select key i (eq_update key i g rs)) \<le> 1" by (rule length_eq_select)
  with single_Inl_length[OF assms(3)] have "eq_select key i (eq_update key i g rs) = []"
    by (simp add: le_Suc_eq)
  then show ?thesis using assms(2) by (rule eq_update_no_match)
qed

lemma find_Some_of_mem:
  "x \<in> set xs \<Longrightarrow> P x \<Longrightarrow> \<exists>y. find P xs = Some y \<and> y \<in> set xs \<and> P y"
  by (induct xs) auto

section \<open>Every service keeps the store invariant\<close>

lemma products_create_ok: "db_ok s \<Longrightarrow> db_ok (snd (products_create f k d s))"
  unfolding db_ok_def
  by (auto simp: products_create_def product_row_def refs_ok_def list_all_iff insert_row_def Let_def
      split: option.splits)

lemma products_update_ok: "db_ok s \<Longrightarrow> db_ok (snd (products_update f t i u s))"
  unfolding db_ok_def
  by (auto simp: products_update_def Let_def refs_ok_def list_all_iff store_simps split: option.splits)

lemma products_delete_ok: "db_ok s \<Longrightarrow> db_ok (snd (products_delete f i s))"
  unfolding db_ok_def
  by (auto simp: products_delete_def refs_ok_def list_all_iff store_simps eq_delete_def distinct_map_filter
      split: option.splits)

lemma suppliers_create_ok: "db_ok s \<Longrightarrow> db_ok (snd (suppliers_create f k d s))"
  unfolding db_ok_def
  by (auto simp: suppliers_create_def supplier_row_def refs_ok_def list_all_iff insert_row_def Let_def
      split: option.splits)

lemma suppliers_update_ok: "db_ok s \<Longrightarrow> db_ok (snd (suppliers_update f t i u s))"
  unfolding db_ok_def
  by (auto simp: suppliers_update_def Let_def refs_ok_def list_all_iff store_simps split: option.splits)

lemma suppliers_delete_ok: "db_ok s \<Longrightarrow> db_ok (snd (suppliers_delete f i s))"
  unfolding db_ok_def
  by (auto simp: suppliers_delete_def refs_ok_def list_all_iff store_simps eq_delete_def distinct_map_filter
      split: option.splits)

lemma receptions_create_ok: "db_ok s \<Longrightarrow> db_ok (snd (receptions_create f k d s))"
  unfolding db_ok_def
  by (auto simp: receptions_create_def reception_row_def refs_ok_def list_all_iff insert_row_def
      Let_def split: option.splits)

lemma receptions_update_ok: "db_ok s \<Longrightarrow> db_ok (snd (receptions_update f t i u s))"
  unfolding db_ok_def
  by (auto simp: receptions_update_def Let_def list_all_iff store_simps split: option.splits)

lemma receptions_delete_ok: "db_ok s \<Longrightarrow> db_ok (snd (receptions_delete f i s))"
  unfolding db_ok_def
  by (auto simp: receptions_delete_def list_all_iff store_simps split: option.splits)

lemma db_apply_ok: "db_ok s \<Longrightarrow> db_ok (db_apply s c)"
  by (cases c) (simp_all add: products_create_ok products_update_ok products_delete_ok
      suppliers_create_ok suppliers_update_ok suppliers_delete_ok
      receptions_create_ok receptions_update_ok receptions_delete_ok)

lemma empty_db_ok: "db_ok empty_db"
  by (simp add: db_ok_def empty_db_def)



section \<open>Properties of the services\<close>

text \<open>Store integrity: whatever sequence of service writes the clients
  issue, with any faults and any keys, starting from the empty store, keys
  stay unique, every reception references an existing product and supplier,
  and every creation instant is before the store's clock.  This is a
  property of the store model, whose primary keys, foreign keys and clock
  are the schema's; the services add no check of their own.\<close>

theorem store_keeps_integrity:
  assumes "reachable_from db_apply empty_db s"
  shows "db_ok s"
  using assms empty_db_ok db_apply_ok by (rule reachable_from_invariant)

theorem store_keeps_integrity_witness:
  "db_ok (run db_apply empty_db
     [ProductCreate None ''p1'' \<lparr>CreateProductData.code = ''MED001'',
        CreateProductData.name = ''Acetaminofen'', CreateProductData.description = None,
        CreateProductData.laboratory = None\<rparr>,
      SupplierCreate None ''s1'' \<lparr>CreateSupplierData.id_type = Some CC,
        CreateSupplierData.id_number = ''1'', CreateSupplierData.name = ''Ana'',
        CreateSupplierData.address = None, CreateSupplierData.phone = None,
        CreateSupplierData.email = None, CreateSupplierData.contact_person = None,
        CreateSupplierData.economic_activity = None\<rparr>,
      ReceptionCreate None ''r1'' \<lparr>CreateReceptionData.reception_date = ''2024-05-01'',
        CreateReceptionData.product_id = ''p1'', CreateReceptionData.supplier_id = ''s1'',
        CreateReceptionData.invoice_number = ''F-1'', CreateReceptionData.quantity = JNum 5,
        CreateReceptionData.batch_number = None, CreateReceptionData.invima_registration = None,
        CreateReceptionData.expiration_date = None,
        CreateReceptionData.presentation_state = Some Bueno, CreateReceptionData.notes_str = None\<rparr>,
      ProductDelete None ''p1''])"
  by (rule store_keeps_integrity) (rule reachable_from_run)

text \<open>C31 (joined receptions): on a store with intact references,
  \<open>ReceptionsService.getAll\<close> returns every reception with the product and the
  supplier its foreign keys name.\<close>

theorem receptions_getAll_embeds:
  assumes "db_ok s" and "receptions_getAll None s = Inr rs" and "r \<in> set rs"
  shows "\<exists>p sp. product r = Some p \<and> p \<in> set (db_products s) \<and>
           Product.id p = ProductReception.product_id r \<and>
           supplier r = Some sp \<and> sp \<in> set (db_suppliers s) \<and>
           Supplier.id sp = ProductReception.supplier_id r"
proof -
  obtain r0 where r0: "r0 \<in> set (db_receptions s)" "r = embed s r0"
    using assms(2,3) by (auto simp: receptions_getAll_def)
  then have "refs_ok s r0" using assms(1) by (simp add: db_ok_def list_all_iff)
  then obtain p sp where p: "p \<in> set (db_products s)" "Product.id p = ProductReception.product_id r0"
      and sp: "sp \<in> set (db_suppliers s)" "Supplier.id sp = ProductReception.supplier_id r0"
    by (auto simp: refs_ok_def)
  obtain q where q: "find (\<lambda>q. Product.id q = ProductReception.product_id r0) (db_products s) = Some q"
      "q \<in> set (db_products s)" "Product.id q = ProductReception.product_id r0"
    using find_Some_of_mem[OF p(1), of "\<lambda>q. Product.id q = ProductReception.product_id r0"] p(2) by auto
  obtain q' where q': "find (\<lambda>q. Supplier.id q = ProductReception.supplier_id r0) (db_suppliers s) = Some q'"
      "q' \<in> set (db_suppliers s)" "Supplier.id q' = ProductReception.supplier_id r0"
    using find_Some_of_mem[OF sp(1), of "\<lambda>q. Supplier.id q = ProductReception.supplier_id r0"] sp(2)
    by auto
  show ?thesis using r0(2) q q' by (simp add: embed_def)
qed


theorem receptions_getAll_embeds_witness:
  "\<exists>p sp. product (embed \<lparr>db_products = [\<lparr>Product.id = ''p1'', code = ''MED001'', name = ''Acetaminofen'', description = None,
        laboratory = None, status = Active, created_at = 0, updated_at = 0\<rparr>],
      db_suppliers = [\<lparr>Supplier.id = ''s1'', id_type = CC, id_number = ''1'', name = ''Ana'', address = None,
        phone = None, email = None, contact_person = None, economic_activity = None,
        status = Active, created_at = 1, updated_at = 1\<rparr>],
      db_receptions = [\<lparr>ProductReception.id = ''r1'', reception_date = ''2024-05-02'', product_id = ''p1'',
        supplier_id = ''s1'', invoice_number = ''F-1'', quantity = JNum 10, batch_number = None,
        invima_registration = None, expiration_date = None, presentation_state = Bueno,
        notes_str = None, created_at = 2, updated_at = 2, product = None, supplier = None\<rparr>],
      db_clock = 3\<rparr>
      \<lparr>ProductReception.id = ''r1'', reception_date = ''2024-05-02'', product_id = ''p1'',
        supplier_id = ''s1'', invoice_number = ''F-1'', quantity = JNum 10, batch_number = None,
        invima_registration = None, expiration_date = None, presentation_state = Bueno,
        notes_str = None, created_at = 2, updated_at = 2, product = None, supplier = None\<rparr>) = Some p \<and>
    Product.id p = ''p1'' \<and> supplier (embed \<lparr>db_products = [\<lparr>Product.id = ''p1'', code = ''MED001'', name = ''Acetaminofen'', description = None,
        laboratory = None, status = Active, created_at = 0, updated_at = 0\<rparr>],
      db_suppliers = [\<lparr>Supplier.id = ''s1'', id_type = CC, id_number = ''1'', name = ''Ana'', address = None,
        phone = None, email = None, contact_person = None, economic_activity = None,
        status = Active, created_at = 1, updated_at = 1\<rparr>],
      db_receptions = [\<lparr>ProductReception.id = ''r1'', reception_date = ''2024-05-02'', product_id = ''p1'',
        supplier_id = ''s1'', invoice_number = ''F-1'', quantity = JNum 10, batch_number = None,
        invima_registration = None, expiration_date = None, presentation_state = Bueno,
        notes_str = None, created_at = 2, updated_at = 2, product = None, supplier = None\<rparr>],
      db_clock = 3\<rparr>
      \<lparr>ProductReception.id = ''r1'', reception_date = ''2024-05-02'', product_id = ''p1'',
        supplier_id = ''s1'', invoice_number = ''F-1'', quantity = JNum 10, batch_number = None,
        invima_registration = None, expiration_date = None, presentation_state = Bueno,
        notes_str = None, created_at = 2, updated_at = 2, product = None, supplier = None\<rparr>) = Some sp \<and> Supplier.id sp = ''s1''"
  using receptions_getAll_embeds[of "\<lparr>db_products = [\<lparr>Product.id = ''p1'', code = ''MED001'', name = ''Acetaminofen'', description = None,
        laboratory = None, status = Active, created_at = 0, updated_at = 0\<rparr>],
      db_suppliers = [\<lparr>Supplier.id = ''s1'', id_type = CC, id_number = ''1'', name = ''Ana'', address = None,
        phone = None, email = None, contact_person = None, economic_activity = None,
        status = Active, created_at = 1, updated_at = 1\<rparr>],
      db_receptions = [\<lparr>ProductReception.id = ''r1'', reception_date = ''2024-05-02'', product_id = ''p1'',
        supplier_id = ''s1'', invoice_number = ''F-1'', quantity = JNum 10, batch_number = None,
        invima_registration = None, expiration_date = None, presentation_state = Bueno,
        notes_str = None, created_at = 2, updated_at = 2, product = None, supplier = None\<rparr>],
      db_clock = 3\<rparr>"
      "[embed \<lparr>db_products = [\<lparr>Product.id = ''p1'', code = ''MED001'', name = ''Acetaminofen'', description = None,
        laboratory = None, status = Active, created_at = 0, updated_at = 0\<rparr>],
      db_suppliers = [\<lparr>Supplier.id = ''s1'', id_type = CC, id_number = ''1'', name = ''Ana'', address = None,
        phone = None, email = None, contact_person = None, economic_activity = None,
        status = Active, created_at = 1, updated_at = 1\<rparr>],
      db_receptions = [\<lparr>ProductReception.id = ''r1'', reception_date = ''2024-05-02'', product_id = ''p1'',
        supplier_id = ''s1'', invoice_number = ''F-1'', quantity = JNum 10, batch_number = None,
        invima_registration = None, expiration_date = None, presentation_state = Bueno,
        notes_str = None, created_at = 2, updated_at = 2, product = None, supplier = None\<rparr>],
      db_clock = 3\<rparr>
        \<lparr>ProductReception.id = ''r1'', reception_date = ''2024-05-02'', product_id = ''p1'',
        supplier_id = ''s1'', invoice_number = ''F-1'', quantity = JNum 10, batch_number = None,
        invima_registration = None, expiration_date = None, presentation_state = Bueno,
        notes_str = None, created_at = 2, updated_at = 2, product = None, supplier = None\<rparr>]"
      "embed \<lparr>db_products = [\<lparr>Product.id = ''p1'', code = ''MED001'', name = ''Acetaminofen'', description = None,
        laboratory = None, status = Active, created_at = 0, updated_at = 0\<rparr>],
      db_suppliers = [\<lparr>Supplier.id = ''s1'', id_type = CC, id_number = ''1'', name = ''Ana'', address = None,
        phone = None, email = None, contact_person = None, economic_activity = None,
        status = Active, created_at = 1, updated_at = 1\<rparr>],
      db_receptions = [\<lparr>ProductReception.id = ''r1'', reception_date = ''2024-05-02'', product_id = ''p1'',
        supplier_id = ''s1'', invoice_number = ''F-1'', quantity = JNum 10, batch_number = None,
        invima_registration = None, expiration_date = None, presentation_state = Bueno,
        notes_str = None, created_at = 2, updated_at = 2, product = None, supplier = None\<rparr>],
      db_clock = 3\<rparr>
        \<lparr>ProductReception.id = ''r1'', reception_date = ''2024-05-02'', product_id = ''p1'',
        supplier_id = ''s1'', invoice_number = ''F-1'', quantity = JNum 10, batch_number = None,
        invima_registration = None, expiration_date = None, presentation_state = Bueno,
        notes_str = None, created_at = 2, updated_at = 2, product = None, supplier = None\<rparr>"]
  by (simp add: db_ok_def refs_ok_def receptions_getAll_def order_desc_def)

end
