(* ===== verification/Hooks.thy ===== *)
theory Hooks
  imports Store
begin

text \<open>
  The data hooks \<open>useProducts\<close>, \<open>useSuppliers\<close> and \<open>useReceptions\<close> of
  \<open>src/lib/hooks\<close>.  The three files share one shape, so the hook is modelled
  once, over the row type \<open>'r\<close>: the state \<open>'r hook_state\<close> holds the React
  state (\<open>products\<close>, \<open>loading\<close>, \<open>error\<close>).  Each operation is split at its
  \<open>await\<close>: \<open>hook_begin\<close> is the synchronous part before it, and
  \<open>load_finish\<close>, \<open>create_finish\<close>, \<open>update_finish\<close> and
  \<open>delete_finish\<close> are the continuations that run when the service call
  settles, with its reply.  \<open>hook_load\<close>, \<open>hook_create\<close>, \<open>hook_update\<close> and
  \<open>hook_delete\<close> are the sequential composition of the two parts around the
  service call, with the validation gate in front (\<open>throw new
  Error(validation.errors.join(", "))\<close> before any state changes).  The
  instances \<open>useProducts_*\<close>, \<open>useSuppliers_*\<close> and \<open>useReceptions_*\<close> plug
  in the validators, services and messages of each file.  Results are
  \<open>string + 'r\<close>: \<open>Inl m\<close> is the \<open>Error\<close> the hook throws, with message
  \<open>m\<close>.
\<close>

section \<open>Hook state and the two halves of each operation\<close>

record 'r hook_state =
  hk_items :: "'r list"
  hk_loading :: bool
  hk_error :: "string option"

definition hook_init :: "'r hook_state" where
  "hook_init = \<lparr>hk_items = [], hk_loading = False, hk_error = None\<rparr>"

text \<open>\<open>err instanceof Error ? err.message : fallback\<close>\<close>

fun err_message :: "string \<Rightarrow> thrown \<Rightarrow> string" where
  "err_message dflt (JsError m) = m"
| "err_message dflt NonError = dflt"

text \<open>\<open>Array.prototype.join(sep)\<close>\<close>

fun join_sep :: "string \<Rightarrow> string list \<Rightarrow> string" where
  "join_sep sep [] = []"
| "join_sep sep [x] = x"
| "join_sep sep (x # y # zs) = x @ sep @ join_sep sep (y # zs)"

text \<open>\<open>setLoading(true); setError(null)\<close>\<close>

definition hook_begin :: "'r hook_state \<Rightarrow> 'r hook_state" where
  "hook_begin h = h\<lparr>hk_loading := True, hk_error := None\<rparr>"

text \<open>\<open>loadProducts\<close> after its \<open>await\<close>: \<open>setProducts(data)\<close> or
  \<open>setError(...)\<close>, then \<open>finally setLoading(false)\<close>.\<close>

fun load_finish :: "string \<Rightarrow> thrown + 'r list \<Rightarrow> 'r hook_state \<Rightarrow> 'r hook_state" where
  "load_finish dflt (Inr data) h = h\<lparr>hk_items := data, hk_loading := False\<rparr>"
| "load_finish dflt (Inl e) h = h\<lparr>hk_error := Some (err_message dflt e), hk_loading := False\<rparr>"

text \<open>\<open>createProduct\<close> after its \<open>await\<close>: \<open>setProducts(prev => [newProduct,
  ...prev])\<close> and return it, or \<open>setError\<close> and rethrow.\<close>

fun create_finish ::
  "string \<Rightarrow> thrown + 'r \<Rightarrow> 'r hook_state \<Rightarrow> (string + 'r) \<times> 'r hook_state" where
  "create_finish dflt (Inr r) h = (Inr r, h\<lparr>hk_items := r # hk_items h, hk_loading := False\<rparr>)"
| "create_finish dflt (Inl e) h =
     (Inl (err_message dflt e), h\<lparr>hk_error := Some (err_message dflt e), hk_loading := False\<rparr>)"

text \<open>\<open>setProducts(prev => prev.map(p => p.id === id ? updated : p))\<close>\<close>

fun update_finish ::
  "('r \<Rightarrow> string) \<Rightarrow> string \<Rightarrow> string \<Rightarrow> thrown + 'r \<Rightarrow> 'r hook_state \<Rightarrow>
   (string + 'r) \<times> 'r hook_state" where
  "update_finish key dflt i (Inr r) h =
     (Inr r, h\<lparr>hk_items := map (\<lambda>p. if key p = i then r else p) (hk_items h), hk_loading := False\<rparr>)"
| "update_finish key dflt i (Inl e) h =
     (Inl (err_message dflt e), h\<lparr>hk_error := Some (err_message dflt e), hk_loading := False\<rparr>)"

text \<open>\<open>setProducts(prev => prev.filter(p => p.id !== id))\<close>\<close>

fun delete_finish ::
  "('r \<Rightarrow> string) \<Rightarrow> string \<Rightarrow> string \<Rightarrow> thrown option \<Rightarrow> 'r hook_state \<Rightarrow>
   string option \<times> 'r hook_state" where
  "delete_finish key dflt i None h =
     (None, h\<lparr>hk_items := filter (\<lambda>p. key p \<noteq> i) (hk_items h), hk_loading := False\<rparr>)"
| "delete_finish key dflt i (Some e) h =
     (Some (err_message dflt e), h\<lparr>hk_error := Some (err_message dflt e), hk_loading := False\<rparr>)"

text \<open>The validation gate: \<open>None\<close> lets the call through, \<open>Some m\<close> is the
  message of the \<open>Error\<close> thrown before any state is touched.\<close>

definition validation_gate :: "validation \<Rightarrow> string option" where
  "validation_gate v = (if isValid v then None else Some (join_sep '', '' (errors v)))"

section \<open>The operations, sequentially\<close>

definition hook_load ::
  "string \<Rightarrow> (db \<Rightarrow> thrown + 'r list) \<Rightarrow> db \<times> 'r hook_state \<Rightarrow> db \<times> 'r hook_state" where
  "hook_load dflt getAll sh = (fst sh, load_finish dflt (getAll (fst sh)) (hook_begin (snd sh)))"

fun hook_create ::
  "('c \<Rightarrow> validation) \<Rightarrow> ('c \<Rightarrow> db \<Rightarrow> (thrown + 'r) \<times> db) \<Rightarrow> string \<Rightarrow> 'c \<Rightarrow>
   db \<times> 'r hook_state \<Rightarrow> (string + 'r) \<times> db \<times> 'r hook_state" where
  "hook_create validate create dflt d (s, h) =
     (case validation_gate (validate d) of
        Some m \<Rightarrow> (Inl m, s, h)
      | None \<Rightarrow>
          (case create d s of
             (res, s') \<Rightarrow> (case create_finish dflt res (hook_begin h) of
                             (out, h') \<Rightarrow> (out, s', h'))))"

fun hook_update ::
  "('u \<Rightarrow> validation) \<Rightarrow> (string \<Rightarrow> 'u \<Rightarrow> db \<Rightarrow> (thrown + 'r) \<times> db) \<Rightarrow> ('r \<Rightarrow> string) \<Rightarrow>
   string \<Rightarrow> string \<Rightarrow> 'u \<Rightarrow> db \<times> 'r hook_state \<Rightarrow> (string + 'r) \<times> db \<times> 'r hook_state" where
  "hook_update validate update key dflt i u (s, h) =
     (case validation_gate (validate u) of
        Some m \<Rightarrow> (Inl m, s, h)
      | None \<Rightarrow>
          (case update i u s of
             (res, s') \<Rightarrow> (case update_finish key dflt i res (hook_begin h) of
                             (out, h') \<Rightarrow> (out, s', h'))))"

fun hook_delete ::
  "(string \<Rightarrow> db \<Rightarrow> thrown option \<times> db) \<Rightarrow> ('r \<Rightarrow> string) \<Rightarrow> string \<Rightarrow> string \<Rightarrow>
   db \<times> 'r hook_state \<Rightarrow> string option \<times> db \<times> 'r hook_state" where
  "hook_delete delete key dflt i (s, h) =
     (case delete i s of
        (res, s') \<Rightarrow> (case delete_finish key dflt i res (hook_begin h) of
                        (out, h') \<Rightarrow> (out, s', h')))"


section \<open>The three hooks\<close>

subsection \<open>\<open>useProducts\<close>\<close>

definition useProducts_loadProducts ::
  "fault \<Rightarrow> db \<times> Product hook_state \<Rightarrow> db \<times> Product hook_state" where
  "useProducts_loadProducts f = hook_load ''Error cargando productos'' (products_getAll f)"

definition useProducts_createProduct ::
  "fault \<Rightarrow> string \<Rightarrow> CreateProductData \<Rightarrow> db \<times> Product hook_state \<Rightarrow>
   (string + Product) \<times> db \<times> Product hook_state" where
  "useProducts_createProduct f k =
     hook_create product_validateCreate (products_create f k) ''Error creando producto''"

definition useProducts_updateProduct ::
  "fault \<Rightarrow> time \<Rightarrow> string \<Rightarrow> UpdateProductData \<Rightarrow> db \<times> Product hook_state \<Rightarrow>
   (string + Product) \<times> db \<times> Product hook_state" where
  "useProducts_updateProduct f t =
     hook_update product_validateUpdate (products_update f t) Product.id ''Error actualizando producto''"

definition useProducts_deleteProduct ::
  "fault \<Rightarrow> string \<Rightarrow> db \<times> Product hook_state \<Rightarrow> string option \<times> db \<times> Product hook_state" where
  "useProducts_deleteProduct f = hook_delete (products_delete f) Product.id ''Error eliminando producto''"

subsection \<open>\<open>useSuppliers\<close>\<close>

definition useSuppliers_loadSuppliers ::
  "fault \<Rightarrow> db \<times> Supplier hook_state \<Rightarrow> db \<times> Supplier hook_state" where
  "useSuppliers_loadSuppliers f = hook_load ''Error cargando proveedores'' (suppliers_getAll f)"

definition useSuppliers_createSupplier ::
  "fault \<Rightarrow> string \<Rightarrow> CreateSupplierData \<Rightarrow> db \<times> Supplier hook_state \<Rightarrow>
   (string + Supplier) \<times> db \<times> Supplier hook_state" where
  "useSuppliers_createSupplier f k =
     hook_create supplier_validateCreate (suppliers_create f k) ''Error creando proveedor''"

definition useSuppliers_updateSupplier ::
  "fault \<Rightarrow> time \<Rightarrow> string \<Rightarrow> UpdateSupplierData \<Rightarrow> db \<times> Supplier hook_state \<Rightarrow>
   (string + Supplier) \<times> db \<times> Supplier hook_state" where
  "useSuppliers_updateSupplier f t =
     hook_update supplier_validateUpdate (suppliers_update f t) Supplier.id ''Error actualizando proveedor''"

definition useSuppliers_deleteSupplier ::
  "fault \<Rightarrow> string \<Rightarrow> db \<times> Supplier hook_state \<Rightarrow> string option \<times> db \<times> Supplier hook_state" where
  "useSuppliers_deleteSupplier f =
     hook_delete (suppliers_delete f) Supplier.id ''Error eliminando proveedor''"

subsection \<open>\<open>useReceptions\<close>\<close>

text \<open>The reception validators read the clock: the date parser and the
  instants are arguments of the instance.  U+00F3 is o acute.\<close>

definition useReceptions_loadReceptions ::
  "fault \<Rightarrow> db \<times> ProductReception hook_state \<Rightarrow> db \<times> ProductReception hook_state" where
  "useReceptions_loadReceptions f = hook_load ''Error cargando recepciones'' (receptions_getAll f)"

definition useReceptions_createReception ::
  "date_parser \<Rightarrow> time \<Rightarrow> time \<Rightarrow> fault \<Rightarrow> string \<Rightarrow> CreateReceptionData \<Rightarrow>
   db \<times> ProductReception hook_state \<Rightarrow> (string + ProductReception) \<times> db \<times> ProductReception hook_state" where
  "useReceptions_createReception parse now_r now_e f k =
     hook_create (reception_validateCreate parse now_r now_e) (receptions_create f k)
       (''Error creando recepci'' @ [CHR 0xF3] @ ''n'')"

definition useReceptions_updateReception ::
  "date_parser \<Rightarrow> time \<Rightarrow> fault \<Rightarrow> time \<Rightarrow> string \<Rightarrow> UpdateReceptionData \<Rightarrow>
   db \<times> ProductReception hook_state \<Rightarrow> (string + ProductReception) \<times> db \<times> ProductReception hook_state" where
  "useReceptions_updateReception parse now f t =
     hook_update (reception_validateUpdate parse now) (receptions_update f t) ProductReception.id
       (''Error actualizando recepci'' @ [CHR 0xF3] @ ''n'')"

definition useReceptions_deleteReception ::
  "fault \<Rightarrow> string \<Rightarrow> db \<times> ProductReception hook_state \<Rightarrow>
   string option \<times> db \<times> ProductReception hook_state" where
  "useReceptions_deleteReception f =
     hook_delete (receptions_delete f) ProductReception.id
       (''Error eliminando recepci'' @ [CHR 0xF3] @ ''n'')"

section \<open>A client of a hook\<close>

text \<open>The calls a component makes on \<open>useProducts\<close> (and \<open>useSuppliers\<close>),
  one after the other, each with the inputs the store supplies.\<close>

datatype ('c, 'u) hook_call =
    Load fault
  | Create fault string 'c
  | Update fault time string 'u
  | Delete fault string

fun useProducts_step ::
  "db \<times> Product hook_state \<Rightarrow> (CreateProductData, UpdateProductData) hook_call \<Rightarrow>
   db \<times> Product hook_state" where
  "useProducts_step sh (Load f) = useProducts_loadProducts f sh"
| "useProducts_step sh (Create f k d) = snd (useProducts_createProduct f k d sh)"
| "useProducts_step sh (Update f t i u) = snd (useProducts_updateProduct f t i u sh)"
| "useProducts_step sh (Delete f i) = snd (useProducts_deleteProduct f i sh)"

fun useSuppliers_step ::
  "db \<times> Supplier hook_state \<Rightarrow> (CreateSupplierData, UpdateSupplierData) hook_call \<Rightarrow>
   db \<times> Supplier hook_state" where
  "useSuppliers_step sh (Load f) = useSuppliers_loadSuppliers f sh"
| "useSuppliers_step sh (Create f k d) = snd (useSuppliers_createSupplier f k d sh)"
| "useSuppliers_step sh (Update f t i u) = snd (useSuppliers_updateSupplier f t i u sh)"
| "useSuppliers_step sh (Delete f i) = snd (useSuppliers_deleteSupplier f i sh)"

text \<open>The hook's list agrees with what \<open>getAll\<close> would return now.\<close>

definition products_view_ok :: "db \<times> Product hook_state \<Rightarrow> bool" where
  "products_view_ok sh \<longleftrightarrow>
     db_ok (fst sh) \<and> hk_items (snd sh) = order_desc Product.created_at (db_products (fst sh))"

definition suppliers_view_ok :: "db \<times> Supplier hook_state \<Rightarrow> bool" where
  "suppliers_view_ok sh \<longleftrightarrow>
     db_ok (fst sh) \<and> hk_items (snd sh) = order_desc Supplier.created_at (db_suppliers (fst sh))"


section \<open>Lemmas\<close>

lemma hk_items_hook_begin [simp]: "hk_items (hook_begin h) = hk_items h"
  by (simp add: hook_begin_def)

lemma update_finish_view:
  assumes "distinct (map key rs)" "\<And>x. key (g x) = key x" "\<And>x. f (g x) = f x"
    and "hk_items h = order_desc f rs"
  shows "hk_items (snd (update_finish key dflt i (single (eq_select key i (eq_update key i g rs))) h)) =
         order_desc f (eq_update key i g rs)"
proof (cases "single (eq_select key i (eq_update key i g rs))")
  case (Inl e)
  then have "eq_update key i g rs = rs" using assms(1,2) by (rule eq_update_single_Inl[rotated 2])
  then show ?thesis using Inl assms(4) by simp
next
  case (Inr r)
  then have "eq_select key i (eq_update key i g rs) = [r]" by (simp add: single_eq_Inr)
  then have "map (\<lambda>p. if key p = i then r else p) (order_desc f rs) = order_desc f (eq_update key i g rs)"
    using assms(2,3) by (rule order_desc_eq_update)
  then show ?thesis using Inr assms(4) by simp
qed

lemma delete_finish_view:
  "hk_items h = order_desc f rs \<Longrightarrow>
   hk_items (snd (delete_finish key dflt i None h)) = order_desc f (eq_delete key i rs)"
  by (simp add: eq_delete_def order_desc_filter)

subsection \<open>\<open>useProducts\<close> keeps its list equal to \<open>getAll\<close>\<close>

lemma useProducts_load_view:
  "products_view_ok (s, h) \<Longrightarrow> products_view_ok (useProducts_loadProducts f (s, h))"
  unfolding useProducts_loadProducts_def products_view_ok_def hook_load_def
  by (auto simp: products_getAll_def hook_begin_def split: option.splits)

lemma useProducts_create_view:
  "products_view_ok (s, h) \<Longrightarrow> products_view_ok (snd (useProducts_createProduct f k d (s, h)))"
  unfolding useProducts_createProduct_def products_view_ok_def
  using products_create_ok[of s f k d]
  by (auto simp: products_create_def Let_def insert_row_def product_row_def hook_begin_def
      db_ok_def list_all_iff order_desc_append_max split: option.splits)

lemma useProducts_update_view:
  "products_view_ok (s, h) \<Longrightarrow> products_view_ok (snd (useProducts_updateProduct f t i u (s, h)))"
  using products_update_ok[of s f t i u]
    update_finish_view[of Product.id "db_products s" "product_patch u t" Product.created_at]
  by (auto simp: useProducts_updateProduct_def products_update_def products_view_ok_def db_ok_def
      Let_def prod.case_eq_if split: option.splits)

lemma useProducts_delete_view:
  "products_view_ok (s, h) \<Longrightarrow> products_view_ok (snd (useProducts_deleteProduct f i (s, h)))"
  using products_delete_ok[of s f i] delete_finish_view[of "hook_begin h" Product.created_at]
  by (auto simp: useProducts_deleteProduct_def products_delete_def products_view_ok_def
      split: option.splits)

lemma useProducts_step_view: "products_view_ok sh \<Longrightarrow> products_view_ok (useProducts_step sh c)"
  by (cases sh, cases c) (simp_all add: useProducts_load_view useProducts_create_view
      useProducts_update_view useProducts_delete_view)

subsection \<open>\<open>useSuppliers\<close> keeps its list equal to \<open>getAll\<close>\<close>

lemma useSuppliers_load_view:
  "suppliers_view_ok (s, h) \<Longrightarrow> suppliers_view_ok (useSuppliers_loadSuppliers f (s, h))"
  unfolding useSuppliers_loadSuppliers_def suppliers_view_ok_def hook_load_def
  by (auto simp: suppliers_getAll_def hook_begin_def split: option.splits)

lemma useSuppliers_create_view:
  "suppliers_view_ok (s, h) \<Longrightarrow> suppliers_view_ok (snd (useSuppliers_createSupplier f k d (s, h)))"
  unfolding useSuppliers_createSupplier_def suppliers_view_ok_def
  using suppliers_create_ok[of s f k d]
  by (auto simp: suppliers_create_def Let_def insert_row_def supplier_row_def hook_begin_def
      db_ok_def list_all_iff order_desc_append_max split: option.splits)

lemma useSuppliers_update_view:
  "suppliers_view_ok (s, h) \<Longrightarrow> suppliers_view_ok (snd (useSuppliers_updateSupplier f t i u (s, h)))"
  using suppliers_update_ok[of s f t i u]
    update_finish_view[of Supplier.id "db_suppliers s" "supplier_patch u t" Supplier.created_at]
  by (auto simp: useSuppliers_updateSupplier_def suppliers_update_def suppliers_view_ok_def db_ok_def
      Let_def prod.case_eq_if split: option.splits)

lemma useSuppliers_delete_view:
  "suppliers_view_ok (s, h) \<Longrightarrow> suppliers_view_ok (snd (useSuppliers_deleteSupplier f i (s, h)))"
  using suppliers_delete_ok[of s f i] delete_finish_view[of "hook_begin h" Supplier.created_at]
  by (auto simp: useSuppliers_deleteSupplier_def suppliers_delete_def suppliers_view_ok_def
      split: option.splits)

lemma useSuppliers_step_view: "suppliers_view_ok sh \<Longrightarrow> suppliers_view_ok (useSuppliers_step sh c)"
  by (cases sh, cases c) (simp_all add: useSuppliers_load_view useSuppliers_create_view
      useSuppliers_update_view useSuppliers_delete_view)

lemma view_ok_init:
  "products_view_ok (empty_db, hook_init)" "suppliers_view_ok (empty_db, hook_init)"
  using empty_db_ok
  by (simp_all add: products_view_ok_def suppliers_view_ok_def hook_init_def)
     (simp_all add: empty_db_def order_desc_def)


section \<open>Properties\<close>

text \<open>C5 (the products hook refines the store): a component that only uses
  \<open>useProducts\<close>, one call at a time, starting from a list that matches the
  store, always shows exactly what \<open>ProductsService.getAll\<close> would return
  now.  This holds whatever the calls and their failures are, as long as the
  store's clock runs forward (\<open>db_ok\<close>).  So the prepend after
  \<open>create\<close>, the in-place \<open>map\<close> after \<open>update\<close> and the \<open>filter\<close> after
  \<open>delete\<close> are each the change \<open>order("created_at", desc)\<close> sees.\<close>

theorem useProducts_refines_getAll:
  assumes "products_view_ok sh0" and "reachable_from useProducts_step sh0 sh"
  shows "products_getAll None (fst sh) = Inr (hk_items (snd sh))"
proof -
  have "products_view_ok sh" using assms(2,1) useProducts_step_view by (rule reachable_from_invariant)
  then show ?thesis by (simp add: products_view_ok_def products_getAll_def)
qed

theorem useProducts_refines_getAll_witness:
  "products_getAll None (fst (run useProducts_step (empty_db, hook_init)
     [Create None ''p1'' \<lparr>CreateProductData.code = ''MED001'', CreateProductData.name = ''Acetaminofen'',
        CreateProductData.description = None, CreateProductData.laboratory = None\<rparr>,
      Create None ''p2'' \<lparr>CreateProductData.code = ''MED002'', CreateProductData.name = ''Ibuprofeno'',
        CreateProductData.description = None, CreateProductData.laboratory = None\<rparr>,
      Update None 7 ''p1'' \<lparr>UpdateProductData.code = None, UpdateProductData.name = Some ''Dolex'',
                            UpdateProductData.description = None, UpdateProductData.laboratory = None,
                            UpdateProductData.status = Some Inactive\<rparr>,
      Delete None ''p2''])) =
   Inr (hk_items (snd (run useProducts_step (empty_db, hook_init)
     [Create None ''p1'' \<lparr>CreateProductData.code = ''MED001'', CreateProductData.name = ''Acetaminofen'',
        CreateProductData.description = None, CreateProductData.laboratory = None\<rparr>,
      Create None ''p2'' \<lparr>CreateProductData.code = ''MED002'', CreateProductData.name = ''Ibuprofeno'',
        CreateProductData.description = None, CreateProductData.laboratory = None\<rparr>,
      Update None 7 ''p1'' \<lparr>UpdateProductData.code = None, UpdateProductData.name = Some ''Dolex'',
                            UpdateProductData.description = None, UpdateProductData.laboratory = None,
                            UpdateProductData.status = Some Inactive\<rparr>,
      Delete None ''p2''])))"
  by (rule useProducts_refines_getAll[OF view_ok_init(1)]) (rule reachable_from_run)

text \<open>The suppliers hook refines the store: the same for
  \<open>useSuppliers\<close> and \<open>SuppliersService.getAll\<close>.\<close>

theorem useSuppliers_refines_getAll:
  assumes "suppliers_view_ok sh0" and "reachable_from useSuppliers_step sh0 sh"
  shows "suppliers_getAll None (fst sh) = Inr (hk_items (snd sh))"
proof -
  have "suppliers_view_ok sh" using assms(2,1) useSuppliers_step_view by (rule reachable_from_invariant)
  then show ?thesis by (simp add: suppliers_view_ok_def suppliers_getAll_def)
qed

theorem useSuppliers_refines_getAll_witness:
  "suppliers_getAll None (fst (run useSuppliers_step (empty_db, hook_init)
     [Create None ''s1'' \<lparr>CreateSupplierData.id_type = Some NIT,
        CreateSupplierData.id_number = ''900123456-1'', CreateSupplierData.name = ''Drogueria'',
        CreateSupplierData.address = None, CreateSupplierData.phone = None,
        CreateSupplierData.email = None, CreateSupplierData.contact_person = None,
        CreateSupplierData.economic_activity = Some [''4645'']\<rparr>,
      Delete (Some NonError) ''s1''])) =
   Inr (hk_items (snd (run useSuppliers_step (empty_db, hook_init)
     [Create None ''s1'' \<lparr>CreateSupplierData.id_type = Some NIT,
        CreateSupplierData.id_number = ''900123456-1'', CreateSupplierData.name = ''Drogueria'',
        CreateSupplierData.address = None, CreateSupplierData.phone = None,
        CreateSupplierData.email = None, CreateSupplierData.contact_person = None,
        CreateSupplierData.economic_activity = Some [''4645'']\<rparr>,
      Delete (Some NonError) ''s1''])))"
  by (rule useSuppliers_refines_getAll[OF view_ok_init(2)]) (rule reachable_from_run)

text \<open>C10 (the hook's validation gate): \<open>createProduct\<close> on data that
  \<open>ProductValidation.validateCreate\<close> rejects throws an \<open>Error\<close> whose message
  is the validator's messages joined by \<open>", "\<close>, and changes neither the store
  nor the hook's state (not even \<open>loading\<close>).\<close>

theorem useProducts_createProduct_rejects_invalid:
  assumes "\<not> isValid (product_validateCreate d)"
  shows "useProducts_createProduct f k d (s, h) =
           (Inl (join_sep '', '' (errors (product_validateCreate d))), s, h)"
  using assms by (simp add: useProducts_createProduct_def validation_gate_def)

theorem useProducts_createProduct_rejects_invalid_witness:
  "useProducts_createProduct None ''p1''
      \<lparr>CreateProductData.code = ''M'', CreateProductData.name = ''A'',
        CreateProductData.description = None, CreateProductData.laboratory = None\<rparr> (empty_db, hook_init) =
     (Inl (msg_code_length @ '', '' @ msg_name_length), empty_db, hook_init)"
  using useProducts_createProduct_rejects_invalid
    [of "\<lparr>CreateProductData.code = ''M'', CreateProductData.name = ''A'',
        CreateProductData.description = None, CreateProductData.laboratory = None\<rparr>" None "''p1''"
        empty_db hook_init]
  by (simp add: product_validateCreate_def)

text \<open>C6 (the receptions hook does not refine the store): \<open>useReceptions\<close>
  prepends a created reception, but \<open>ReceptionsService.getAll\<close> orders by
  \<open>reception_date\<close>, which the user chooses.  From a list that matches the
  store, a successful \<open>createReception\<close> of a reception dated before the
  listed one leaves a list that \<open>getAll\<close> would not return.\<close>

theorem useReceptions_create_breaks_view:
  "\<exists>s h d parse. receptions_getAll None s = Inr (hk_items h) \<and> db_ok s \<and>
     (case useReceptions_createReception parse 0 0 None ''r2'' d (s, h) of
        (out, s', h') \<Rightarrow> (\<exists>r. out = Inr r) \<and> receptions_getAll None s' \<noteq> Inr (hk_items h'))"
proof -
  define p where "p = \<lparr>Product.id = ''p1'', code = ''MED001'', name = ''Acetaminofen'',
      description = None, laboratory = None, status = Active, created_at = 0, updated_at = 0\<rparr>"
  define sp where "sp = \<lparr>Supplier.id = ''s1'', id_type = CC, id_number = ''1'', name = ''Ana'',
      address = None, phone = None, email = None, contact_person = None,
      economic_activity = None, status = Active, created_at = 1, updated_at = 1\<rparr>"
  define r where "r = \<lparr>ProductReception.id = ''r1'', reception_date = ''2024-05-02'',
      product_id = ''p1'', supplier_id = ''s1'', invoice_number = ''F-1'', quantity = JNum 10,
      batch_number = None, invima_registration = None, expiration_date = None,
      presentation_state = Bueno, notes_str = None, created_at = 2, updated_at = 2,
      product = None, supplier = None\<rparr>"
  define s where "s = \<lparr>db_products = [p], db_suppliers = [sp], db_receptions = [r], db_clock = 3\<rparr>"
  define d where "d = \<lparr>CreateReceptionData.reception_date = ''2024-05-01'',
      CreateReceptionData.product_id = ''p1'', CreateReceptionData.supplier_id = ''s1'',
      CreateReceptionData.invoice_number = ''F-2'', CreateReceptionData.quantity = JNum 5,
      CreateReceptionData.batch_number = None, CreateReceptionData.invima_registration = None,
      CreateReceptionData.expiration_date = None,
      CreateReceptionData.presentation_state = Some Bueno, CreateReceptionData.notes_str = None\<rparr>"
  define h where "h = \<lparr>hk_items = [embed s r], hk_loading = False, hk_error = None\<rparr>"
  have 1: "receptions_getAll None s = Inr (hk_items h)"
    by (simp add: receptions_getAll_def s_def h_def order_desc_def)
  have 2: "db_ok s"
    by (simp add: db_ok_def s_def p_def sp_def r_def refs_ok_def)
  have 3: "case useReceptions_createReception (\<lambda>x. Some 0) 0 0 None ''r2'' d (s, h) of
        (out, s', h') \<Rightarrow> (\<exists>r. out = Inr r) \<and> receptions_getAll None s' \<noteq> Inr (hk_items h')"
    by (simp add: useReceptions_createReception_def validation_gate_def reception_validateCreate_def
        d_def receptions_create_def Let_def s_def p_def sp_def r_def refs_ok_def insert_row_def
        reception_row_def receptions_getAll_def order_desc_def h_def hook_begin_def embed_def
        js_truthy_str_def quantity_invalid_def)
  show ?thesis
    by (intro exI[where x=s] exI[where x=h] exI[where x=d] exI[where x="\<lambda>x. Some (0::int)"]
        conjI 1 2 3)
qed

end
