(* ===== verification/HookAsync.thy ===== *)
theory HookAsync
  imports Hooks "HOL-Library.While_Combinator" "HOL-Library.Multiset"
begin

text \<open>
  The hooks' operations are \<open>async\<close> functions.  A component can start a
  second one (a \<open>refetch\<close>, or a second submit) before the first has
  settled, and React runs each continuation when its promise settles.
  This theory models \<open>useProducts\<close> at that grain.  A world holds the
  store, the hook's state, and the requests in flight (\<open>pw_pending\<close>).
  \<open>Call c\<close> runs the synchronous part of an operation: the validation gate,
  \<open>setLoading(true)\<close> and \<open>setError(null)\<close>.  The store executes the query
  at once, and the reply joins the requests in flight.  \<open>Settle n\<close> delivers
  the reply of the \<open>n\<close>-th request in flight, in any order, and runs its
  continuation (\<open>load_finish\<close>, \<open>create_finish\<close>, \<dots>).

  Settling each call before the next one is the sequential model of theory
  \<open>Hooks\<close> (\<open>useProducts_async_sequential\<close>).  Overlapping calls can leave the
  list out of step with the store, and \<open>loading\<close> false while a request is
  still in flight.  The spec excludes concurrency control from the design,
  and these theorems show what that costs.
\<close>

section \<open>Worlds and steps\<close>

datatype 'r pending =
    PLoad "thrown + 'r list"
  | PCreate "thrown + 'r"
  | PUpdate string "thrown + 'r"
  | PDelete string "thrown option"

record products_world =
  pw_db :: db
  pw_hook :: "Product hook_state"
  pw_pending :: "Product pending list"

datatype ('c, 'u) async_event = Call "('c, 'u) hook_call" | Settle nat

text \<open>The continuation of a settled request, as in \<open>use-products.ts\<close>.\<close>

fun products_settle :: "Product pending \<Rightarrow> Product hook_state \<Rightarrow> Product hook_state" where
  "products_settle (PLoad res) h = load_finish ''Error cargando productos'' res h"
| "products_settle (PCreate res) h = snd (create_finish ''Error creando producto'' res h)"
| "products_settle (PUpdate i res) h =
     snd (update_finish Product.id ''Error actualizando producto'' i res h)"
| "products_settle (PDelete i res) h = snd (delete_finish Product.id ''Error eliminando producto'' i res h)"

text \<open>The synchronous part of a call: the gate, \<open>hook_begin\<close>, and the query,
  whose reply is queued.\<close>

fun products_dispatch ::
  "products_world \<Rightarrow> (CreateProductData, UpdateProductData) hook_call \<Rightarrow> products_world" where
  "products_dispatch w (Load f) =
     w\<lparr>pw_hook := hook_begin (pw_hook w),
       pw_pending := pw_pending w @ [PLoad (products_getAll f (pw_db w))]\<rparr>"
| "products_dispatch w (Create f k d) =
     (if validation_gate (product_validateCreate d) \<noteq> None then w
      else case products_create f k d (pw_db w) of
        (res, s') \<Rightarrow> w\<lparr>pw_db := s', pw_hook := hook_begin (pw_hook w),
                        pw_pending := pw_pending w @ [PCreate res]\<rparr>)"
| "products_dispatch w (Update f t i u) =
     (if validation_gate (product_validateUpdate u) \<noteq> None then w
      else case products_update f t i u (pw_db w) of
        (res, s') \<Rightarrow> w\<lparr>pw_db := s', pw_hook := hook_begin (pw_hook w),
                        pw_pending := pw_pending w @ [PUpdate i res]\<rparr>)"
| "products_dispatch w (Delete f i) =
     (case products_delete f i (pw_db w) of
        (res, s') \<Rightarrow> w\<lparr>pw_db := s', pw_hook := hook_begin (pw_hook w),
                        pw_pending := pw_pending w @ [PDelete i res]\<rparr>)"

fun useProducts_async_step ::
  "products_world \<Rightarrow> (CreateProductData, UpdateProductData) async_event \<Rightarrow> products_world" where
  "useProducts_async_step w (Call c) = products_dispatch w c"
| "useProducts_async_step w (Settle n) =
     (if n < length (pw_pending w)
      then w\<lparr>pw_hook := products_settle (pw_pending w ! n) (pw_hook w),
             pw_pending := take n (pw_pending w) @ drop (Suc n) (pw_pending w)\<rparr>
      else w)"

definition products_world_init :: products_world where
  "products_world_init = \<lparr>pw_db = empty_db, pw_hook = hook_init, pw_pending = []\<rparr>"

text \<open>The event loop delivering the replies in flight, oldest first, until
  none is left: a \<open>while\<close> loop of \<open>HOL-Library.While_Combinator\<close>, whose
  value \<open>None\<close> would mean that it never ends.\<close>

definition products_drain :: "products_world \<Rightarrow> products_world option" where
  "products_drain w = while_option (\<lambda>w. pw_pending w \<noteq> []) (\<lambda>w. useProducts_async_step w (Settle 0)) w"

text \<open>The spinner is off when nothing is in flight.\<close>

definition products_idle_ok :: "products_world \<Rightarrow> bool" where
  "products_idle_ok w \<longleftrightarrow> (pw_pending w = [] \<longrightarrow> \<not> hk_loading (pw_hook w))"

section \<open>Lemmas\<close>

lemma finish_clears_loading [simp]:
  "hk_loading (load_finish m rs h) = False"
  "hk_loading (snd (create_finish m r h)) = False"
  "hk_loading (snd (update_finish k m i r h)) = False"
  "hk_loading (snd (delete_finish k m i e h)) = False"
  by (cases rs, simp_all, cases r, simp_all, cases r, simp_all, cases e, simp_all)

lemma products_settle_loading [simp]: "hk_loading (products_settle p h) = False"
  by (cases p) simp_all

lemma settle_first_idle_ok:
  "pw_pending w \<noteq> [] \<Longrightarrow> products_idle_ok (useProducts_async_step w (Settle 0))"
  by (simp add: products_idle_ok_def)

lemma products_dispatch_idle_ok:
  "products_idle_ok w \<Longrightarrow> products_idle_ok (products_dispatch w c)"
  by (cases c) (auto simp: products_idle_ok_def hook_begin_def split: prod.splits)

lemma products_step_idle_ok:
  "products_idle_ok w \<Longrightarrow> products_idle_ok (useProducts_async_step w e)"
  by (cases e) (simp_all add: products_dispatch_idle_ok, simp add: products_idle_ok_def)

lemma products_world_idle_ok:
  "reachable_from useProducts_async_step products_world_init w \<Longrightarrow> products_idle_ok w"
  by (erule reachable_from_invariant)
     (simp add: products_idle_ok_def products_world_init_def hook_init_def, rule products_step_idle_ok)

lemma settle_first_shorter:
  "pw_pending w \<noteq> [] \<Longrightarrow> length (pw_pending (useProducts_async_step w (Settle 0))) < length (pw_pending w)"
  by simp

text \<open>Each settled reply leaves the queue shorter, so the drain ends, with an
  empty queue, and keeps any property that a settling step keeps.\<close>

lemma products_drain_ends:
  assumes "P w" and "\<And>w. P w \<Longrightarrow> pw_pending w \<noteq> [] \<Longrightarrow> P (useProducts_async_step w (Settle 0))"
  shows "\<exists>w'. products_drain w = Some w' \<and> pw_pending w' = [] \<and> P w'"
proof -
  obtain w' where w': "products_drain w = Some w'"
    using measure_while_option_Some[of P "\<lambda>w. pw_pending w \<noteq> []" "\<lambda>w. useProducts_async_step w (Settle 0)"
        "\<lambda>w. length (pw_pending w)" w] assms settle_first_shorter
    by (auto simp: products_drain_def simp del: useProducts_async_step.simps)
  then have "pw_pending w' = []"
    unfolding products_drain_def by (auto dest: while_option_stop)
  moreover have "P w'"
    using while_option_rule[where P=P, OF assms(2) w'[unfolded products_drain_def] assms(1)] by blast
  ultimately show ?thesis using w' by blast
qed

lemma count_ids_order_desc:
  "count_list (map key (order_desc f xs)) k = count_list (map key xs) k"
  by (simp add: order_desc_def count_mset[symmetric] mset_map del: count_mset)

text \<open>The split at \<open>await\<close> is faithful: from a world with no request
  in flight, a call whose reply is delivered before anything else happens
  has exactly the effect of the sequential operation of theory \<open>Hooks\<close>,
  on the store and on the hook, and leaves nothing in flight.\<close>

theorem useProducts_async_sequential:
  assumes "pw_pending w = []"
  shows "(pw_db (useProducts_async_step (useProducts_async_step w (Call c)) (Settle 0)),
          pw_hook (useProducts_async_step (useProducts_async_step w (Call c)) (Settle 0))) =
           useProducts_step (pw_db w, pw_hook w) c \<and>
         pw_pending (useProducts_async_step (useProducts_async_step w (Call c)) (Settle 0)) = []"
  using assms
  by (cases c) (auto simp: useProducts_loadProducts_def hook_load_def useProducts_createProduct_def
      useProducts_updateProduct_def useProducts_deleteProduct_def prod.case_eq_if)


theorem useProducts_async_sequential_witness:
  "(pw_db (useProducts_async_step (useProducts_async_step products_world_init
      (Call (Create None ''p1'' \<lparr>CreateProductData.code = ''MED001'',
         CreateProductData.name = ''Acetaminofen'', CreateProductData.description = None,
         CreateProductData.laboratory = None\<rparr>))) (Settle 0)),
    pw_hook (useProducts_async_step (useProducts_async_step products_world_init
      (Call (Create None ''p1'' \<lparr>CreateProductData.code = ''MED001'',
         CreateProductData.name = ''Acetaminofen'', CreateProductData.description = None,
         CreateProductData.laboratory = None\<rparr>))) (Settle 0))) =
   useProducts_step (empty_db, hook_init)
     (Create None ''p1'' \<lparr>CreateProductData.code = ''MED001'',
         CreateProductData.name = ''Acetaminofen'', CreateProductData.description = None,
         CreateProductData.laboratory = None\<rparr>)"
  using useProducts_async_sequential[of products_world_init
      "Create None ''p1'' \<lparr>CreateProductData.code = ''MED001'',
         CreateProductData.name = ''Acetaminofen'', CreateProductData.description = None,
         CreateProductData.laboratory = None\<rparr>"]
  by (simp add: products_world_init_def)

text \<open>C12 (a stale load loses a created product): from any world with
  nothing in flight, a \<open>refetch\<close> started before a successful
  \<open>createProduct\<close> of valid data under a fresh key, and settling after it,
  overwrites the list with the snapshot taken before the insert.  With
  nothing left in flight, the store holds the new product and the hook's
  list does not.\<close>

theorem useProducts_stale_load_loses_create:
  assumes "pw_pending w = []" and "isValid (product_validateCreate d)"
    and "k \<notin> Product.id ` set (db_products (pw_db w))"
  shows "let w' = run useProducts_async_step w [Call (Load None), Call (Create None k d), Settle 1, Settle 0] in
         pw_pending w' = [] \<and>
         hk_items (pw_hook w') = order_desc Product.created_at (db_products (pw_db w)) \<and>
         k \<in> Product.id ` set (db_products (pw_db w')) \<and> k \<notin> Product.id ` set (hk_items (pw_hook w'))"
  using assms
  by (simp add: validation_gate_def hook_begin_def products_getAll_def products_create_def
      product_row_def insert_row_def Let_def)

theorem useProducts_stale_load_loses_create_witness:
  "let w' = run useProducts_async_step products_world_init
      [Call (Load None), Call (Create None ''p1'' \<lparr>CreateProductData.code = ''MED001'',
         CreateProductData.name = ''Acetaminofen'', CreateProductData.description = None,
         CreateProductData.laboratory = None\<rparr>), Settle 1, Settle 0] in
   pw_pending w' = [] \<and>
   hk_items (pw_hook w') = order_desc Product.created_at (db_products (pw_db products_world_init)) \<and>
   ''p1'' \<in> Product.id ` set (db_products (pw_db w')) \<and> ''p1'' \<notin> Product.id ` set (hk_items (pw_hook w'))"
  by (rule useProducts_stale_load_loses_create)
     (simp_all add: products_world_init_def empty_db_def product_validateCreate_def)

text \<open>C13 (a product listed twice): from any world with nothing in
  flight, a \<open>refetch\<close> started after a successful \<open>createProduct\<close> of valid
  data under a fresh key, and settling before it, puts the new product in
  the list, and the create's continuation prepends it again.  The list then
  holds its \<open>id\<close>, which the list components use as React \<open>key\<close>,
  twice.\<close>

theorem useProducts_duplicate_entry:
  assumes "pw_pending w = []" and "isValid (product_validateCreate d)"
    and "k \<notin> Product.id ` set (db_products (pw_db w))"
  shows "let w' = run useProducts_async_step w [Call (Create None k d), Call (Load None), Settle 1, Settle 0] in
         pw_pending w' = [] \<and> count_list (map Product.id (hk_items (pw_hook w'))) k = 2"
  using assms
  by (simp add: validation_gate_def hook_begin_def products_getAll_def products_create_def
      product_row_def insert_row_def Let_def count_ids_order_desc count_list_0_iff image_iff)

theorem useProducts_duplicate_entry_witness:
  "let w' = run useProducts_async_step products_world_init
      [Call (Create None ''p1'' \<lparr>CreateProductData.code = ''MED001'',
         CreateProductData.name = ''Acetaminofen'', CreateProductData.description = None,
         CreateProductData.laboratory = None\<rparr>), Call (Load None), Settle 1, Settle 0] in
   pw_pending w' = [] \<and> count_list (map Product.id (hk_items (pw_hook w'))) ''p1'' = 2"
  by (rule useProducts_duplicate_entry)
     (simp_all add: products_world_init_def empty_db_def product_validateCreate_def)

text \<open>C20 (\<open>loading\<close> cleared early): whenever two or more requests are
  in flight, whichever settles first runs \<open>finally setLoading(false)\<close>: the
  hook reports not loading while a request is still in flight.\<close>

theorem useProducts_loading_cleared_early:
  assumes "2 \<le> length (pw_pending w)" and "n < length (pw_pending w)"
  shows "pw_pending (useProducts_async_step w (Settle n)) \<noteq> [] \<and>
         \<not> hk_loading (pw_hook (useProducts_async_step w (Settle n)))"
  using assms by (auto simp: min_def)

theorem useProducts_loading_cleared_early_witness:
  "pw_pending (useProducts_async_step (run useProducts_async_step products_world_init
      [Call (Load None), Call (Load None)]) (Settle 0)) \<noteq> [] \<and>
   \<not> hk_loading (pw_hook (useProducts_async_step (run useProducts_async_step products_world_init
      [Call (Load None), Call (Load None)]) (Settle 0)))"
  by (rule useProducts_loading_cleared_early) (simp_all add: products_world_init_def)

text \<open>C14 (the spinner eventually stops): from every world the products hook
  reaches, delivering the replies in flight ends in a world with nothing in
  flight and \<open>loading\<close> false.\<close>

theorem products_drain_stops_loading:
  assumes "reachable_from useProducts_async_step products_world_init w"
  shows "\<exists>w'. products_drain w = Some w' \<and> pw_pending w' = [] \<and> \<not> hk_loading (pw_hook w')"
  using products_drain_ends[of products_idle_ok w, OF products_world_idle_ok[OF assms]]
    settle_first_idle_ok by (auto simp: products_idle_ok_def)

theorem products_drain_stops_loading_witness:
  "\<exists>w'. products_drain (run useProducts_async_step products_world_init
            [Call (Load None), Call (Delete None ''p1''), Settle 1, Call (Load None)]) = Some w' \<and>
         pw_pending w' = [] \<and> \<not> hk_loading (pw_hook w')"
  by (rule products_drain_stops_loading) (rule reachable_from_run)

end
