(* ===== verification/Lists.thy ===== *)
theory Lists
  imports Entities "HOL-Library.Multiset"
begin

text \<open>
  The list components \<open>products-list.tsx\<close>, \<open>suppliers-list.tsx\<close> and
  \<open>receptions-list.tsx\<close>.  Each keeps a search term and a status (or
  presentation-state) filter and renders the rows that match both.  A row
  matches the search when one of its text fields, lower-cased, contains the
  lower-cased term.  An absent optional field (\<open>product.laboratory?.\<close>)
  yields \<open>undefined\<close>, which is falsy, so it matches nothing.  The status
  filter is the string chosen in the \<open>Select\<close>: \<open>"all"\<close> or a status value.
  When nothing matches, the component shows one of two notices.

  \<open>String.prototype.toLowerCase\<close> is \<open>js_toLowerCase\<close>, the Unicode simple
  lower-case mapping on the Latin-1 range that \<open>char\<close> covers.
  \<open>String.prototype.includes\<close> is \<open>js_includes\<close>, a scan of the positions
  of the string.  It is proved equal to \<open>sublist\<close> of \<open>HOL-Library.Sublist\<close>.
\<close>

section \<open>String primitives\<close>

text \<open>Upper-case Latin-1 letters: A..Z, U+00C0..U+00DE except the
  multiplication sign U+00D7.  Each maps to the code unit 32 above.\<close>

definition js_upper_char :: "char \<Rightarrow> bool" where
  "js_upper_char c \<longleftrightarrow>
     (let n = (of_char c :: nat) in (65 \<le> n \<and> n \<le> 90) \<or> (192 \<le> n \<and> n \<le> 222 \<and> n \<noteq> 215))"

definition js_lower_char :: "char \<Rightarrow> char" where
  "js_lower_char c = (if js_upper_char c then char_of (of_char c + (32::nat)) else c)"

definition js_toLowerCase :: "string \<Rightarrow> string" where
  "js_toLowerCase s = map js_lower_char s"

text \<open>\<open>s.includes(t)\<close>: \<open>t\<close> occurs in \<open>s\<close> at some position.\<close>

fun js_includes :: "string \<Rightarrow> string \<Rightarrow> bool" where
  "js_includes [] t = (t = [])"
| "js_includes (c # s) t = (prefix t (c # s) \<or> js_includes s t)"

text \<open>\<open>f.toLowerCase().includes(searchTerm.toLowerCase())\<close> over the fields
  that are present, joined by \<open>||\<close>.\<close>

definition search_matches :: "string list \<Rightarrow> string \<Rightarrow> bool" where
  "search_matches fs term =
     list_ex (\<lambda>f. js_includes (js_toLowerCase f) (js_toLowerCase term)) fs"

fun opt_field :: "string option \<Rightarrow> string list" where
  "opt_field None = []"
| "opt_field (Some s) = [s]"

fun status_str :: "status \<Rightarrow> string" where
  "status_str Active = ''active''"
| "status_str Inactive = ''inactive''"

fun presentation_str :: "presentation_state \<Rightarrow> string" where
  "presentation_str Bueno = ''bueno''"
| "presentation_str Regular = ''regular''"
| "presentation_str Malo = ''malo''"

section \<open>The three filters\<close>

definition product_search_fields :: "Product \<Rightarrow> string list" where
  "product_search_fields p = [Product.name p, Product.code p] @ opt_field (Product.laboratory p)"

definition filteredProducts :: "string \<Rightarrow> string \<Rightarrow> Product list \<Rightarrow> Product list" where
  "filteredProducts searchTerm statusFilter products =
     filter (\<lambda>p. search_matches (product_search_fields p) searchTerm \<and>
                 (statusFilter = ''all'' \<or> status_str (Product.status p) = statusFilter)) products"

definition supplier_search_fields :: "Supplier \<Rightarrow> string list" where
  "supplier_search_fields s = [Supplier.name s, Supplier.id_number s] @ opt_field (Supplier.email s)"

definition filteredSuppliers :: "string \<Rightarrow> string \<Rightarrow> Supplier list \<Rightarrow> Supplier list" where
  "filteredSuppliers searchTerm statusFilter suppliers =
     filter (\<lambda>s. search_matches (supplier_search_fields s) searchTerm \<and>
                 (statusFilter = ''all'' \<or> status_str (Supplier.status s) = statusFilter)) suppliers"

definition reception_search_fields :: "ProductReception \<Rightarrow> string list" where
  "reception_search_fields r =
     opt_field (map_option Product.name (product r)) @ opt_field (map_option Supplier.name (supplier r)) @
     [ProductReception.invoice_number r] @ opt_field (ProductReception.batch_number r)"

definition filteredReceptions :: "string \<Rightarrow> string \<Rightarrow> ProductReception list \<Rightarrow> ProductReception list" where
  "filteredReceptions searchTerm stateFilter receptions =
     filter (\<lambda>r. search_matches (reception_search_fields r) searchTerm \<and>
                 (stateFilter = ''all'' \<or> presentation_str (ProductReception.presentation_state r) = stateFilter))
       receptions"

text \<open>The notice under an empty result: ask to adjust the filters when a term
  or a filter is set, else invite to add the first row.\<close>

datatype list_notice = NoNotice | AdjustFilters | StartAdding

definition list_notice :: "string \<Rightarrow> string \<Rightarrow> 'a list \<Rightarrow> list_notice" where
  "list_notice searchTerm filt filtered =
     (if filtered \<noteq> [] then NoNotice
      else if searchTerm \<noteq> [] \<or> filt \<noteq> ''all'' then AdjustFilters else StartAdding)"


section \<open>Lemmas\<close>

lemma js_includes_sublist: "js_includes s t \<longleftrightarrow> sublist t s"
  by (induct s) (simp_all add: sublist_Cons_right)

lemma js_includes_Nil [simp]: "js_includes s []"
  by (simp add: js_includes_sublist)

lemma js_toLowerCase_append [simp]: "js_toLowerCase (s @ t) = js_toLowerCase s @ js_toLowerCase t"
  by (simp add: js_toLowerCase_def)

lemma js_toLowerCase_Nil [simp]: "js_toLowerCase [] = []"
  by (simp add: js_toLowerCase_def)

lemma sublist_js_toLowerCase: "sublist t t' \<Longrightarrow> sublist (js_toLowerCase t) (js_toLowerCase t')"
  unfolding js_toLowerCase_def sublist_def by (metis map_append)

lemma search_matches_Nil [simp]: "search_matches fs [] \<longleftrightarrow> fs \<noteq> []"
  by (simp add: search_matches_def list_ex_iff ex_in_conv)

lemma search_matches_mono:
  "sublist t t' \<Longrightarrow> search_matches fs t' \<Longrightarrow> search_matches fs t"
  unfolding search_matches_def js_includes_sublist list_ex_iff
  by (meson sublist_js_toLowerCase sublist_order.order_trans)

lemma subseq_filter_mono: "(\<And>x. P x \<Longrightarrow> Q x) \<Longrightarrow> subseq (filter P xs) (filter Q xs)"
  by (induct xs) auto

lemma search_fields_nonempty [simp]:
  "product_search_fields p \<noteq> []" "supplier_search_fields s \<noteq> []" "reception_search_fields r \<noteq> []"
  by (simp_all add: product_search_fields_def supplier_search_fields_def reception_search_fields_def)

lemma status_str_cases: "status_str x = ''active'' \<or> status_str x = ''inactive''"
  by (cases x) simp_all


lemma js_lower_char_idem [simp]: "js_lower_char (js_lower_char c) = js_lower_char c"
proof (cases "js_upper_char c")
  case True
  then have n: "of_char c \<le> (222::nat)" by (auto simp: js_upper_char_def Let_def)
  then have "of_char (char_of (of_char c + (32::nat)) :: char) = (of_char c + 32 :: nat)"
    by (simp add: of_char_of)
  with True have "\<not> js_upper_char (char_of (of_char c + (32::nat)))"
    by (auto simp: js_upper_char_def Let_def)
  then show ?thesis by (simp add: js_lower_char_def)
next
  case False
  then show ?thesis by (simp add: js_lower_char_def)
qed

lemma js_toLowerCase_idem [simp]: "js_toLowerCase (js_toLowerCase s) = js_toLowerCase s"
  by (simp add: js_toLowerCase_def)

lemma search_matches_lower [simp]: "search_matches fs (js_toLowerCase t) = search_matches fs t"
  by (simp add: search_matches_def)

lemma mset_filter_disjoint:
  "(\<And>x. P x \<Longrightarrow> Q x \<Longrightarrow> False) \<Longrightarrow>
   mset (filter P xs) + mset (filter Q xs) = mset (filter (\<lambda>x. P x \<or> Q x) xs)"
  by (induct xs) auto

section \<open>Properties\<close>

text \<open>No filter shows every row: with an empty search term and the
  filter on \<open>"all"\<close>, each list component renders every row it is given,
  in order.\<close>

theorem lists_show_all_unfiltered:
  "filteredProducts [] ''all'' ps = ps \<and> filteredSuppliers [] ''all'' ss = ss \<and>
   filteredReceptions [] ''all'' rs = rs"
  by (simp add: filteredProducts_def filteredSuppliers_def filteredReceptions_def)

text \<open>Refining the search narrows the list: if the new search term
  contains the old one (typing more characters, at either end), the
  products shown are a subsequence of those shown before.\<close>

theorem filteredProducts_narrowing:
  assumes "sublist t t'"
  shows "subseq (filteredProducts t' sf ps) (filteredProducts t sf ps)"
  unfolding filteredProducts_def
  by (rule subseq_filter_mono) (auto intro: search_matches_mono[OF assms])

theorem filteredProducts_narrowing_witness:
  "subseq (filteredProducts ''aceta'' ''all''
     [\<lparr>Product.id = ''p1'', code = ''MED001'', name = ''Acetaminofen'', description = None,
       laboratory = None, status = Active, created_at = 0, updated_at = 0\<rparr>])
   (filteredProducts ''acet'' ''all''
     [\<lparr>Product.id = ''p1'', code = ''MED001'', name = ''Acetaminofen'', description = None,
       laboratory = None, status = Active, created_at = 0, updated_at = 0\<rparr>])"
  using filteredProducts_narrowing[of "''acet''" "''aceta''" "''all''"
      "[\<lparr>Product.id = ''p1'', code = ''MED001'', name = ''Acetaminofen'', description = None,
         laboratory = None, status = Active, created_at = 0, updated_at = 0\<rparr>]"]
  by (simp add: filteredProducts_def product_search_fields_def search_matches_def
      js_toLowerCase_def js_lower_char_def js_upper_char_def)

text \<open>The status filter splits the list: the products shown with the
  filter on \<open>"active"\<close> and those shown with it on \<open>"inactive"\<close> are, as a
  multiset, exactly those shown with it on \<open>"all"\<close>, for any search term.\<close>

theorem filteredProducts_status_partition:
  "mset (filteredProducts t ''active'' ps) + mset (filteredProducts t ''inactive'' ps) =
   mset (filteredProducts t ''all'' ps)"
proof -
  let ?S = "\<lambda>p. search_matches (product_search_fields p) t"
  let ?st = "\<lambda>p. status_str (Product.status p)"
  have a: "filteredProducts t ''active'' ps = filter (\<lambda>p. ?S p \<and> ?st p = ''active'') ps"
    and i: "filteredProducts t ''inactive'' ps = filter (\<lambda>p. ?S p \<and> ?st p = ''inactive'') ps"
    by (simp_all add: filteredProducts_def)
  have "filteredProducts t ''all'' ps =
        filter (\<lambda>p. (?S p \<and> ?st p = ''active'') \<or> (?S p \<and> ?st p = ''inactive'')) ps"
    unfolding filteredProducts_def using status_str_cases by (auto intro: filter_cong)
  then show ?thesis unfolding a i by (simp only:) (rule mset_filter_disjoint, auto)
qed

text \<open>The empty-list notice: the products list invites the user to add
  the first product exactly when there are no products, no search term and
  no status filter; otherwise an empty result asks to adjust the filters.\<close>

theorem products_notice_start_adding:
  "list_notice t sf (filteredProducts t sf ps) = StartAdding \<longleftrightarrow> ps = [] \<and> t = [] \<and> sf = ''all''"
  by (auto simp: list_notice_def filteredProducts_def)

text \<open>C18 (what the products search shows): the products list shows, in
  their order, exactly the products whose status matches the filter (any
  status under \<open>"all"\<close>) and whose name, code or present laboratory contains
  the search term, ignoring case (Latin-1 lower case on both sides); the
  description is not searched.  In particular the result does not change
  when the term is typed in another case.\<close>

theorem filteredProducts_search_spec:
  "filteredProducts t sf ps =
     filter (\<lambda>p. (sf = ''all'' \<or> status_str (Product.status p) = sf) \<and>
                 (sublist (js_toLowerCase t) (js_toLowerCase (Product.name p)) \<or>
                  sublist (js_toLowerCase t) (js_toLowerCase (Product.code p)) \<or>
                  (\<exists>l. Product.laboratory p = Some l \<and> sublist (js_toLowerCase t) (js_toLowerCase l)))) ps \<and>
   filteredProducts (js_toLowerCase t) sf ps = filteredProducts t sf ps"
proof -
  have "search_matches (product_search_fields p) t \<longleftrightarrow>
          sublist (js_toLowerCase t) (js_toLowerCase (Product.name p)) \<or>
          sublist (js_toLowerCase t) (js_toLowerCase (Product.code p)) \<or>
          (\<exists>l. Product.laboratory p = Some l \<and> sublist (js_toLowerCase t) (js_toLowerCase l))" for p
    by (cases "Product.laboratory p")
       (auto simp: search_matches_def product_search_fields_def js_includes_sublist)
  then show ?thesis
    by (auto simp: filteredProducts_def intro: filter_cong)
qed

end
