(* ===== verification/ReceptionDialog.thy ===== *)
theory ReceptionDialog
  imports Lists
begin

text \<open>
  The reception dialogs \<open>src/components/receptions/add-reception-dialog.tsx\<close>
  and \<open>edit-reception-dialog.tsx\<close>.  Their form holds strings, the quantity
  included.  On submit, the quantity is converted with \<open>Number.parseInt\<close> and
  an empty expiration date becomes \<open>null\<close>; then the row is inserted (or
  updated) through Supabase.  No validator is called; only the browser's
  constraint validation of the form (\<open>reception_form_valid\<close>: the
  \<open>required\<close> fields and the \<open>type="number" min="1"\<close> quantity) stands
  before the submit.  The edit dialog fills
  its form from the stored reception, and converts the quantity back to a
  string with \<open>Number.prototype.toString\<close>.

  \<open>js_parseInt\<close> follows ECMAScript's \<open>parseInt(string)\<close> with no radix:
  leading white space is skipped, one sign is allowed, a \<open>0x\<close> prefix selects
  radix 16, and the longest run of digits is read; with no digit the result
  is NaN.  The exact integer is kept (no rounding to a double), which is
  exact below \<open>2^53\<close>.  \<open>dec_string\<close> is \<open>Number.prototype.toString\<close> on a
  non-negative integer below \<open>10^21\<close> (plain decimal digits).  The edit
  dialog takes the engine's \<open>toString\<close> and the \<open>Date\<close> round trip of the
  reception date as parameters.
\<close>

section \<open>Number.parseInt and Number.prototype.toString\<close>

definition digit_char :: "nat \<Rightarrow> char" where
  "digit_char d = char_of (48 + d)"

fun dec_string :: "nat \<Rightarrow> string" where
  "dec_string n = (if n < 10 then [digit_char n] else dec_string (n div 10) @ [digit_char (n mod 10)])"

declare dec_string.simps [simp del]

definition radix_digit :: "nat \<Rightarrow> char \<Rightarrow> nat option" where
  "radix_digit r c =
     (let n = (of_char c :: nat) in
      if 48 \<le> n \<and> n \<le> 57 then Some (n - 48)
      else if r = 16 \<and> 97 \<le> n \<and> n \<le> 102 then Some (n - 87)
      else if r = 16 \<and> 65 \<le> n \<and> n \<le> 70 then Some (n - 55)
      else None)"

definition digits_value :: "nat \<Rightarrow> string \<Rightarrow> nat" where
  "digits_value r ds = foldl (\<lambda>acc c. acc * r + (case radix_digit r c of Some d \<Rightarrow> d | None \<Rightarrow> 0)) 0 ds"

definition strip_sign :: "string \<Rightarrow> bool \<times> string" where
  "strip_sign s =
     (case s of c # r \<Rightarrow> if c = CHR ''-'' then (True, r) else if c = CHR ''+'' then (False, r) else (False, s)
      | [] \<Rightarrow> (False, []))"

definition strip_radix :: "string \<Rightarrow> nat \<times> string" where
  "strip_radix s = (if take 2 s = ''0x'' \<or> take 2 s = ''0X'' then (16, drop 2 s) else (10, s))"

definition js_parseInt :: "string \<Rightarrow> js_number" where
  "js_parseInt s =
     (case strip_sign (dropWhile js_space s) of
        (neg, s2) \<Rightarrow>
          (case strip_radix s2 of
             (r, s3) \<Rightarrow>
               (let z = takeWhile (\<lambda>c. radix_digit r c \<noteq> None) s3 in
                if z = [] then JNaN
                else JNum ((if neg then -1 else 1) * real (digits_value r z)))))"

section \<open>Number inputs\<close>

text \<open>An \<open><input type="number">\<close> holds a string that is a valid
  floating-point number of the HTML standard, or \<open>""\<close>: the value
  sanitization algorithm empties any other text, so \<open>e.target.value\<close> is
  \<open>number_input_value\<close> of what was typed.  The grammar is an optional
  \<open>-\<close>, digits, an optional \<open>.\<close> followed by digits (at least one digit in
  all), and an optional exponent \<open>e\<close> or \<open>E\<close> with an optional sign and
  digits.  \<open>html_float\<close> parses it in the manner of a parser combinator: each
  part takes the digits it needs and hands on the rest.\<close>

fun opt_minus :: "string \<Rightarrow> bool \<times> string" where
  "opt_minus (c # r) = (if c = CHR ''-'' then (True, r) else (False, c # r))"
| "opt_minus [] = (False, [])"

definition frac_part :: "string \<Rightarrow> (string \<times> string) option" where
  "frac_part s =
     (case s of
        c # r \<Rightarrow>
          if c = CHR ''.'' then
            (if takeWhile js_digit r = [] then None else Some (takeWhile js_digit r, dropWhile js_digit r))
          else Some ([], s)
      | [] \<Rightarrow> Some ([], []))"

definition exp_part :: "string \<Rightarrow> int option" where
  "exp_part s =
     (case s of
        [] \<Rightarrow> Some 0
      | c # r \<Rightarrow>
          if c = CHR ''e'' \<or> c = CHR ''E'' then
            (case strip_sign r of
               (neg, ds) \<Rightarrow>
                 if ds \<noteq> [] \<and> list_all js_digit ds
                 then Some ((if neg then -1 else 1) * int (digits_value 10 ds)) else None)
          else None)"

definition html_float :: "string \<Rightarrow> real option" where
  "html_float s =
     (case opt_minus s of
        (neg, s1) \<Rightarrow>
          (let ip = takeWhile js_digit s1 in
           case frac_part (dropWhile js_digit s1) of
             None \<Rightarrow> None
           | Some (fp, r) \<Rightarrow>
               if ip = [] \<and> fp = [] then None
               else (case exp_part r of
                       None \<Rightarrow> None
                     | Some e \<Rightarrow>
                         Some ((if neg then -1 else 1) *
                               (real (digits_value 10 ip) + real (digits_value 10 fp) / 10 ^ length fp) *
                               (if 0 \<le> e then 10 ^ nat e else 1 / 10 ^ nat (- e))))))"

definition number_input_value :: "string \<Rightarrow> string" where
  "number_input_value v = (if html_float v = None then [] else v)"

section \<open>The add dialog\<close>

record ReceptionFormData =
  rf_reception_date :: string
  rf_product_id :: string
  rf_supplier_id :: string
  rf_invoice_number :: string
  rf_quantity :: string
  rf_batch_number :: string
  rf_invima_registration :: string
  rf_expiration_date :: string
  rf_presentation_state :: string
  rf_notes :: string

record ReceptionDialogState =
  rd_open :: bool
  rd_loading :: bool
  rd_form :: ReceptionFormData

text \<open>The browser's constraint validation of the form, which runs before
  \<open>onSubmit\<close> (the form has no \<open>noValidate\<close>): the \<open>required\<close> inputs and
  selects are non-empty, and the quantity input (\<open>type="number" min="1"
  required\<close>, step 1 from the base 1) holds an integer of at least 1.  The two
  dialogs have the same constraints.\<close>

definition quantity_input_ok :: "string \<Rightarrow> bool" where
  "quantity_input_ok q \<longleftrightarrow>
     (case html_float q of None \<Rightarrow> False | Some v \<Rightarrow> 1 \<le> v \<and> real_of_int \<lfloor>v\<rfloor> = v)"

definition reception_form_valid :: "ReceptionFormData \<Rightarrow> bool" where
  "reception_form_valid f \<longleftrightarrow>
     rf_reception_date f \<noteq> [] \<and> rf_presentation_state f \<noteq> [] \<and> rf_product_id f \<noteq> [] \<and>
     rf_supplier_id f \<noteq> [] \<and> rf_invoice_number f \<noteq> [] \<and> quantity_input_ok (rf_quantity f)"

text \<open>The empty form; \<open>now_iso\<close> is \<open>new Date().toISOString()\<close>, of which the
  first 16 characters (\<open>YYYY-MM-DDTHH:mm\<close>) fill the date input.\<close>

definition empty_reception_form :: "string \<Rightarrow> ReceptionFormData" where
  "empty_reception_form now_iso =
     \<lparr>rf_reception_date = take 16 now_iso, rf_product_id = [], rf_supplier_id = [],
      rf_invoice_number = [], rf_quantity = [], rf_batch_number = [], rf_invima_registration = [],
      rf_expiration_date = [], rf_presentation_state = [], rf_notes = []\<rparr>"

definition add_reception_init :: "string \<Rightarrow> ReceptionDialogState" where
  "add_reception_init now_iso =
     \<lparr>rd_open = False, rd_loading = False, rd_form = empty_reception_form now_iso\<rparr>"

fun presentation_of_str :: "string \<Rightarrow> presentation_state option" where
  "presentation_of_str s =
     (if s = ''bueno'' then Some Bueno else if s = ''regular'' then Some Regular
      else if s = ''malo'' then Some Malo else None)"

text \<open>The row sent by \<open>handleSubmit\<close>: \<open>{...formData, quantity:
  Number.parseInt(formData.quantity), expiration_date: formData.expiration_date
  || null}\<close>, read as the validator's input record.  The other optional
  fields are sent as the (possibly empty) strings of the form.\<close>

definition reception_insert_payload :: "ReceptionFormData \<Rightarrow> CreateReceptionData" where
  "reception_insert_payload f =
     \<lparr>CreateReceptionData.reception_date = rf_reception_date f,
      CreateReceptionData.product_id = rf_product_id f,
      CreateReceptionData.supplier_id = rf_supplier_id f,
      CreateReceptionData.invoice_number = rf_invoice_number f,
      CreateReceptionData.quantity = js_parseInt (rf_quantity f),
      CreateReceptionData.batch_number = Some (rf_batch_number f),
      CreateReceptionData.invima_registration = Some (rf_invima_registration f),
      CreateReceptionData.expiration_date =
        (if rf_expiration_date f = [] then None else Some (rf_expiration_date f)),
      CreateReceptionData.presentation_state = presentation_of_str (rf_presentation_state f),
      CreateReceptionData.notes_str = Some (rf_notes f)\<rparr>"

fun add_reception_handleSubmit ::
  "string \<Rightarrow> db_error \<Rightarrow> ReceptionDialogState \<Rightarrow> ReceptionDialogState" where
  "add_reception_handleSubmit now_iso None s =
     s\<lparr>rd_open := False, rd_form := empty_reception_form now_iso, rd_loading := False\<rparr>"
| "add_reception_handleSubmit now_iso (Some err) s = s\<lparr>rd_loading := False\<rparr>"

section \<open>The edit dialog\<close>

text \<open>\<open>reception.expiration_date ? reception.expiration_date.split("T")[0] : ""\<close>\<close>

fun expiration_input :: "string option \<Rightarrow> string" where
  "expiration_input None = []"
| "expiration_input (Some e) = takeWhile (\<lambda>c. c \<noteq> CHR ''T'') e"

text \<open>The form filled from a stored reception.  \<open>num_str\<close> is
  \<open>Number.prototype.toString\<close>, \<open>date_iso\<close> is \<open>new Date(s).toISOString()\<close>.\<close>

definition edit_reception_form ::
  "(js_number \<Rightarrow> string) \<Rightarrow> (string \<Rightarrow> string) \<Rightarrow> ProductReception \<Rightarrow> ReceptionFormData" where
  "edit_reception_form num_str date_iso r =
     \<lparr>rf_reception_date = take 16 (date_iso (ProductReception.reception_date r)),
      rf_product_id = ProductReception.product_id r,
      rf_supplier_id = ProductReception.supplier_id r,
      rf_invoice_number = ProductReception.invoice_number r,
      rf_quantity = num_str (ProductReception.quantity r),
      rf_batch_number = (case ProductReception.batch_number r of None \<Rightarrow> [] | Some b \<Rightarrow> b),
      rf_invima_registration = (case ProductReception.invima_registration r of None \<Rightarrow> [] | Some b \<Rightarrow> b),
      rf_expiration_date = expiration_input (ProductReception.expiration_date r),
      rf_presentation_state = presentation_str (ProductReception.presentation_state r),
      rf_notes = (case ProductReception.notes_str r of None \<Rightarrow> [] | Some b \<Rightarrow> b)\<rparr>"


definition edit_reception_init ::
  "(js_number \<Rightarrow> string) \<Rightarrow> (string \<Rightarrow> string) \<Rightarrow> ProductReception \<Rightarrow> ReceptionDialogState" where
  "edit_reception_init num_str date_iso r =
     \<lparr>rd_open = False, rd_loading = False, rd_form = edit_reception_form num_str date_iso r\<rparr>"

text \<open>The row after \<open>handleSubmit\<close>'s \<open>update({...formData, quantity:
  Number.parseInt(formData.quantity), expiration_date: formData.expiration_date
  || null, updated_at}).eq("id", reception.id)\<close>.  Every form field is written;
  an expiration date of \<open>""\<close> is written as \<open>null\<close>.  A presentation state
  outside the column's three values is rejected by the store (\<open>None\<close>).\<close>

definition edit_reception_row ::
  "ReceptionFormData \<Rightarrow> time \<Rightarrow> ProductReception \<Rightarrow> ProductReception option" where
  "edit_reception_row f now r =
     (case presentation_of_str (rf_presentation_state f) of
        None \<Rightarrow> None
      | Some ps \<Rightarrow> Some (r\<lparr>ProductReception.reception_date := rf_reception_date f,
          ProductReception.product_id := rf_product_id f,
          ProductReception.supplier_id := rf_supplier_id f,
          ProductReception.invoice_number := rf_invoice_number f,
          ProductReception.quantity := js_parseInt (rf_quantity f),
          ProductReception.batch_number := Some (rf_batch_number f),
          ProductReception.invima_registration := Some (rf_invima_registration f),
          ProductReception.expiration_date :=
            (if rf_expiration_date f = [] then None else Some (rf_expiration_date f)),
          ProductReception.presentation_state := ps,
          ProductReception.notes_str := Some (rf_notes f),
          ProductReception.updated_at := now\<rparr>))"

fun edit_reception_handleSubmit :: "db_error \<Rightarrow> ReceptionDialogState \<Rightarrow> ReceptionDialogState" where
  "edit_reception_handleSubmit None s = s\<lparr>rd_open := False, rd_loading := False\<rparr>"
| "edit_reception_handleSubmit (Some err) s = s\<lparr>rd_loading := False\<rparr>"

section \<open>Events\<close>

text \<open>Each input and select of the form calls \<open>setFormData({...formData,
  field: value})\<close>.\<close>

datatype reception_field =
    ReceptionDate | ProductId | SupplierId | InvoiceNumber | Quantity | BatchNumber
  | InvimaRegistration | ExpirationDate | PresentationState | Notes

fun set_reception_field :: "reception_field \<Rightarrow> string \<Rightarrow> ReceptionFormData \<Rightarrow> ReceptionFormData" where
  "set_reception_field ReceptionDate v f = f\<lparr>rf_reception_date := v\<rparr>"
| "set_reception_field ProductId v f = f\<lparr>rf_product_id := v\<rparr>"
| "set_reception_field SupplierId v f = f\<lparr>rf_supplier_id := v\<rparr>"
| "set_reception_field InvoiceNumber v f = f\<lparr>rf_invoice_number := v\<rparr>"
| "set_reception_field Quantity v f = f\<lparr>rf_quantity := number_input_value v\<rparr>"
| "set_reception_field BatchNumber v f = f\<lparr>rf_batch_number := v\<rparr>"
| "set_reception_field InvimaRegistration v f = f\<lparr>rf_invima_registration := v\<rparr>"
| "set_reception_field ExpirationDate v f = f\<lparr>rf_expiration_date := v\<rparr>"
| "set_reception_field PresentationState v f = f\<lparr>rf_presentation_state := v\<rparr>"
| "set_reception_field Notes v f = f\<lparr>rf_notes := v\<rparr>"

datatype reception_dialog_event =
    RSetOpen bool | REdit reception_field string | RSubmit db_error

text \<open>The add dialog; \<open>now_iso\<close> is the clock reading used when the form is
  reset after a successful insert.  A submit that fails the constraint
  validation is stopped by the browser and changes nothing.\<close>

fun add_reception_step ::
  "string \<Rightarrow> ReceptionDialogState \<Rightarrow> reception_dialog_event \<Rightarrow> ReceptionDialogState" where
  "add_reception_step now_iso s (RSetOpen b) = s\<lparr>rd_open := b\<rparr>"
| "add_reception_step now_iso s (REdit fld v) = s\<lparr>rd_form := set_reception_field fld v (rd_form s)\<rparr>"
| "add_reception_step now_iso s (RSubmit r) =
     (if reception_form_valid (rd_form s) then add_reception_handleSubmit now_iso r s else s)"

fun edit_reception_step :: "ReceptionDialogState \<Rightarrow> reception_dialog_event \<Rightarrow> ReceptionDialogState" where
  "edit_reception_step s (RSetOpen b) = s\<lparr>rd_open := b\<rparr>"
| "edit_reception_step s (REdit fld v) = s\<lparr>rd_form := set_reception_field fld v (rd_form s)\<rparr>"
| "edit_reception_step s (RSubmit r) =
     (if reception_form_valid (rd_form s) then edit_reception_handleSubmit r s else s)"


section \<open>Lemmas\<close>


lemma of_char_digit_char: "d < 10 \<Longrightarrow> (of_char (digit_char d) :: nat) = 48 + d"
  by (simp add: digit_char_def of_char_of)

lemma dec_string_digits: "c \<in> set (dec_string n) \<Longrightarrow> \<exists>d<10. c = digit_char d"
proof (induct n rule: dec_string.induct)
  case (1 n)
  show ?case
  proof (cases "n < 10")
    case True
    then show ?thesis using 1(2) by (subst (asm) dec_string.simps) auto
  next
    case False
    then have "c \<in> set (dec_string (n div 10)) \<or> c = digit_char (n mod 10)"
      using 1(2) by (subst (asm) dec_string.simps) auto
    then show ?thesis
    proof
      assume "c \<in> set (dec_string (n div 10))"
      then show ?thesis using 1(1) False by simp
    next
      assume "c = digit_char (n mod 10)"
      then show ?thesis by (intro exI[of _ "n mod 10"]) simp
    qed
  qed
qed

lemma radix_digit_digit_char: "d < 10 \<Longrightarrow> radix_digit r (digit_char d) = Some d"
  by (simp add: radix_digit_def of_char_digit_char)

lemma dec_string_ne: "dec_string n \<noteq> []"
  by (subst dec_string.simps) simp

lemma digits_value_snoc: "digits_value r (xs @ [c]) =
    digits_value r xs * r + (case radix_digit r c of Some d \<Rightarrow> d | None \<Rightarrow> 0)"
  by (simp add: digits_value_def)

lemma digits_value_dec_string: "digits_value 10 (dec_string n) = n"
proof (induct n rule: dec_string.induct)
  case (1 n)
  show ?case
  proof (cases "n < 10")
    case True
    then show ?thesis
      by (subst dec_string.simps) (simp add: digits_value_def radix_digit_digit_char)
  next
    case False
    then have "digits_value 10 (dec_string n) = digits_value 10 (dec_string (n div 10)) * 10 + n mod 10"
      by (subst dec_string.simps) (simp add: digits_value_snoc radix_digit_digit_char)
    then show ?thesis using 1 False by simp
  qed
qed

lemma digit_char_not_special:
  "d < 10 \<Longrightarrow> \<not> js_space (digit_char d) \<and> digit_char d \<noteq> CHR ''-'' \<and> digit_char d \<noteq> CHR ''+'' \<and>
   digit_char d \<noteq> CHR ''x'' \<and> digit_char d \<noteq> CHR ''X'' \<and> digit_char d \<noteq> CHR ''.''"
  by (auto simp: js_space_def of_char_digit_char dest: arg_cong[where f="of_char :: char \<Rightarrow> nat"])


lemma dec_string_hd: "\<exists>d ds. d < 10 \<and> dec_string n = digit_char d # ds"
proof -
  obtain c cs where "dec_string n = c # cs" using dec_string_ne by (cases "dec_string n") auto
  moreover then obtain d where "d < 10" "c = digit_char d" using dec_string_digits[of c n] by auto
  ultimately show ?thesis by blast
qed

lemma radix_digit_dec_string: "c \<in> set (dec_string n) \<Longrightarrow> radix_digit r c \<noteq> None"
  by (auto dest!: dec_string_digits simp: radix_digit_digit_char)

lemma dec_string_no_x:
  assumes "c \<in> set (dec_string n)"
  shows "c \<noteq> CHR ''x'' \<and> c \<noteq> CHR ''X'' \<and> c \<noteq> CHR ''.''"
proof -
  obtain d where "d < 10" "c = digit_char d" using dec_string_digits[OF assms] by blast
  then show ?thesis using digit_char_not_special[of d] by simp
qed

lemma radix_digit_dot: "radix_digit 10 (CHR ''.'') = None"
  by (simp add: radix_digit_def)

lemma take2_no_hex:
  assumes "xs \<noteq> []" "c \<notin> set xs" "c \<noteq> CHR ''.''"
    and "rest = [] \<or> (\<exists>ds. rest = CHR ''.'' # ds)"
  shows "c \<notin> set (take 2 (xs @ rest))"
proof -
  have "2 - length xs = 0 \<or> 2 - length xs = 1" using assms(1) by (cases xs) auto
  then have "set (take (2 - length xs) rest) \<subseteq> {CHR ''.''}" using assms(4) by auto
  then show ?thesis using assms(2,3) set_take_subset[of 2 xs] by (auto simp: take_append)
qed

lemma parseInt_dec_append:
  assumes "rest = [] \<or> (\<exists>ds. rest = CHR ''.'' # ds)"
  shows "js_parseInt (dec_string n @ rest) = JNum (real n)"
proof -
  obtain d ds where d: "d < 10" "dec_string n = digit_char d # ds" using dec_string_hd by blast
  have sp: "dropWhile js_space (dec_string n @ rest) = dec_string n @ rest"
    using d digit_char_not_special[of d] by simp
  have sg: "strip_sign (dec_string n @ rest) = (False, dec_string n @ rest)"
    using d digit_char_not_special[of d] by (simp add: strip_sign_def)
  have "CHR ''x'' \<notin> set (take 2 (dec_string n @ rest))"
    by (rule take2_no_hex[OF dec_string_ne _ _ assms]) (use dec_string_no_x[of _ n] in auto)
  moreover have "CHR ''X'' \<notin> set (take 2 (dec_string n @ rest))"
    by (rule take2_no_hex[OF dec_string_ne _ _ assms]) (use dec_string_no_x[of _ n] in auto)
  ultimately have "take 2 (dec_string n @ rest) \<noteq> ''0x'' \<and> take 2 (dec_string n @ rest) \<noteq> ''0X''"
    by (auto simp del: take_append)
  then have rd: "strip_radix (dec_string n @ rest) = (10, dec_string n @ rest)"
    by (simp add: strip_radix_def)
  have tw: "takeWhile (\<lambda>c. radix_digit 10 c \<noteq> None) (dec_string n @ rest) = dec_string n"
    using assms radix_digit_dec_string[of _ n] radix_digit_dot
    by (auto simp: takeWhile_append2)
  show ?thesis using sp sg rd tw dec_string_ne by (simp add: js_parseInt_def digits_value_dec_string)
qed


lemma dec_string_small: "n < 10 \<Longrightarrow> dec_string n = [digit_char n]"
  by (subst dec_string.simps) simp

lemma parseInt_dec_string: "js_parseInt (dec_string n) = JNum (real n)"
  using parseInt_dec_append[of "[]" n] by simp

lemma presentation_of_str_str [simp]: "presentation_of_str (presentation_str p) = Some p"
  by (cases p) simp_all

lemma edit_reception_row_quantity:
  "\<exists>r'. edit_reception_row (edit_reception_form num_str date_iso r) t r = Some r' \<and>
        ProductReception.quantity r' = js_parseInt (num_str (ProductReception.quantity r))"
  by (simp add: edit_reception_row_def edit_reception_form_def del: presentation_of_str.simps)

lemma radix10_iff_digit: "radix_digit 10 c = None \<longleftrightarrow> \<not> js_digit c"
  by (simp add: radix_digit_def js_digit_def Let_def)

lemma parseInt_plain:
  assumes "list_all js_digit ip" and "rest = [] \<or> hd rest \<in> {CHR ''.'', CHR ''e'', CHR ''E''}"
  shows "js_parseInt (ip @ rest) = (if ip = [] then JNaN else JNum (real (digits_value 10 ip)))"
proof -
  let ?s = "ip @ rest"
  have nd: "\<not> js_digit c" if "c \<in> {CHR ''.'', CHR ''e'', CHR ''E''}" for c
    using that by (auto simp: js_digit_def)
  have hd_ok: "?s = [] \<or> (hd ?s \<noteq> CHR ''-'' \<and> hd ?s \<noteq> CHR ''+'' \<and> \<not> js_space (hd ?s) \<and> hd ?s \<noteq> CHR ''x''
                  \<and> hd ?s \<noteq> CHR ''X'')"
    using assms by (cases ip) (auto simp: js_digit_def js_space_def)
  have sp: "dropWhile js_space ?s = ?s"
    using hd_ok by (cases ?s) auto
  have sg: "strip_sign ?s = (False, ?s)"
    using hd_ok by (cases ?s) (auto simp: strip_sign_def)
  have nx: "take 2 ?s \<noteq> ''0x'' \<and> take 2 ?s \<noteq> ''0X''"
  proof (cases ip)
    case Nil
    then show ?thesis using assms(2) by (cases rest) auto
  next
    case (Cons a ip')
    then show ?thesis using assms
      by (cases ip'; cases rest) (auto simp: js_digit_def)
  qed
  have rd: "strip_radix ?s = (10, ?s)"
    using nx by (simp add: strip_radix_def)
  have ip: "\<And>x. x \<in> set ip \<Longrightarrow> radix_digit 10 x \<noteq> None"
    using assms(1) by (simp add: radix10_iff_digit list_all_iff)
  have "takeWhile (\<lambda>c. radix_digit 10 c \<noteq> None) rest = []"
    using assms(2) nd by (cases rest) (simp_all add: radix10_iff_digit)
  then have tw: "takeWhile (\<lambda>c. radix_digit 10 c \<noteq> None) ?s = ip"
    by (simp only: takeWhile_append2[OF ip]) simp
  show ?thesis using sp sg rd tw by (simp add: js_parseInt_def)
qed

lemma opt_minus_cases: "opt_minus s = (True, r) \<Longrightarrow> s = CHR ''-'' # r"
  "opt_minus s = (False, r) \<Longrightarrow> r = s"
  by (cases s; auto split: if_splits)+

lemma html_float_positive_shape:
  assumes "html_float q = Some v" and "0 < v"
  shows "dropWhile js_digit q = [] \<or> hd (dropWhile js_digit q) \<in> {CHR ''.'', CHR ''e'', CHR ''E''}"
proof -
  obtain neg s1 where m: "opt_minus q = (neg, s1)" by (cases "opt_minus q")
  obtain fp r where fr: "frac_part (dropWhile js_digit s1) = Some (fp, r)"
    using assms(1) m by (cases "frac_part (dropWhile js_digit s1)") (auto simp: html_float_def Let_def)
  obtain e where ex: "exp_part r = Some e"
    using assms(1) m fr by (cases "exp_part r") (auto simp: html_float_def Let_def split: if_splits)
  define x where "x = (real (digits_value 10 (takeWhile js_digit s1)) + real (digits_value 10 fp) / 10 ^ length fp) *
                       (if 0 \<le> e then 10 ^ nat e else 1 / 10 ^ nat (- e) :: real)"
  have x0: "0 \<le> x" by (simp add: x_def)
  have vx: "v = (if neg then -1 else 1) * x"
    using assms(1) m fr ex by (auto simp: html_float_def Let_def x_def algebra_simps split: if_splits)
  have "\<not> neg" using vx x0 assms(2) by auto
  then have "s1 = q" using m opt_minus_cases(2) by simp
  then show ?thesis using fr ex
    by (cases "dropWhile js_digit q") (auto simp: frac_part_def exp_part_def split: if_splits list.splits)
qed

lemma quantity_input_ok_parseInt:
  assumes "quantity_input_ok q"
  shows "js_parseInt q =
           (if takeWhile js_digit q = [] then JNaN else JNum (real (digits_value 10 (takeWhile js_digit q))))"
proof -
  obtain v where v: "html_float q = Some v" "1 \<le> v"
    using assms by (auto simp: quantity_input_ok_def split: option.splits)
  have "js_parseInt (takeWhile js_digit q @ dropWhile js_digit q) =
          (if takeWhile js_digit q = [] then JNaN else JNum (real (digits_value 10 (takeWhile js_digit q))))"
    by (rule parseInt_plain) (use html_float_positive_shape[OF v(1)] v(2) in \<open>auto simp: list_all_iff dest: set_takeWhileD\<close>)
  then show ?thesis by simp
qed

lemma html_float_digits:
  assumes "list_all js_digit q" and "q \<noteq> []"
  shows "html_float q = Some (real (digits_value 10 q))"
proof -
  have t: "takeWhile js_digit q = q" and d: "dropWhile js_digit q = []"
    using assms(1) by (simp_all add: list_all_iff)
  have m: "opt_minus q = (False, q)" using assms by (cases q) (auto simp: list_all_iff js_digit_def)
  show ?thesis using assms(2) by (simp add: html_float_def frac_part_def exp_part_def t d m digits_value_def)
qed

section \<open>Properties\<close>

text \<open>C32 (saving an unchanged reception keeps an integer quantity): when the
  stored quantity is a non-negative integer \<open>n\<close>, whose \<open>toString()\<close> is its
  decimal digits, opening the edit dialog and saving it unchanged writes back
  the same quantity (\<open>parseInt\<close> undoes \<open>toString\<close>).\<close>

theorem edit_reception_keeps_integer_quantity:
  assumes "ProductReception.quantity r = JNum (real n)" and "num_str (JNum (real n)) = dec_string n"
  shows "\<exists>r'. edit_reception_row (edit_reception_form num_str date_iso r) t r = Some r' \<and>
              ProductReception.quantity r' = ProductReception.quantity r"
  using edit_reception_row_quantity[of num_str date_iso r t] assms by (simp add: parseInt_dec_string)

theorem edit_reception_keeps_integer_quantity_witness:
  "\<exists>r'. edit_reception_row (edit_reception_form (\<lambda>q. ''12'') (\<lambda>s. s)
      \<lparr>ProductReception.id = ''r1'', reception_date = ''2024-05-02'', product_id = ''p1'',
       supplier_id = ''s1'', invoice_number = ''F-1'', quantity = JNum 12, batch_number = None,
       invima_registration = None, expiration_date = None, presentation_state = Bueno,
       notes_str = None, created_at = 2, updated_at = 2, product = None, supplier = None\<rparr>) 7
      \<lparr>ProductReception.id = ''r1'', reception_date = ''2024-05-02'', product_id = ''p1'',
       supplier_id = ''s1'', invoice_number = ''F-1'', quantity = JNum 12, batch_number = None,
       invima_registration = None, expiration_date = None, presentation_state = Bueno,
       notes_str = None, created_at = 2, updated_at = 2, product = None, supplier = None\<rparr> = Some r' \<and>
     ProductReception.quantity r' = JNum 12"
  using edit_reception_keeps_integer_quantity[of
      "\<lparr>ProductReception.id = ''r1'', reception_date = ''2024-05-02'', product_id = ''p1'',
        supplier_id = ''s1'', invoice_number = ''F-1'', quantity = JNum 12, batch_number = None,
        invima_registration = None, expiration_date = None, presentation_state = Bueno,
        notes_str = None, created_at = 2, updated_at = 2, product = None, supplier = None\<rparr>"
      12 "\<lambda>q. ''12''" "\<lambda>s. s" 7]
  by (simp add: dec_string.simps[of 12] dec_string_small digit_char_def char_of_def bit_0)

text \<open>C9 (the quantity the add-reception dialog stores): for every form the
  browser lets through its constraint validation, the payload's quantity is
  \<open>parseInt\<close> of the entry, that is the digits before any \<open>.\<close>, \<open>e\<close> or
  \<open>E\<close> (NaN when there are none), not the number the browser validated.
  Only when the entry is a plain digit string is the stored quantity that
  number, and it then passes the quantity rule of
  \<open>ReceptionValidation.validateCreate\<close>.  The browser accepts \<open>1e3\<close> as
  1000, and the dialog stores 1.\<close>

theorem add_reception_quantity_payload:
  assumes "reception_form_valid f"
  shows "CreateReceptionData.quantity (reception_insert_payload f) =
           (if takeWhile js_digit (rf_quantity f) = [] then JNaN
            else JNum (real (digits_value 10 (takeWhile js_digit (rf_quantity f))))) \<and>
         (list_all js_digit (rf_quantity f) \<longrightarrow>
            map_option JNum (html_float (rf_quantity f)) = Some (CreateReceptionData.quantity (reception_insert_payload f)) \<and>
            \<not> quantity_invalid (CreateReceptionData.quantity (reception_insert_payload f)))"
proof -
  have q: "quantity_input_ok (rf_quantity f)" using assms by (simp add: reception_form_valid_def)
  have pi: "CreateReceptionData.quantity (reception_insert_payload f) =
           (if takeWhile js_digit (rf_quantity f) = [] then JNaN
            else JNum (real (digits_value 10 (takeWhile js_digit (rf_quantity f)))))"
    using quantity_input_ok_parseInt[OF q] by (simp add: reception_insert_payload_def)
  moreover have "map_option JNum (html_float (rf_quantity f)) = Some (CreateReceptionData.quantity (reception_insert_payload f)) \<and>
            \<not> quantity_invalid (CreateReceptionData.quantity (reception_insert_payload f))"
    if d: "list_all js_digit (rf_quantity f)"
  proof -
    have ne: "rf_quantity f \<noteq> []" using q by (auto simp: quantity_input_ok_def html_float_def frac_part_def Let_def)
    have tw: "takeWhile js_digit (rf_quantity f) = rf_quantity f" using d by (simp add: list_all_iff)
    have hf: "html_float (rf_quantity f) = Some (real (digits_value 10 (rf_quantity f)))"
      using html_float_digits[OF d ne] .
    then have "1 \<le> real (digits_value 10 (rf_quantity f))" using q by (simp add: quantity_input_ok_def)
    then show ?thesis using pi tw ne hf by (simp add: quantity_invalid_def)
  qed
  ultimately show ?thesis by blast
qed

theorem add_reception_quantity_payload_witness:
  "CreateReceptionData.quantity (reception_insert_payload
      \<lparr>rf_reception_date = ''2024-05-01T10:30'', rf_product_id = ''p1'', rf_supplier_id = ''s1'', rf_invoice_number = ''F-1'', rf_quantity = ''1e3'', rf_batch_number = [], rf_invima_registration = [], rf_expiration_date = [], rf_presentation_state = ''bueno'', rf_notes = []\<rparr>) = JNum 1 \<and>
   html_float ''1e3'' = Some 1000"
proof -
  have h: "html_float ''1e3'' = Some 1000"
    by (simp add: html_float_def frac_part_def exp_part_def strip_sign_def js_digit_def digits_value_def
        radix_digit_def)
  have "reception_form_valid
      \<lparr>rf_reception_date = ''2024-05-01T10:30'', rf_product_id = ''p1'', rf_supplier_id = ''s1'', rf_invoice_number = ''F-1'', rf_quantity = ''1e3'', rf_batch_number = [], rf_invima_registration = [], rf_expiration_date = [], rf_presentation_state = ''bueno'', rf_notes = []\<rparr>"
    by (simp add: reception_form_valid_def quantity_input_ok_def h)
  from add_reception_quantity_payload[OF this] h show ?thesis
    by (simp add: js_digit_def digits_value_def radix_digit_def)
qed

end
