(* ===== verification/ProductDialog.thy ===== *)
theory ProductDialog
  imports Store
begin

text \<open>
  The product dialogs \<open>src/components/products/add-product-dialog.tsx\<close> and
  \<open>edit-product-dialog.tsx\<close>, and the three delete dialogs
  (\<open>delete-product-dialog.tsx\<close>, \<open>delete-supplier-dialog.tsx\<close>,
  \<open>delete-reception-dialog.tsx\<close>).  The product form holds four strings (and
  the status, in the edit dialog).  The add dialog inserts the form as it is:
  an empty description is stored as \<open>""\<close>, not \<open>null\<close>.  The edit dialog
  fills its form from the product, turning an absent description or
  laboratory into \<open>""\<close>, and writes every field back.  A delete dialog runs
  the same query as the service's \<open>delete\<close>; it closes only when the query
  succeeds.  The events of each dialog are a datatype and the dialog a
  step function (\<open>add_product_step\<close>, \<open>edit_product_step\<close>,
  \<open>delete_dialog_step\<close>).  The edit dialog reads the product once, so a
  cancelled edit is still in the form when the dialog is reopened.  No
  dialog calls a validator.  The store's reply to an insert or
  update is a \<open>db_error\<close>.  A delete runs against the store model of theory
  \<open>Store\<close>.
\<close>

section \<open>The add dialog\<close>

record ProductFormData =
  pf_code :: string
  pf_name :: string
  pf_description :: string
  pf_laboratory :: string

record ProductDialogState =
  pd_open :: bool
  pd_loading :: bool
  pd_form :: ProductFormData

definition empty_product_form :: ProductFormData where
  "empty_product_form = \<lparr>pf_code = [], pf_name = [], pf_description = [], pf_laboratory = []\<rparr>"

definition add_product_init :: ProductDialogState where
  "add_product_init = \<lparr>pd_open = False, pd_loading = False, pd_form = empty_product_form\<rparr>"

text \<open>\<open>insert([formData])\<close>, read as the validator's input record.\<close>

definition product_insert_payload :: "ProductFormData \<Rightarrow> CreateProductData" where
  "product_insert_payload f =
     \<lparr>CreateProductData.code = pf_code f, CreateProductData.name = pf_name f,
      CreateProductData.description = Some (pf_description f),
      CreateProductData.laboratory = Some (pf_laboratory f)\<rparr>"

fun add_product_handleSubmit :: "db_error \<Rightarrow> ProductDialogState \<Rightarrow> ProductDialogState" where
  "add_product_handleSubmit None s = s\<lparr>pd_open := False, pd_form := empty_product_form, pd_loading := False\<rparr>"
| "add_product_handleSubmit (Some err) s = s\<lparr>pd_loading := False\<rparr>"

text \<open>The browser's constraint validation of both product forms: the code and
  name inputs are \<open>required\<close>; a submit that fails it never reaches
  \<open>handleSubmit\<close>.\<close>

definition product_form_valid :: "ProductFormData \<Rightarrow> bool" where
  "product_form_valid f \<longleftrightarrow> pf_code f \<noteq> [] \<and> pf_name f \<noteq> []"

datatype product_field = PCode | PName | PDescription | PLaboratory

fun set_product_field :: "product_field \<Rightarrow> string \<Rightarrow> ProductFormData \<Rightarrow> ProductFormData" where
  "set_product_field PCode v f = f\<lparr>pf_code := v\<rparr>"
| "set_product_field PName v f = f\<lparr>pf_name := v\<rparr>"
| "set_product_field PDescription v f = f\<lparr>pf_description := v\<rparr>"
| "set_product_field PLaboratory v f = f\<lparr>pf_laboratory := v\<rparr>"

datatype product_dialog_event = PSetOpen bool | PEdit product_field string | PSubmit db_error

fun add_product_step :: "ProductDialogState \<Rightarrow> product_dialog_event \<Rightarrow> ProductDialogState" where
  "add_product_step s (PSetOpen b) = s\<lparr>pd_open := b\<rparr>"
| "add_product_step s (PEdit fld v) = s\<lparr>pd_form := set_product_field fld v (pd_form s)\<rparr>"
| "add_product_step s (PSubmit r) =
     (if product_form_valid (pd_form s) then add_product_handleSubmit r s else s)"

section \<open>The edit dialog\<close>

text \<open>\<open>{code: product.code, name: product.name, description:
  product.description || "", laboratory: product.laboratory || "", status:
  product.status}\<close>\<close>

definition edit_product_form :: "Product \<Rightarrow> ProductFormData \<times> status" where
  "edit_product_form p =
     (\<lparr>pf_code = Product.code p, pf_name = Product.name p,
       pf_description = (case Product.description p of None \<Rightarrow> [] | Some d \<Rightarrow> d),
       pf_laboratory = (case Product.laboratory p of None \<Rightarrow> [] | Some l \<Rightarrow> l)\<rparr>,
      Product.status p)"

text \<open>The row after \<open>update({...formData, updated_at: new
  Date().toISOString()}).eq("id", product.id)\<close>.\<close>

definition edit_product_row :: "ProductFormData \<times> status \<Rightarrow> time \<Rightarrow> Product \<Rightarrow> Product" where
  "edit_product_row fs now p =
     p\<lparr>Product.code := pf_code (fst fs), Product.name := pf_name (fst fs),
       Product.description := Some (pf_description (fst fs)),
       Product.laboratory := Some (pf_laboratory (fst fs)),
       Product.status := snd fs, Product.updated_at := now\<rparr>"

fun edit_product_handleSubmit ::
  "db_error \<Rightarrow> 'a ProductDialogState_scheme \<Rightarrow> 'a ProductDialogState_scheme" where
  "edit_product_handleSubmit None s = s\<lparr>pd_open := False, pd_loading := False\<rparr>"
| "edit_product_handleSubmit (Some err) s = s\<lparr>pd_loading := False\<rparr>"

text \<open>The edit dialog's state: the add dialog's, with the status of its form.
  \<open>useState\<close> reads the product once, when the dialog is mounted.\<close>

record EditProductDialogState = ProductDialogState +
  pd_status :: status

definition edit_product_init :: "Product \<Rightarrow> EditProductDialogState" where
  "edit_product_init p =
     \<lparr>pd_open = False, pd_loading = False, pd_form = fst (edit_product_form p),
      pd_status = snd (edit_product_form p)\<rparr>"

datatype edit_product_event =
    EPSetOpen bool | EPEdit product_field string | EPSelectStatus status | EPSubmit db_error

text \<open>\<open>onOpenChange\<close> and the Cancel button set \<open>open\<close>; the inputs and the
  status \<open>Select\<close> update the form; the submit runs \<open>handleSubmit\<close> with the
  store's reply.  Nothing resets the form.\<close>

fun edit_product_step :: "EditProductDialogState \<Rightarrow> edit_product_event \<Rightarrow> EditProductDialogState" where
  "edit_product_step s (EPSetOpen b) = s\<lparr>pd_open := b\<rparr>"
| "edit_product_step s (EPEdit fld v) = s\<lparr>pd_form := set_product_field fld v (pd_form s)\<rparr>"
| "edit_product_step s (EPSelectStatus st) = s\<lparr>pd_status := st\<rparr>"
| "edit_product_step s (EPSubmit r) =
     (if product_form_valid (pd_form s) then edit_product_handleSubmit r s else s)"

section \<open>The delete dialogs\<close>

record DeleteDialogState =
  dd_open :: bool
  dd_loading :: bool

text \<open>After \<open>await supabase.from(t).delete().eq("id", row.id)\<close>: close on
  success, else only clear \<open>loading\<close> (the error goes to the console).\<close>

fun delete_dialog_finish :: "thrown option \<Rightarrow> DeleteDialogState \<Rightarrow> DeleteDialogState" where
  "delete_dialog_finish None d = d\<lparr>dd_open := False, dd_loading := False\<rparr>"
| "delete_dialog_finish (Some e) d = d\<lparr>dd_loading := False\<rparr>"

definition deleteProduct_handleDelete ::
  "fault \<Rightarrow> Product \<Rightarrow> db \<times> DeleteDialogState \<Rightarrow> db \<times> DeleteDialogState" where
  "deleteProduct_handleDelete f p sd =
     (case products_delete f (Product.id p) (fst sd) of (res, s') \<Rightarrow> (s', delete_dialog_finish res (snd sd)))"

definition deleteSupplier_handleDelete ::
  "fault \<Rightarrow> Supplier \<Rightarrow> db \<times> DeleteDialogState \<Rightarrow> db \<times> DeleteDialogState" where
  "deleteSupplier_handleDelete f sp sd =
     (case suppliers_delete f (Supplier.id sp) (fst sd) of (res, s') \<Rightarrow> (s', delete_dialog_finish res (snd sd)))"

definition deleteReception_handleDelete ::
  "fault \<Rightarrow> ProductReception \<Rightarrow> db \<times> DeleteDialogState \<Rightarrow> db \<times> DeleteDialogState" where
  "deleteReception_handleDelete f r sd =
     (case receptions_delete f (ProductReception.id r) (fst sd) of
        (res, s') \<Rightarrow> (s', delete_dialog_finish res (snd sd)))"

text \<open>The delete dialog's events: \<open>onOpenChange\<close> and Cancel set \<open>open\<close>;
  the Eliminar button, \<open>disabled={loading}\<close>, runs \<open>handleDelete\<close> with
  the store's reply.\<close>

datatype delete_dialog_event = DSetOpen bool | DConfirm fault

fun delete_dialog_step ::
  "(fault \<Rightarrow> db \<times> DeleteDialogState \<Rightarrow> db \<times> DeleteDialogState) \<Rightarrow>
   db \<times> DeleteDialogState \<Rightarrow> delete_dialog_event \<Rightarrow> db \<times> DeleteDialogState" where
  "delete_dialog_step h sd (DSetOpen b) = (fst sd, (snd sd)\<lparr>dd_open := b\<rparr>)"
| "delete_dialog_step h sd (DConfirm f) = (if dd_loading (snd sd) then sd else h f sd)"

definition deleteProduct_step ::
  "Product \<Rightarrow> db \<times> DeleteDialogState \<Rightarrow> delete_dialog_event \<Rightarrow> db \<times> DeleteDialogState" where
  "deleteProduct_step p = delete_dialog_step (\<lambda>f. deleteProduct_handleDelete f p)"

definition deleteSupplier_step ::
  "Supplier \<Rightarrow> db \<times> DeleteDialogState \<Rightarrow> delete_dialog_event \<Rightarrow> db \<times> DeleteDialogState" where
  "deleteSupplier_step sp = delete_dialog_step (\<lambda>f. deleteSupplier_handleDelete f sp)"

definition deleteReception_step ::
  "ProductReception \<Rightarrow> db \<times> DeleteDialogState \<Rightarrow> delete_dialog_event \<Rightarrow> db \<times> DeleteDialogState" where
  "deleteReception_step r = delete_dialog_step (\<lambda>f. deleteReception_handleDelete f r)"


section \<open>Properties\<close>

text \<open>Cancelling the edit dialog keeps the edits: after a field is changed
  and the dialog is closed without saving, reopening it shows the changed
  value, not the product's.\<close>

lemma edit_product_cancel_keeps_edits:
  "pd_form (run edit_product_step (edit_product_init p)
     [EPSetOpen True, EPEdit PName v, EPSetOpen False, EPSetOpen True]) =
   (pd_form (edit_product_init p))\<lparr>pf_name := v\<rparr>"
  by simp

text \<open>C33 (saving an unchanged product): opening the edit dialog on a product
  and saving it without edits changes nothing but \<open>updated_at\<close> exactly when
  the product has a description and a laboratory.  An absent one is written
  back as the empty string.\<close>

theorem edit_product_save_unchanged:
  "edit_product_row (edit_product_form p) t p = p\<lparr>Product.updated_at := t\<rparr> \<longleftrightarrow>
     Product.description p \<noteq> None \<and> Product.laboratory p \<noteq> None"
  by (cases "Product.description p"; cases "Product.laboratory p")
     (auto simp: edit_product_row_def edit_product_form_def Product.ext_inject Product.update_convs
       dest: arg_cong[where f=Product.description] arg_cong[where f=Product.laboratory])

end
