(* ===== verification/ListCards.thy ===== *)
theory ListCards
  imports Lists SupplierDialog
begin

text \<open>
  What the three list components render for each row, and their filter
  state.  A card is a record of what it shows: a text under
  \<open>{x && <span>{x}</span>}\<close> is shown only when it is truthy (\<open>truthy_text\<close>),
  and \<open>reception.product?.name\<close> is absent when the join found nothing.
  \<open>Date.prototype.toLocaleDateString\<close> is a parameter (\<open>fmt\<close>), applied to
  the stored value.  The badge of a reception is coloured by the
  \<open>switch\<close> of \<open>getStateColor\<close> and labelled with its state, first letter
  upper-cased.  The activities of a supplier are read from the raw column by
  the inline parser of \<open>suppliers-list.tsx\<close>, with \<open>JSON.parse\<close> a parameter
  that returns the parsed value or throws (\<open>None\<close>).  That parser differs
  from \<open>parseEconomicActivity\<close> of the edit dialog: a JSON text that is not
  an array is shown as nothing, or makes \<open>activities.map\<close> throw.
\<close>

section \<open>Filter state\<close>

record list_filters =
  searchTerm :: string
  statusFilter :: string

definition list_filters_init :: list_filters where
  "list_filters_init = \<lparr>searchTerm = [], statusFilter = ''all''\<rparr>"

datatype list_event = SetSearchTerm string | SetStatusFilter string

fun list_step :: "list_filters \<Rightarrow> list_event \<Rightarrow> list_filters" where
  "list_step f (SetSearchTerm t) = f\<lparr>searchTerm := t\<rparr>"
| "list_step f (SetStatusFilter v) = f\<lparr>statusFilter := v\<rparr>"

section \<open>Rendering helpers\<close>

definition truthy_text :: "string option \<Rightarrow> string option" where
  "truthy_text x = (if js_truthy_opt x then x else None)"

text \<open>\<open>String.prototype.toUpperCase\<close> of one code unit, with the full case
  mapping: a..z and U+00E0..U+00FE except U+00F7 map 32 below, and U+00DF
  (sharp s) maps to \<open>"SS"\<close>.  U+00B5 and U+00FF upper-case to code points
  above U+00FF, which \<open>char\<close> does not hold; they are left unchanged.\<close>

definition js_upper1 :: "char \<Rightarrow> string" where
  "js_upper1 c =
     (let n = (of_char c :: nat) in
      if (97 \<le> n \<and> n \<le> 122) \<or> (224 \<le> n \<and> n \<le> 254 \<and> n \<noteq> 247) then [char_of (n - 32)]
      else if n = 223 then ''SS'' else [c])"

text \<open>\<open>s.charAt(0).toUpperCase() + s.slice(1)\<close>\<close>

fun capitalize :: "string \<Rightarrow> string" where
  "capitalize [] = []"
| "capitalize (c # cs) = js_upper1 c @ cs"

datatype badge_variant = BadgeDefault | BadgeSecondary | BadgeOutline

definition status_badge :: "status \<Rightarrow> badge_variant \<times> string" where
  "status_badge st =
     (if status_str st = ''active'' then (BadgeDefault, ''Activo'') else (BadgeSecondary, ''Inactivo''))"

section \<open>Product cards\<close>

record ProductCard =
  pcard_key :: string
  pcard_title :: string
  pcard_badge :: "badge_variant \<times> string"
  pcard_code :: string
  pcard_laboratory :: "string option"
  pcard_description :: "string option"
  pcard_registered :: string

definition product_card :: "(time \<Rightarrow> string) \<Rightarrow> Product \<Rightarrow> ProductCard" where
  "product_card fmt p =
     \<lparr>pcard_key = Product.id p, pcard_title = Product.name p,
      pcard_badge = status_badge (Product.status p), pcard_code = Product.code p,
      pcard_laboratory = truthy_text (Product.laboratory p),
      pcard_description = truthy_text (Product.description p),
      pcard_registered = fmt (Product.created_at p)\<rparr>"

definition products_list_view ::
  "(time \<Rightarrow> string) \<Rightarrow> list_filters \<Rightarrow> Product list \<Rightarrow> ProductCard list \<times> list_notice" where
  "products_list_view fmt f ps =
     (let shown = filteredProducts (searchTerm f) (statusFilter f) ps
      in (map (product_card fmt) shown, list_notice (searchTerm f) (statusFilter f) shown))"

section \<open>Supplier cards\<close>

text \<open>A value \<open>JSON.parse\<close> can return, as far as the parser looks at it: an
  array of strings, a string, \<open>null\<close>, an object whose \<open>length\<close> is a number
  greater than 0, or another value (a number, a boolean, an object without
  such a \<open>length\<close>), for which \<open>activities.length > 0\<close> is false.\<close>

datatype json_value = JArr "string list" | JStr string | JNull | JLengthObject | JOther

text \<open>The same parse seen by \<open>parseEconomicActivity\<close> of the edit dialog,
  which only asks whether the value is an array.\<close>

fun json_kind :: "json_value option \<Rightarrow> json_parse_result" where
  "json_kind None = JsonSyntaxError"
| "json_kind (Some (JArr xs)) = JsonArray xs"
| "json_kind (Some _) = JsonNotArray"

datatype activity_view = NoActivities | ActivityBadges "string list" | ActivitiesTypeError

text \<open>\<open>supplier.economic_activity && (() => {...})()\<close>: an array (always
  truthy) is taken as it is, a string is parsed, falling back to \<open>[s]\<close> when
  \<open>JSON.parse\<close> throws.  Badges are shown when \<open>activities.length > 0\<close>.  A
  parsed string, or an object with a positive \<open>length\<close>, has no \<open>.map\<close>;
  \<open>null\<close> has no \<open>length\<close>: each throws a \<open>TypeError\<close> during rendering.\<close>

fun supplier_activities :: "(string \<Rightarrow> json_value option) \<Rightarrow> raw_activity \<Rightarrow> activity_view" where
  "supplier_activities jv (RawArray xs) = (if xs = [] then NoActivities else ActivityBadges xs)"
| "supplier_activities jv (RawString a) =
     (if a = [] then NoActivities
      else case jv a of
        None \<Rightarrow> ActivityBadges [a]
      | Some (JArr xs) \<Rightarrow> (if xs = [] then NoActivities else ActivityBadges xs)
      | Some (JStr t) \<Rightarrow> (if t = [] then NoActivities else ActivitiesTypeError)
      | Some JNull \<Rightarrow> ActivitiesTypeError
      | Some JLengthObject \<Rightarrow> ActivitiesTypeError
      | Some JOther \<Rightarrow> NoActivities)"
| "supplier_activities jv RawOther = NoActivities"

fun id_type_str :: "id_type \<Rightarrow> string" where
  "id_type_str CC = ''CC''"
| "id_type_str NIT = ''NIT''"
| "id_type_str CE = ''CE''"
| "id_type_str PP = ''PP''"

record SupplierCard =
  scard_key :: string
  scard_title :: string
  scard_badge :: "badge_variant \<times> string"
  scard_id_label :: string
  scard_id_number :: string
  scard_contact :: "string option"
  scard_phone :: "string option"
  scard_email :: "string option"
  scard_activities :: activity_view

definition supplier_card ::
  "(string \<Rightarrow> json_value option) \<Rightarrow> raw_activity \<Rightarrow> Supplier \<Rightarrow> SupplierCard" where
  "supplier_card jv raw sp =
     \<lparr>scard_key = Supplier.id sp, scard_title = Supplier.name sp,
      scard_badge = status_badge (Supplier.status sp),
      scard_id_label = id_type_str (Supplier.id_type sp) @ '':'',
      scard_id_number = Supplier.id_number sp,
      scard_contact = truthy_text (Supplier.contact_person sp),
      scard_phone = truthy_text (Supplier.phone sp),
      scard_email = truthy_text (Supplier.email sp),
      scard_activities = supplier_activities jv raw\<rparr>"

section \<open>Reception cards\<close>

definition getStateColor :: "string \<Rightarrow> string" where
  "getStateColor st =
     (if st = ''bueno'' then ''bg-green-100 text-green-800 border-green-200''
      else if st = ''regular'' then ''bg-yellow-100 text-yellow-800 border-yellow-200''
      else if st = ''malo'' then ''bg-red-100 text-red-800 border-red-200''
      else ''bg-gray-100 text-gray-800 border-gray-200'')"

text \<open>Whether \<open>getStateIcon\<close> returns the alert icon rather than \<open>null\<close>.\<close>

definition getStateIcon :: "string \<Rightarrow> bool" where
  "getStateIcon st \<longleftrightarrow> st = ''malo''"

text \<open>The state options of the reception dialogs' \<open>Select\<close> (value, label).\<close>

definition presentation_items :: "(string \<times> string) list" where
  "presentation_items = [(''bueno'', ''Bueno''), (''regular'', ''Regular''), (''malo'', ''Malo'')]"

record ReceptionCard =
  rcard_key :: string
  rcard_title :: "string option"
  rcard_color :: string
  rcard_alert :: bool
  rcard_label :: string
  rcard_supplier :: "string option"
  rcard_invoice :: string
  rcard_quantity :: js_number
  rcard_batch :: "string option"
  rcard_invima :: "string option"
  rcard_expiration :: "string option"
  rcard_received :: string

definition reception_card ::
  "(string \<Rightarrow> string) \<Rightarrow> (string \<Rightarrow> string) \<Rightarrow> ProductReception \<Rightarrow> ReceptionCard" where
  "reception_card fmt_date fmt_datetime r =
     (let st = presentation_str (ProductReception.presentation_state r) in
      \<lparr>rcard_key = ProductReception.id r,
       rcard_title = map_option Product.name (product r),
       rcard_color = getStateColor st, rcard_alert = getStateIcon st, rcard_label = capitalize st,
       rcard_supplier = map_option Supplier.name (supplier r),
       rcard_invoice = ProductReception.invoice_number r,
       rcard_quantity = ProductReception.quantity r,
       rcard_batch = truthy_text (ProductReception.batch_number r),
       rcard_invima = truthy_text (ProductReception.invima_registration r),
       rcard_expiration = map_option fmt_date (truthy_text (ProductReception.expiration_date r)),
       rcard_received = fmt_datetime (ProductReception.reception_date r)\<rparr>)"

section \<open>Lemmas\<close>

text \<open>C15 (the badge of a stored reception): for every reception, the card's
  badge takes one of the three state colours, never the grey of the
  \<open>default\<close> branch; it shows the alert icon exactly for \<open>malo\<close>; and its
  label is the label of the same state in the dialogs' \<open>Select\<close>.\<close>

theorem reception_card_badge_typed:
  "rcard_color (reception_card fd fdt r) \<noteq> ''bg-gray-100 text-gray-800 border-gray-200'' \<and>
   (rcard_alert (reception_card fd fdt r) \<longleftrightarrow> ProductReception.presentation_state r = Malo) \<and>
   map_of presentation_items (presentation_str (ProductReception.presentation_state r)) =
     Some (rcard_label (reception_card fd fdt r))"
  by (cases "ProductReception.presentation_state r")
     (simp_all add: reception_card_def getStateColor_def getStateIcon_def presentation_items_def
       js_upper1_def char_of_def bit_0)

text \<open>C34 (the list and the edit dialog read the activities alike): when the
  column is an array, or a text that \<open>JSON.parse\<close> rejects or reads as
  an array (a non-empty text, since \<open>JSON.parse("")\<close> throws), the supplier card shows as badges exactly the codes the edit
  dialog loads into its form.\<close>

theorem supplier_activities_agree:
  assumes "\<forall>a. raw = RawString a \<longrightarrow> jv a = None \<or> (a \<noteq> [] \<and> (\<exists>xs. jv a = Some (JArr xs)))"
  shows "supplier_activities jv raw =
           (case parseEconomicActivity (json_kind \<circ> jv) raw of
              [] \<Rightarrow> NoActivities | xs \<Rightarrow> ActivityBadges xs)"
  using assms by (cases raw) (auto simp: js_truthy_str_def split: option.splits list.splits)

theorem supplier_activities_agree_witness:
  "supplier_activities (\<lambda>a. if a = ''[\"4645\"]'' then Some (JArr [''4645'']) else None)
     (RawString ''[\"4645\"]'') =
   (case parseEconomicActivity (json_kind \<circ> (\<lambda>a. if a = ''[\"4645\"]'' then Some (JArr [''4645'']) else None))
      (RawString ''[\"4645\"]'') of [] \<Rightarrow> NoActivities | xs \<Rightarrow> ActivityBadges xs)"
  by (rule supplier_activities_agree) simp

text \<open>C17 (a JSON string in the activity column breaks the list): when the
  column holds the JSON text of a non-empty string, the edit dialog loads
  the text itself as one code, but rendering the supplier card throws a
  \<open>TypeError\<close>, because the parsed string has a length and no \<open>map\<close>.\<close>

theorem supplier_activities_json_string_throws:
  assumes "a \<noteq> []" and "jv a = Some (JStr t)" and "t \<noteq> []"
  shows "scard_activities (supplier_card jv (RawString a) sp) = ActivitiesTypeError \<and>
         parseEconomicActivity (json_kind \<circ> jv) (RawString a) = [a]"
  using assms by (simp add: supplier_card_def)

theorem supplier_activities_json_string_throws_witness:
  "scard_activities (supplier_card (\<lambda>a. Some (JStr ''4645'')) (RawString ''\"4645\"'')
     \<lparr>Supplier.id = ''s1'', id_type = NIT, id_number = ''900123456-7'', name = ''Drogas SA'',
      address = None, phone = None, email = None, contact_person = None,
      economic_activity = None, status = Active, created_at = 0, updated_at = 0\<rparr>) =
     ActivitiesTypeError \<and>
   parseEconomicActivity (json_kind \<circ> (\<lambda>a. Some (JStr ''4645''))) (RawString ''\"4645\"'') = [''\"4645\"'']"
  using supplier_activities_json_string_throws[of "''\"4645\"''" "\<lambda>a. Some (JStr ''4645'')" "''4645''"]
  by simp

end
