(* ===== verification/Pages.thy ===== *)
theory Pages
  imports ListCards ReceptionDialog Store
begin

text \<open>
  The routes of \<open>src/app\<close> and the navigation between them.  Each page
  under \<open>app/suppliers\<close>, \<open>app/products\<close> and \<open>app/receptions\<close> is an
  \<open>async\<close> server component: it awaits the server services in order and
  hands their lists to the list component and the add dialog.  A service
  that throws makes the page throw (\<open>Inl\<close>), and the later services are not
  called.  The server services (\<open>ProductsServerService\<close> etc.) run the same
  queries as the client services of theory \<open>Store\<close>.  The navigation bar
  \<open>main-nav.tsx\<close> is the table \<open>navigation\<close>, an item being highlighted when
  the path name equals its \<open>href\<close>; the home page \<open>app/page.tsx\<close> holds three
  cards that link to the entity pages.
\<close>

section \<open>Server services\<close>

definition productsServer_getAll :: "fault \<Rightarrow> db \<Rightarrow> thrown + Product list" where
  "productsServer_getAll f s =
     (case f of Some e \<Rightarrow> Inl e | None \<Rightarrow> Inr (order_desc Product.created_at (db_products s)))"

definition productsServer_getActive :: "fault \<Rightarrow> db \<Rightarrow> thrown + Product list" where
  "productsServer_getActive f s =
     (case f of Some e \<Rightarrow> Inl e
      | None \<Rightarrow> Inr (sort_key Product.name (filter (\<lambda>p. Product.status p = Active) (db_products s))))"

definition suppliersServer_getAll :: "fault \<Rightarrow> db \<Rightarrow> thrown + Supplier list" where
  "suppliersServer_getAll f s =
     (case f of Some e \<Rightarrow> Inl e | None \<Rightarrow> Inr (order_desc Supplier.created_at (db_suppliers s)))"

definition receptionsServer_getAll :: "fault \<Rightarrow> db \<Rightarrow> thrown + ProductReception list" where
  "receptionsServer_getAll f s =
     (case f of Some e \<Rightarrow> Inl e
      | None \<Rightarrow> Inr (order_desc ProductReception.reception_date (map (embed s) (db_receptions s))))"

section \<open>Pages\<close>

text \<open>What \<open>ProductsPage\<close> and \<open>SuppliersPage\<close> pass to their list: the
  awaited \<open>getAll\<close> (\<open>products || []\<close> keeps it, since the service returns
  \<open>data || []\<close>).\<close>

definition ProductsPage :: "fault \<Rightarrow> db \<Rightarrow> thrown + Product list" where
  "ProductsPage f s = productsServer_getAll f s"

definition SuppliersPage :: "fault \<Rightarrow> db \<Rightarrow> thrown + Supplier list" where
  "SuppliersPage f s = suppliersServer_getAll f s"

text \<open>\<open>ReceptionsPage\<close> awaits three services in order, each with its own
  reply, and passes the receptions, the active products and the suppliers to
  \<open>ReceptionsList\<close> (and the last two to \<open>AddReceptionDialog\<close>).\<close>

definition ReceptionsPage ::
  "fault \<Rightarrow> fault \<Rightarrow> fault \<Rightarrow> db \<Rightarrow> thrown + ProductReception list \<times> Product list \<times> Supplier list" where
  "ReceptionsPage f1 f2 f3 s =
     (case receptionsServer_getAll f1 s of Inl e \<Rightarrow> Inl e
      | Inr rs \<Rightarrow> (case productsServer_getActive f2 s of Inl e \<Rightarrow> Inl e
        | Inr ps \<Rightarrow> (case suppliersServer_getAll f3 s of Inl e \<Rightarrow> Inl e
          | Inr sps \<Rightarrow> Inr (rs, ps, sps))))"

text \<open>The product options of the reception dialogs' \<open>Select\<close>: value and
  label \<open>{product.name} ({product.code})\<close>.\<close>

definition product_options :: "Product list \<Rightarrow> (string \<times> string) list" where
  "product_options ps = map (\<lambda>p. (Product.id p, Product.name p @ '' ('' @ Product.code p @ '')'')) ps"

definition supplier_options :: "Supplier list \<Rightarrow> (string \<times> string) list" where
  "supplier_options sps = map (\<lambda>sp. (Supplier.id sp, Supplier.name sp)) sps"

section \<open>Navigation\<close>

record nav_item =
  nav_name :: string
  nav_href :: string

definition navigation :: "nav_item list" where
  "navigation =
     [\<lparr>nav_name = ''Inicio'', nav_href = ''/''\<rparr>,
      \<lparr>nav_name = ''Proveedores'', nav_href = ''/suppliers''\<rparr>,
      \<lparr>nav_name = ''Productos'', nav_href = ''/products''\<rparr>,
      \<lparr>nav_name = ''Recepciones'', nav_href = ''/receptions''\<rparr>]"

text \<open>\<open>const isActive = pathname === item.href\<close>; the items are keyed by
  \<open>item.name\<close>.\<close>

definition nav_isActive :: "string \<Rightarrow> nav_item \<Rightarrow> bool" where
  "nav_isActive pathname item \<longleftrightarrow> pathname = nav_href item"

definition MainNav :: "string \<Rightarrow> (string \<times> string \<times> bool) list" where
  "MainNav pathname = map (\<lambda>i. (nav_name i, nav_href i, nav_isActive pathname i)) navigation"

record home_card =
  hc_title :: string
  hc_href :: string
  hc_button :: string

definition HomePage :: "home_card list" where
  "HomePage =
     [\<lparr>hc_title = ''Gesti'' @ [CHR 0xF3] @ ''n de Proveedores'', hc_href = ''/suppliers'', hc_button = ''Gestionar Proveedores''\<rparr>,
      \<lparr>hc_title = ''Cat'' @ [CHR 0xE1] @ ''logo de Productos'', hc_href = ''/products'', hc_button = ''Gestionar Productos''\<rparr>,
      \<lparr>hc_title = ''Recepci'' @ [CHR 0xF3] @ ''n de Productos'', hc_href = ''/receptions'', hc_button = ''Gestionar Recepciones''\<rparr>]"

section \<open>Lemmas\<close>

lemma ReceptionsPage_Inr:
  "ReceptionsPage f1 f2 f3 s = Inr (rs, ps, sps) \<longleftrightarrow>
     receptionsServer_getAll f1 s = Inr rs \<and> productsServer_getActive f2 s = Inr ps \<and>
     suppliersServer_getAll f3 s = Inr sps"
  by (simp add: ReceptionsPage_def split: sum.splits)

lemma distinct_map_eq_key:
  "distinct (map k xs) \<Longrightarrow> x \<in> set xs \<Longrightarrow> y \<in> set xs \<Longrightarrow> k x = k y \<Longrightarrow> x = y"
  by (metis distinct_map inj_on_contraD)

text \<open>C16 (the reception page hides an inactive product from the edit
  dialog): on a store with unique keys, when a reception's product is
  inactive, its card shows that product, but the product options handed to
  its edit dialog hold no option with the reception's \<open>product_id\<close>: the
  dialog's \<open>Select\<close> opens with no product shown.\<close>

theorem ReceptionsPage_hides_inactive_product:
  assumes "db_ok s" and "ReceptionsPage None None None s = Inr (rs, ps, sps)" and "r \<in> set rs"
    and "p \<in> set (db_products s)" and "Product.id p = ProductReception.product_id r"
    and "Product.status p = Inactive"
  shows "product r = Some p \<and> ProductReception.product_id r \<notin> fst ` set (product_options ps)"
proof -
  have d: "distinct (map Product.id (db_products s))"
    using assms(1) by (simp add: db_ok_def)
  obtain r0 where r0: "r0 \<in> set (db_receptions s)" "r = embed s r0"
    using assms(2,3) by (auto simp: ReceptionsPage_Inr receptionsServer_getAll_def)
  have "find (\<lambda>q. Product.id q = ProductReception.product_id r0) (db_products s) = Some p"
  proof -
    obtain q where "find (\<lambda>q. Product.id q = ProductReception.product_id r0) (db_products s) = Some q"
        "q \<in> set (db_products s)" "Product.id q = ProductReception.product_id r0"
      using find_Some_of_mem[OF assms(4), of "\<lambda>q. Product.id q = ProductReception.product_id r0"]
        assms(5) r0(2) by (auto simp: embed_def)
    then show ?thesis
      using distinct_map_eq_key[OF d assms(4)] assms(5) r0(2) by (auto simp: embed_def)
  qed
  moreover have "ProductReception.product_id r \<notin> fst ` set (product_options ps)"
  proof
    assume "ProductReception.product_id r \<in> fst ` set (product_options ps)"
    then obtain q where "q \<in> set (db_products s)" "Product.status q = Active"
        "Product.id q = ProductReception.product_id r"
      using assms(2) by (auto simp: ReceptionsPage_Inr productsServer_getActive_def product_options_def)
    then show False
      using distinct_map_eq_key[OF d assms(4)] assms(5,6) by auto
  qed
  ultimately show ?thesis
    using r0(2) by (simp add: embed_def)
qed

theorem ReceptionsPage_hides_inactive_product_witness:
  "product (\<lparr>ProductReception.id = ''r1'', reception_date = ''2024-05-02'', product_id = ''p1'', supplier_id = ''s1'', invoice_number = ''F-1'', quantity = JNum 10, batch_number = None, invima_registration = None, expiration_date = None, presentation_state = Bueno, notes_str = None, created_at = 2, updated_at = 2, product = Some \<lparr>Product.id = ''p1'', code = ''MED001'', name = ''Acetaminofen'', description = None, laboratory = None, status = Inactive, created_at = 0, updated_at = 0\<rparr>, supplier = Some \<lparr>Supplier.id = ''s1'', id_type = NIT, id_number = ''900123456-7'', name = ''Drogas SA'', address = None, phone = None, email = None, contact_person = None, economic_activity = None, status = Active, created_at = 1, updated_at = 1\<rparr>\<rparr>) = Some (\<lparr>Product.id = ''p1'', code = ''MED001'', name = ''Acetaminofen'', description = None, laboratory = None, status = Inactive, created_at = 0, updated_at = 0\<rparr>) \<and>
   ProductReception.product_id (\<lparr>ProductReception.id = ''r1'', reception_date = ''2024-05-02'', product_id = ''p1'', supplier_id = ''s1'', invoice_number = ''F-1'', quantity = JNum 10, batch_number = None, invima_registration = None, expiration_date = None, presentation_state = Bueno, notes_str = None, created_at = 2, updated_at = 2, product = Some \<lparr>Product.id = ''p1'', code = ''MED001'', name = ''Acetaminofen'', description = None, laboratory = None, status = Inactive, created_at = 0, updated_at = 0\<rparr>, supplier = Some \<lparr>Supplier.id = ''s1'', id_type = NIT, id_number = ''900123456-7'', name = ''Drogas SA'', address = None, phone = None, email = None, contact_person = None, economic_activity = None, status = Active, created_at = 1, updated_at = 1\<rparr>\<rparr>) \<notin> fst ` set (product_options [])"
  using ReceptionsPage_hides_inactive_product[of
      "\<lparr>db_products = [\<lparr>Product.id = ''p1'', code = ''MED001'', name = ''Acetaminofen'', description = None, laboratory = None, status = Inactive, created_at = 0, updated_at = 0\<rparr>], db_suppliers = [\<lparr>Supplier.id = ''s1'', id_type = NIT, id_number = ''900123456-7'', name = ''Drogas SA'', address = None, phone = None, email = None, contact_person = None, economic_activity = None, status = Active, created_at = 1, updated_at = 1\<rparr>], db_receptions = [\<lparr>ProductReception.id = ''r1'', reception_date = ''2024-05-02'', product_id = ''p1'', supplier_id = ''s1'', invoice_number = ''F-1'', quantity = JNum 10, batch_number = None, invima_registration = None, expiration_date = None, presentation_state = Bueno, notes_str = None, created_at = 2, updated_at = 2, product = None, supplier = None\<rparr>], db_clock = 3\<rparr>"
      "[\<lparr>ProductReception.id = ''r1'', reception_date = ''2024-05-02'', product_id = ''p1'', supplier_id = ''s1'', invoice_number = ''F-1'', quantity = JNum 10, batch_number = None, invima_registration = None, expiration_date = None, presentation_state = Bueno, notes_str = None, created_at = 2, updated_at = 2, product = Some \<lparr>Product.id = ''p1'', code = ''MED001'', name = ''Acetaminofen'', description = None, laboratory = None, status = Inactive, created_at = 0, updated_at = 0\<rparr>, supplier = Some \<lparr>Supplier.id = ''s1'', id_type = NIT, id_number = ''900123456-7'', name = ''Drogas SA'', address = None, phone = None, email = None, contact_person = None, economic_activity = None, status = Active, created_at = 1, updated_at = 1\<rparr>\<rparr>]" "[]" "[\<lparr>Supplier.id = ''s1'', id_type = NIT, id_number = ''900123456-7'', name = ''Drogas SA'', address = None, phone = None, email = None, contact_person = None, economic_activity = None, status = Active, created_at = 1, updated_at = 1\<rparr>]" "\<lparr>ProductReception.id = ''r1'', reception_date = ''2024-05-02'', product_id = ''p1'', supplier_id = ''s1'', invoice_number = ''F-1'', quantity = JNum 10, batch_number = None, invima_registration = None, expiration_date = None, presentation_state = Bueno, notes_str = None, created_at = 2, updated_at = 2, product = Some \<lparr>Product.id = ''p1'', code = ''MED001'', name = ''Acetaminofen'', description = None, laboratory = None, status = Inactive, created_at = 0, updated_at = 0\<rparr>, supplier = Some \<lparr>Supplier.id = ''s1'', id_type = NIT, id_number = ''900123456-7'', name = ''Drogas SA'', address = None, phone = None, email = None, contact_person = None, economic_activity = None, status = Active, created_at = 1, updated_at = 1\<rparr>\<rparr>" "\<lparr>Product.id = ''p1'', code = ''MED001'', name = ''Acetaminofen'', description = None, laboratory = None, status = Inactive, created_at = 0, updated_at = 0\<rparr>"]
  by (simp add: db_ok_def refs_ok_def ReceptionsPage_def receptionsServer_getAll_def
      productsServer_getActive_def suppliersServer_getAll_def order_desc_def embed_def)

text \<open>C35 (one highlighted item): for every path name, the navigation bar
  highlights exactly one item when the path is the \<open>href\<close> of one of its
  items and none otherwise (\<open>/products/\<close> with a trailing slash, say).\<close>

theorem MainNav_highlights_one:
  "length (filter (\<lambda>(n, h, a). a) (MainNav pathname)) =
     (if pathname \<in> set (map nav_href navigation) then 1 else 0)"
  by (auto simp: MainNav_def navigation_def nav_isActive_def)

end
