(* ===== verification/Spec2Isabelle.thy ===== *)
theory Spec2Isabelle
  imports SupplierDialog HookAsync ReceptionDialog ProductDialog Pages
begin

text \<open>
  Verification development for the pharmaceutical inventory application of
  this repository: suppliers, products and product receptions, kept in a
  Supabase database and edited through React dialogs.

  \<^bold>\<open>Parts of the program and how they interact.\<close>
  \<^item> \<open>src/lib/types.ts\<close>: the row types \<open>Supplier\<close>, \<open>Product\<close>,
    \<open>ProductReception\<close> (theory \<open>Entities\<close>, one record each).
  \<^item> \<open>src/lib/validations/*.validation.ts\<close>: one class per entity with
    \<open>validateCreate\<close> and \<open>validateUpdate\<close>, each returning
    \<open>{isValid, errors}\<close>.  Theories \<open>SupplierValidation\<close>,
    \<open>ProductValidation\<close>, \<open>ReceptionValidation\<close>: the input records
    (\<open>Create*Data\<close>, \<open>Update*Data\<close>), one \<open>definition\<close> per validator
    (\<open>supplier_validateCreate\<close> \<dots> \<open>reception_validateUpdate\<close>), the helpers
    \<open>isValidEmail\<close> and \<open>isValidNIT\<close>.  Every \<open>if (c) errors.push(m)\<close> is
    \<open>err_if c m\<close>, and the list of messages is concatenated in source order.
  \<^item> \<open>src/lib/services/*.service.ts\<close>: one class per table with
    \<open>getAll\<close>, \<open>create\<close>, \<open>update\<close> and \<open>delete\<close> (and \<open>getActive\<close> for
    products), each a single Supabase query.  Theory \<open>Store\<close> models the
    store as the record \<open>db\<close> (three lists of rows and the store's clock).  It
    defines the PostgREST calls the services use (\<open>order_desc\<close>,
    \<open>eq_update\<close>, \<open>eq_delete\<close>, \<open>single\<close>, \<open>insert_row\<close>, \<open>embed\<close>) and
    one definition per service method (\<open>products_create\<close> \<dots>
    \<open>receptions_delete\<close>).  The reply's error is an input (\<open>fault\<close>), and
    \<open>db_apply\<close> runs a sequence of writes.
  \<^item> \<open>src/lib/hooks/use-*.ts\<close>: the three hooks share one shape.  Theory
    \<open>Hooks\<close> models it once over the row type, split at each \<open>await\<close>
    (\<open>hook_begin\<close>, then \<open>load_finish\<close>, \<open>create_finish\<close>,
    \<open>update_finish\<close> or \<open>delete_finish\<close>).  \<open>hook_create\<close> etc. compose the
    two halves around a service call, behind the validation gate.  The
    instances \<open>useProducts_*\<close>, \<open>useSuppliers_*\<close> and
    \<open>useReceptions_*\<close> plug in each file's validator, service and messages.
    The hooks call the validators before the services, but no component uses
    the hooks.  The dialogs
    \<open>src/components/suppliers/add-supplier-dialog.tsx\<close> and
    \<open>edit-supplier-dialog.tsx\<close> write to Supabase directly.  Theory
    \<open>SupplierDialog\<close> models their state (\<open>open\<close>, \<open>loading\<close>,
    \<open>formData\<close>, \<open>newActivityCode\<close>) as the record \<open>SupplierDialog\<close>.  Each
    handler is a function on it: \<open>sanitize_activity_input\<close> for the
    \<open>onChange\<close> of the code input, \<open>addEconomicActivity\<close>,
    \<open>removeEconomicActivity\<close>, \<open>add_supplier_handleSubmit\<close>,
    \<open>edit_supplier_handleSubmit\<close>, and \<open>parseEconomicActivity\<close> of the
    edit dialog.  The UI events are the datatype
    \<open>supplier_dialog_event\<close>, and the dialogs are the step functions
    \<open>add_supplier_step\<close> and \<open>edit_supplier_step\<close>.
  \<^item> \<open>src/components/receptions/add-reception-dialog.tsx\<close> and
    \<open>edit-reception-dialog.tsx\<close> (theory \<open>ReceptionDialog\<close>): the form
    record \<open>ReceptionFormData\<close> (ten strings), the dialog state
    \<open>ReceptionDialogState\<close>, the insert payload \<open>reception_insert_payload\<close>
    (\<open>Number.parseInt\<close> of the quantity, modelled to ECMAScript as
    \<open>js_parseInt\<close>; \<open>expiration_date || null\<close>), the edit dialog's
    initial form \<open>edit_reception_form\<close> and the row its update writes,
    \<open>edit_reception_row\<close>.  \<open>toString\<close> of a number and the ISO
    rendering of a date are parameters of the edit form.  The events are
    \<open>reception_dialog_event\<close>, the dialogs \<open>add_reception_step\<close> and
    \<open>edit_reception_step\<close>.
  \<^item> \<open>src/components/products/add-product-dialog.tsx\<close>,
    \<open>edit-product-dialog.tsx\<close> and the three \<open>delete-*-dialog.tsx\<close>
    (theory \<open>ProductDialog\<close>): the product form, \<open>add_product_step\<close>, the
    edit dialog \<open>edit_product_step\<close> from \<open>edit_product_init\<close> with the row
    it writes, \<open>edit_product_row\<close>, and the delete dialogs
    \<open>deleteProduct_step\<close> etc., whose handlers run the delete query against
    the store of theory \<open>Store\<close>.  None of these dialogs calls a validator.
  \<^item> \<open>src/components/*/\<dots>-list.tsx\<close> (theory \<open>Lists\<close>): the search and
    status filters (\<open>filteredProducts\<close>, \<open>filteredSuppliers\<close>,
    \<open>filteredReceptions\<close>) over \<open>js_toLowerCase\<close> and \<open>js_includes\<close>
    (proved to be \<open>sublist\<close>), and the empty-list notice \<open>list_notice\<close>.
  \<^item> Theory \<open>HookAsync\<close> lets the \<open>useProducts\<close> calls overlap: a call
    starts a pending request, and \<open>Settle n\<close> finishes the n-th one, in any
    order.
    \<open>products_drain\<close> is the event loop delivering the replies in flight,
    written with \<open>while_option\<close> so that a loop that never ended would be
    \<open>None\<close>.
  \<^item> \<open>src/components/*/\<dots>-list.tsx\<close>, rendering (theory \<open>ListCards\<close>): the
    filter state \<open>list_filters\<close> with its events, and one record per card
    (\<open>ProductCard\<close>, \<open>SupplierCard\<close>, \<open>ReceptionCard\<close>) of what the card
    shows, built by \<open>product_card\<close>, \<open>supplier_card\<close> and
    \<open>reception_card\<close>, with \<open>getStateColor\<close>, \<open>getStateIcon\<close> and the
    list's own parser of the activity column, \<open>supplier_activities\<close>.
    \<open>toLocaleDateString\<close> is a parameter, and so is \<open>JSON.parse\<close>
    (\<open>string \<Rightarrow> json_value option\<close>); \<open>json_kind\<close> turns the same parser into
    the one \<open>parseEconomicActivity\<close> of the edit dialog takes, so that both
    read the column through one function.
  \<^item> \<open>src/app\<close> and \<open>main-nav.tsx\<close> (theory \<open>Pages\<close>): the server services
    \<open>productsServer_getAll\<close> etc. (the client services' queries), the pages
    \<open>ProductsPage\<close>, \<open>SuppliersPage\<close> and \<open>ReceptionsPage\<close> as the awaits
    they run in order, the product and supplier options of the reception
    dialogs, the table \<open>navigation\<close> with \<open>MainNav\<close>'s active test, and the
    links of \<open>HomePage\<close>.

  \<^bold>\<open>Semantic conventions (theory \<open>Prelude\<close>).\<close>
  JavaScript truthiness of strings, of optional strings and of numbers.
  Numbers are \<open>js_number\<close>, a real or \<open>NaN\<close>; every comparison with
  \<open>NaN\<close> is false.  A date string is read by a parser that is a parameter
  (\<open>date_parser\<close>), and \<open>None\<close> stands for an Invalid Date, whose
  comparisons are all false.  The instants of \<open>new Date()\<close> are explicit
  arguments.  The reception validator reads the clock twice, so its model
  takes two instants.  \<open>JSON.parse\<close> of the edit dialog is a parameter
  returning a \<open>json_parse_result\<close>.  The result of a Supabase call is a
  \<open>db_error\<close>: \<open>None\<close> for success, \<open>Some message\<close> for an error.
  Strings are lists of UTF-16 code units, and the messages are the source's
  literals.

  \<^bold>\<open>Regular expressions (theory \<open>Regex\<close>).\<close>
  The anchored patterns of the validators (\<open>/^\d{4}$/\<close>, the email pattern
  and \<open>/^\d{9}-\d$/\<close>) are terms of \<open>rexp\<close>.  Their meaning is \<open>lang\<close>, and
  \<open>matcher\<close> is an executable Brzozowski-derivative matcher, proved equal
  to \<open>lang\<close> membership (\<open>matcher_correct\<close>).  The pattern equivalences
  \<open>activity_code_rx_iff\<close>, \<open>nit_rx_iff\<close> and \<open>email_rx_iff\<close> turn each pattern
  into a plain predicate.

  \<^bold>\<open>Constraint validation (theories \<open>SupplierDialog\<close>,
  \<open>ReceptionDialog\<close>, \<open>ProductDialog\<close>).\<close>
  No form has \<open>noValidate\<close>, so the browser checks each form before its
  \<open>onSubmit\<close> runs, and a submit that fails the check changes nothing.
  \<open>supplier_form_valid\<close>, \<open>reception_form_valid\<close> and
  \<open>product_form_valid\<close> are those checks: the \<open>required\<close> inputs and
  selects are non-empty; an \<open>type="email"\<close> value is empty or a valid
  e-mail address of the HTML standard (\<open>html_email_ok\<close>); and the quantity
  (\<open>type="number" min="1"\<close>, step 1) is a valid floating-point number of
  the HTML standard (\<open>html_float\<close>) whose value is an integer of at least
  1.  The value a number or e-mail input hands to \<open>onChange\<close> is sanitized
  as the standard says (\<open>number_input_value\<close>, \<open>email_input_value\<close>).

  \<^bold>\<open>What is proved.\<close>
  \<^item> For every validator, the exact set of inputs it accepts (the
    \<open>*_valid_iff\<close> theorems), and the messages on each failing branch.
    The update validators skip the NIT, required-field and date rules, which
    the findings record.
  \<^item> The add-supplier dialog keeps its activity list distinct and made of
    four-digit codes on every reachable state (rule induction over
    \<open>reachable_from\<close>), so the payload it submits passes the validator's
    activity rule.  But for every malformed NIT number, and for every address
    without a dot that the browser's e-mail check accepts, the dialog reaches
    a form the browser lets through and whose payload the validator rejects.
  \<^item> The edit dialog only adds conforming codes to the list it loaded.
  \<^item> \<open>ReceptionsService.getAll\<close> attaches the referenced rows on a store
    with intact references.
  \<^item> Used one call at a time, \<open>useProducts\<close> keeps its list equal to what
    \<open>getAll\<close> returns.  This is a refinement proved by rule induction over
    \<open>reachable_from\<close>; the clock running forward is what makes the prepend
    after \<open>create\<close> right.  \<open>useReceptions\<close> does not: its prepend ignores
    the \<open>reception_date\<close> order of \<open>getAll\<close>.
  \<^item> The validation gate of a hook throws the joined messages and changes
    nothing.
  \<^item> With overlapping calls, from every world with nothing in flight, the
    products hook loses a created row when a stale load settles last, and
    lists it twice when a later load settles first.  Whenever two requests
    are in flight, the first to settle clears \<open>loading\<close>.  Still, from every
    reachable world, delivering the replies in flight ends (a measure on the
    queue's length) with \<open>loading\<close> false.
  \<^item> The products search shows exactly the products whose status matches
    and whose name, code or laboratory contains the term, ignoring case.
  \<^item> For every reception form the browser lets through, the stored quantity
    is \<open>parseInt\<close> of the entry, i.e. its leading digits: \<open>1e3\<close>, which
    the browser validates as 1000, is stored as 1.  \<open>js_parseInt\<close> reads
    back the decimal \<open>toString\<close> of a natural number, so saving the
    edit-reception dialog unchanged keeps an integer quantity.
  \<^item> Saving the edit-product dialog unchanged changes only
    \<open>updated_at\<close> exactly when the description and the laboratory are
    present.
  \<^item> A reception's badge never falls to the grey default colour, and its
    label is the dialogs' label for its state.  The suppliers list and the
    edit dialog read an array, or a JSON array text, alike; a JSON string
    text makes the list throw.
  \<^item> The receptions page gives the edit dialog no option for an inactive
    product that a reception references.  The navigation bar highlights
    exactly one item on the path of each of its links, and none elsewhere.
  \<^item> Supporting lemmas, not listed as properties: every service write keeps
    the store model's integrity (\<open>store_keeps_integrity\<close>, a property of
    the modelled schema), and an asynchronous call settled at once equals the
    sequential operation (\<open>useProducts_async_sequential\<close>).

  \<^bold>\<open>Not modelled.\<close>
  Layout, CSS classes other than the state colours, icons and
  \<open>layout.tsx\<close> (metadata, fonts, the \<open>Suspense\<close> wrapper), the
  \<open>@/components/ui\<close> widgets and \<open>@/lib/utils\<close> the components import
  (not part of \<open>src/\<close>), the sanitization of the \<open>date\<close> and
  \<open>datetime-local\<close> inputs (only their \<open>required\<close> check is modelled),
  and the Supabase client and database, whose replies are inputs; the
  store's foreign keys are taken to cascade on delete, as the delete dialogs
  tell the user, since the schema is not in the repository.  Toast
  notifications and \<open>router.refresh()\<close> change no modelled state.  The
  \<open>loading\<close> flag set before an \<open>await\<close> in the dialogs is not
  represented: their submissions are atomic.
\<close>

section \<open>Dialogs against validators\<close>

text \<open>C7 (add-supplier payload and the activity rule): whatever sequence of
  events the add-supplier dialog receives, the payload it submits never draws
  an economic-activity message from \<open>SupplierValidation.validateCreate\<close>: the
  dialog's input sanitising and its add button enforce the validator's rule.\<close>

theorem add_supplier_payload_passes_activity_rule:
  assumes "reachable_from add_supplier_step add_supplier_init s"
  shows "filter (prefix msg_activity_prefix)
           (errors (supplier_validateCreate (supplier_insert_payload (formData s)))) = []"
proof -
  have "activity_state_ok s"
    using assms add_supplier_init_ok add_supplier_step_ok by (rule reachable_from_invariant)
  then have "list_all activity_code_ok (form_economic_activity (formData s))"
    by (simp add: activity_state_ok_def)
  then show ?thesis
    by (simp add: supplier_validateCreate_def supplier_insert_payload_def
        filter_activity_prefix_check_email filter_activity_prefix_err_if no_activity_prefix
        filter_activity_prefix_map activity_errors_eq filter_empty_conv list_all_iff)
qed

theorem add_supplier_payload_passes_activity_rule_witness:
  "filter (prefix msg_activity_prefix)
     (errors (supplier_validateCreate (supplier_insert_payload (formData
       (run add_supplier_step add_supplier_init
          [SetOpen True, TypeActivityCode ''12'', ClickAdd, TypeActivityCode ''4645'', ClickAdd,
           TypeActivityCode ''4645'', ClickAdd, TypeActivityCode ''9'']))))) = []"
  by (rule add_supplier_payload_passes_activity_rule) (rule reachable_from_run)

end
